theory Spec2Isabelle
  imports Complex_Main "HOL-Library.Sublist"
begin

section \<open>Strings and message templates\<close>

text \<open>
  The action layer classifies chat text with \<^verbatim>\<open>toLowerCase\<close>, \<^verbatim>\<open>includes\<close> and a
  handful of case-insensitive regular expressions. Strings are byte lists; only the ASCII
  letters are case-folded.
\<close>

definition lowerChar :: "char \<Rightarrow> char" where
  "lowerChar c =
     (let n = (of_char c :: nat) in
      if 65 \<le> n \<and> n \<le> 90
      then (case c of Char b0 b1 b2 b3 b4 b5 b6 b7 \<Rightarrow> Char b0 b1 b2 b3 b4 True b6 b7)
      else c)"

definition toLowerCase :: "string \<Rightarrow> string" where
  "toLowerCase s = map lowerChar s"

fun str_includes :: "string \<Rightarrow> string \<Rightarrow> bool" where
  "str_includes [] p = (p = [])"
| "str_includes (c # cs) p = (prefix p (c # cs) \<or> str_includes cs p)"

text \<open>\<^verbatim>\<open>/word/i.test(s)\<close> and \<^verbatim>\<open>/^word$/i.test(s)\<close> for a lower-case literal word.\<close>

definition re_has :: "string \<Rightarrow> string \<Rightarrow> bool" where
  "re_has word s = str_includes (toLowerCase s) word"

definition re_is :: "string \<Rightarrow> string \<Rightarrow> bool" where
  "re_is word s = (toLowerCase s = word)"

text \<open>
  A result message is a template literal: literal chunks and interpolated values, kept in
  the order the source writes them. \<open>Arg\<close> stands for the interpolated caller-supplied
  target.
\<close>

datatype piece = Lit string | Num int | Str string | Strs "string list" | Flag "bool option" | Arg

type_synonym rendered = "piece list"

section \<open>The world snapshot\<close>

text \<open>
  The fields of \<^verbatim>\<open>BotWorldState\<close> and its parts that \<^verbatim>\<open>sdk/actions.ts\<close> reads.
  Coordinates, ids, slots, ticks and experience are integers; stack counts are naturals.
\<close>

record option_entry =
  op_text :: string
  opIndex :: int

record player_state =
  worldX :: int
  worldZ :: int

record game_message =
  msg_text :: string
  msg_tick :: int

record nearby_npc =
  npc_index :: int
  npc_name :: string
  npc_distance :: int
  npc_optionsWithIndex :: "option_entry list"

record nearby_loc =
  loc_x :: int
  loc_z :: int
  loc_id :: int
  loc_name :: string
  loc_distance :: int
  loc_options :: "string list"
  loc_optionsWithIndex :: "option_entry list"

record ground_item =
  gi_x :: int
  gi_z :: int
  gi_id :: int
  gi_name :: string

record inventory_item =
  inv_slot :: int
  inv_id :: int
  inv_name :: string
  inv_count :: nat
  inv_optionsWithIndex :: "option_entry list"

record shop_item =
  si_slot :: int
  si_id :: int
  si_name :: string
  si_count :: nat

record skill_state =
  sk_name :: string
  sk_experience :: int
  sk_level :: int

record dialog_option =
  dlg_index :: int
  dlg_text :: string

record dialog_state =
  dlg_isOpen :: bool
  dlg_options :: "dialog_option list"

record shop_state =
  shop_isOpen :: bool
  shop_title :: string
  shopItems :: "shop_item list"
  playerItems :: "shop_item list"

record interface_state =
  if_isOpen :: bool
  interfaceId :: int

record world_state =
  player :: "player_state option"
  tick :: int
  gameMessages :: "game_message list"
  inventory :: "inventory_item list"
  equipment :: "inventory_item list"
  nearbyNpcs :: "nearby_npc list"
  nearbyLocs :: "nearby_loc list"
  groundItems :: "ground_item list"
  skills :: "skill_state list"
  dialog :: dialog_state
  shop :: shop_state
  interface :: "interface_state option"

section \<open>The session: snapshot source, command channel and clock\<close>

text \<open>
  Modelled from the spec: the plumbing class \<^verbatim>\<open>BotSDK\<close> (\<^verbatim>\<open>sdk/index.ts\<close>) is an
  external collaborator (spec sections 2 and 6). A session is a scripted run of it: the
  snapshot \<^verbatim>\<open>getState()\<close> shows at each millisecond, the local-validation reply
  to each command, the answer to each path query, a clock, and the log of commands issued
  so far. Commands are intent-only and return at once; the clock moves only in timers and
  waits. The reply to a command is a result object of the plumbing, which may carry a
  reason of its own. A timer never fires early: \<open>late w t\<close> is the number of milliseconds by
  which a timer set at time \<open>t\<close> fires after it is due.
\<close>

datatype command =
    Walk int int bool
  | FindPath int int int
  | InteractNpc int int
  | InteractLoc int int int int
  | TalkToNpc int
  | UseItem int int
  | UseEquipmentItem int int
  | UseItemOnItem int int
  | Pickup int int int
  | ClickDialog int
  | BankDeposit int int
  | BankWithdraw int int
  | ShopBuy int int
  | ShopSell int int
  | SpellOnNpc int int
  | CloseShop
  | CloseModal

record ack =
  ack_success :: bool
  ack_message :: rendered
  ack_reason :: "string option"

record path_result =
  path_success :: bool
  waypoints :: "(int \<times> int) list option"

record session =
  clock :: nat
  feed :: "nat \<Rightarrow> world_state option"
  reply :: "nat \<Rightarrow> command \<Rightarrow> ack"
  paths :: "nat \<Rightarrow> int \<Rightarrow> int \<Rightarrow> path_result"
  late :: "nat \<Rightarrow> nat"
  sent :: "command list"

datatype error = ConditionTimeout

definition getState :: "session \<Rightarrow> world_state option" where
  "getState w = feed w (clock w)"

definition send :: "command \<Rightarrow> session \<Rightarrow> ack \<times> session" where
  "send c w = (reply w (clock w) c, w\<lparr>sent := sent w @ [c]\<rparr>)"

definition sendFindPath :: "int \<Rightarrow> int \<Rightarrow> int \<Rightarrow> session \<Rightarrow> path_result \<times> session" where
  "sendFindPath x z maxWaypoints w =
     (paths w (clock w) x z, w\<lparr>sent := sent w @ [FindPath x z maxWaypoints]\<rparr>)"

text \<open>\<^verbatim>\<open>await new Promise(resolve => setTimeout(resolve, ms))\<close>: the code goes on \<open>ms\<close>
  milliseconds later, or later than that.\<close>

definition sleep :: "nat \<Rightarrow> session \<Rightarrow> session" where
  "sleep ms w = w\<lparr>clock := clock w + ms + late w (clock w)\<rparr>"

text \<open>
  Modelled from the spec: \<^verbatim>\<open>waitForCondition(predicate, timeoutMs)\<close> (spec 4.1) polls
  the snapshot stream until the predicate holds and fails with a timeout otherwise; a
  missing snapshot counts as not satisfied. \<open>firstSatisfying p f t n\<close> is the first of the
  \<open>n\<close> snapshots from time \<open>t\<close> on that satisfies \<open>p\<close>, with its time.
\<close>

fun firstSatisfying ::
  "(world_state \<Rightarrow> bool) \<Rightarrow> (nat \<Rightarrow> world_state option) \<Rightarrow> nat \<Rightarrow> nat \<Rightarrow> (nat \<times> world_state) option"
where
  "firstSatisfying p f t 0 = None"
| "firstSatisfying p f t (Suc n) =
     (case f t of
        None \<Rightarrow> firstSatisfying p f (Suc t) n
      | Some s \<Rightarrow> if p s then Some (t, s) else firstSatisfying p f (Suc t) n)"

definition waitForCondition ::
  "(world_state \<Rightarrow> bool) \<Rightarrow> nat \<Rightarrow> session \<Rightarrow> (error + world_state) \<times> session"
where
  "waitForCondition p timeout w =
     (case firstSatisfying p (feed w) (clock w) timeout of
        None \<Rightarrow> (Inl ConditionTimeout, w\<lparr>clock := clock w + timeout\<rparr>)
      | Some (t, s) \<Rightarrow> (Inr s, w\<lparr>clock := t\<rparr>))"

text \<open>
  Modelled from the spec: the read helpers of \<^verbatim>\<open>BotSDK\<close> (\<^verbatim>\<open>getInventory\<close>,
  \<^verbatim>\<open>getNearbyLocs\<close>, \<^verbatim>\<open>getSkill\<close>, \<^verbatim>\<open>findInventoryItem\<close>, ...) read the current
  snapshot; the finders return the first match of the live collection or null (spec
  4.4). A pattern (a string or a regular expression) is its test on the entity's name.
\<close>

datatype 'a target = Handle 'a | Pattern "string \<Rightarrow> bool"

definition getInventory :: "session \<Rightarrow> inventory_item list" where
  "getInventory w = (case getState w of None \<Rightarrow> [] | Some s \<Rightarrow> inventory s)"

definition getNearbyLocs :: "session \<Rightarrow> nearby_loc list" where
  "getNearbyLocs w = (case getState w of None \<Rightarrow> [] | Some s \<Rightarrow> nearbyLocs s)"

definition getSkill :: "string \<Rightarrow> session \<Rightarrow> skill_state option" where
  "getSkill n w =
     (case getState w of None \<Rightarrow> None | Some s \<Rightarrow> find (\<lambda>k. sk_name k = n) (skills s))"

definition findInventoryItem :: "(string \<Rightarrow> bool) \<Rightarrow> session \<Rightarrow> inventory_item option" where
  "findInventoryItem pat w = find (\<lambda>i. pat (inv_name i)) (getInventory w)"

definition findEquipmentItem :: "(string \<Rightarrow> bool) \<Rightarrow> session \<Rightarrow> inventory_item option" where
  "findEquipmentItem pat w =
     (case getState w of None \<Rightarrow> None | Some s \<Rightarrow> find (\<lambda>i. pat (inv_name i)) (equipment s))"

definition findNearbyNpc :: "(string \<Rightarrow> bool) \<Rightarrow> session \<Rightarrow> nearby_npc option" where
  "findNearbyNpc pat w =
     (case getState w of None \<Rightarrow> None | Some s \<Rightarrow> find (\<lambda>n. pat (npc_name n)) (nearbyNpcs s))"

definition findNearbyLoc :: "(string \<Rightarrow> bool) \<Rightarrow> session \<Rightarrow> nearby_loc option" where
  "findNearbyLoc pat w = find (\<lambda>l. pat (loc_name l)) (getNearbyLocs w)"

definition findGroundItem :: "(string \<Rightarrow> bool) \<Rightarrow> session \<Rightarrow> ground_item option" where
  "findGroundItem pat w =
     (case getState w of None \<Rightarrow> None | Some s \<Rightarrow> find (\<lambda>g. pat (gi_name g)) (groundItems s))"

section \<open>Results\<close>

text \<open>
  \<^verbatim>\<open>ActionResult\<close> and the result types of \<^verbatim>\<open>sdk/types.ts\<close> that extend it with a
  payload. The reason is the string the source writes; an absent optional field is \<open>None\<close>.
\<close>

record action_result =
  success :: bool
  message :: rendered
  reason :: "string option"

record door_result = action_result +
  door :: "nearby_loc option"

record chop_result = action_result +
  logs :: "inventory_item option"

record burn_result = action_result +
  xpGained :: int

record item_result = action_result +
  item :: "inventory_item option"

record talk_result = action_result +
  talk_dialog :: "dialog_state option"

record sell_result = action_result +
  amountSold :: "int option"
  rejected :: "bool option"

record eat_result = action_result +
  hpGained :: int

record cast_result = action_result +
  hit :: "bool option"
  cast_xpGained :: "int option"

record deposit_result = action_result +
  amountDeposited :: "int option"

record move_result =
  arrived :: bool
  stoppedMoving :: bool
  at_x :: int
  at_z :: int

section \<open>Reading a snapshot that may be missing\<close>

text \<open>The optional chains \<^verbatim>\<open>state?.player\<close>, \<^verbatim>\<open>state?.interface?.isOpen\<close>,
  \<^verbatim>\<open>state?.shop.isOpen\<close>, \<^verbatim>\<open>state?.dialog?.isOpen\<close> and \<^verbatim>\<open>getState()?.tick || 0\<close>.\<close>

definition playerOf :: "world_state option \<Rightarrow> player_state option" where
  "playerOf st = (case st of None \<Rightarrow> None | Some s \<Rightarrow> player s)"

definition interfaceOpen :: "world_state option \<Rightarrow> bool" where
  "interfaceOpen st =
     (case st of
        None \<Rightarrow> False
      | Some s \<Rightarrow> (case interface s of None \<Rightarrow> False | Some i \<Rightarrow> if_isOpen i))"

definition shopOpen :: "world_state option \<Rightarrow> bool" where
  "shopOpen st = (case st of None \<Rightarrow> False | Some s \<Rightarrow> shop_isOpen (shop s))"

definition dialogOpen :: "world_state option \<Rightarrow> bool" where
  "dialogOpen st = (case st of None \<Rightarrow> False | Some s \<Rightarrow> dlg_isOpen (dialog s))"

definition tickOf :: "world_state option \<Rightarrow> int" where
  "tickOf st = (case st of None \<Rightarrow> 0 | Some s \<Rightarrow> tick s)"

section \<open>Chat evidence\<close>

text \<open>
  Every verified action scans the chat with the same two loops: the wait predicate asks
  whether some message newer than \<open>startTick\<close> carries a phrase, and the code after the wait
  returns at the first such message, in list order, with the result of its first matching
  phrase.
\<close>

definition anyMessage :: "(string \<Rightarrow> bool) \<Rightarrow> int \<Rightarrow> game_message list \<Rightarrow> bool" where
  "anyMessage phrase startTick msgs =
     list_ex (\<lambda>m. msg_tick m > startTick \<and> phrase (toLowerCase (msg_text m))) msgs"

fun firstVerdict :: "(string \<Rightarrow> 'r option) \<Rightarrow> int \<Rightarrow> game_message list \<Rightarrow> 'r option" where
  "firstVerdict classify startTick [] = None"
| "firstVerdict classify startTick (m # ms) =
     (if msg_tick m > startTick
      then (case classify (toLowerCase (msg_text m)) of
              Some r \<Rightarrow> Some r
            | None \<Rightarrow> firstVerdict classify startTick ms)
      else firstVerdict classify startTick ms)"

definition unreachableText :: "string \<Rightarrow> bool" where
  "unreachableText t = (str_includes t ''can't reach'' \<or> str_includes t ''cannot reach'')"

definition inventoryFullText :: "string \<Rightarrow> bool" where
  "inventoryFullText t = (str_includes t ''inventory'' \<and> str_includes t ''full'')"

definition inCombatText :: "string \<Rightarrow> bool" where
  "inCombatText t = (str_includes t ''someone else is fighting'' \<or> str_includes t ''already under attack'')"

definition noRunesText :: "string \<Rightarrow> bool" where
  "noRunesText t = (str_includes t ''do not have enough'' \<or> str_includes t ''don't have enough'')"

section \<open>Resolution helpers\<close>

definition resolveLocation ::
  "nearby_loc target option \<Rightarrow> (string \<Rightarrow> bool) \<Rightarrow> session \<Rightarrow> nearby_loc option"
where
  "resolveLocation target defaultPattern w =
     (case target of
        None \<Rightarrow> findNearbyLoc defaultPattern w
      | Some (Handle l) \<Rightarrow> Some l
      | Some (Pattern p) \<Rightarrow> findNearbyLoc p w)"

definition resolveInventoryItem ::
  "inventory_item target option \<Rightarrow> (string \<Rightarrow> bool) \<Rightarrow> session \<Rightarrow> inventory_item option"
where
  "resolveInventoryItem target defaultPattern w =
     (case target of
        None \<Rightarrow> findInventoryItem defaultPattern w
      | Some (Handle i) \<Rightarrow> Some i
      | Some (Pattern p) \<Rightarrow> findInventoryItem p w)"

definition resolveGroundItem :: "ground_item target \<Rightarrow> session \<Rightarrow> ground_item option" where
  "resolveGroundItem target w =
     (case target of Handle g \<Rightarrow> Some g | Pattern p \<Rightarrow> findGroundItem p w)"

definition resolveNpc :: "nearby_npc target \<Rightarrow> session \<Rightarrow> nearby_npc option" where
  "resolveNpc target w =
     (case target of Handle n \<Rightarrow> Some n | Pattern p \<Rightarrow> findNearbyNpc p w)"

text \<open>A shop or inventory handle is used through its id only.\<close>

definition resolveShopItem :: "shop_item target \<Rightarrow> shop_item list \<Rightarrow> shop_item option" where
  "resolveShopItem target items =
     (case target of
        Handle h \<Rightarrow> find (\<lambda>i. si_id i = si_id h) items
      | Pattern p \<Rightarrow> find (\<lambda>i. p (si_name i)) items)"

text \<open>\<^verbatim>\<open>/./\<close>: some character that is not a line terminator.\<close>

definition re_any :: "string \<Rightarrow> bool" where
  "re_any s = list_ex (\<lambda>c. c \<noteq> CHR 0x0A \<and> c \<noteq> CHR 0x0D) s"

definition hasOption :: "(string \<Rightarrow> bool) \<Rightarrow> option_entry list \<Rightarrow> bool" where
  "hasOption p opts = list_ex (\<lambda>o'. p (op_text o')) opts"

definition findOption :: "(string \<Rightarrow> bool) \<Rightarrow> option_entry list \<Rightarrow> option_entry option" where
  "findOption p opts = find (\<lambda>o'. p (op_text o')) opts"

section \<open>Movement\<close>

definition dist2d :: "int \<Rightarrow> int \<Rightarrow> int \<Rightarrow> int \<Rightarrow> real" where
  "dist2d tx tz px pz = sqrt (real_of_int ((tx - px)\<^sup>2 + (tz - pz)\<^sup>2))"

definition POLL_INTERVAL :: nat where "POLL_INTERVAL = 150"
definition STUCK_THRESHOLD :: nat where "STUCK_THRESHOLD = 600"
definition MIN_TIMEOUT :: real where "MIN_TIMEOUT = 2000"
definition TILES_PER_SECOND :: real where "TILES_PER_SECOND = 4.5"

text \<open>The adaptive timeout of \<^verbatim>\<open>waitForMovementComplete\<close>.\<close>

definition maxTimeoutFor :: "real \<Rightarrow> real" where
  "maxTimeoutFor distance =
     (let expectedTime = (distance / TILES_PER_SECOND) * 1000
      in max MIN_TIMEOUT (expectedTime * 1.5))"

text \<open>The polling loop of \<^verbatim>\<open>waitForMovementComplete\<close>, with the loop variables
  \<open>lastX\<close>, \<open>lastZ\<close>, \<open>lastMoveTime\<close> as arguments, and the code after the loop.\<close>

definition moveTimedOut :: "int \<Rightarrow> int \<Rightarrow> real \<Rightarrow> int \<Rightarrow> int \<Rightarrow> session \<Rightarrow> move_result" where
  "moveTimedOut targetX targetZ tolerance lastX lastZ w =
     (let finalX = (case playerOf (getState w) of None \<Rightarrow> lastX | Some p \<Rightarrow> worldX p);
          finalZ = (case playerOf (getState w) of None \<Rightarrow> lastZ | Some p \<Rightarrow> worldZ p);
          finalDist = dist2d targetX targetZ finalX finalZ
      in \<lparr>arrived = (finalDist \<le> tolerance), stoppedMoving = True, at_x = finalX, at_z = finalZ\<rparr>)"

function moveLoop ::
  "int \<Rightarrow> int \<Rightarrow> real \<Rightarrow> nat \<Rightarrow> real \<Rightarrow> int \<Rightarrow> int \<Rightarrow> nat \<Rightarrow> session \<Rightarrow> move_result \<times> session"
where
  "moveLoop targetX targetZ tolerance startTime maxTimeout lastX lastZ lastMoveTime w =
     (if real (clock w) - real startTime < maxTimeout then
        (let w1 = sleep POLL_INTERVAL w in
         case playerOf (getState w1) of
           None \<Rightarrow> (\<lparr>arrived = False, stoppedMoving = True, at_x = lastX, at_z = lastZ\<rparr>, w1)
         | Some p \<Rightarrow>
             (let currentX = worldX p; currentZ = worldZ p;
                  distToTarget = dist2d targetX targetZ currentX currentZ
              in if distToTarget \<le> tolerance
                 then (\<lparr>arrived = True, stoppedMoving = False, at_x = currentX, at_z = currentZ\<rparr>, w1)
                 else if currentX \<noteq> lastX \<or> currentZ \<noteq> lastZ
                 then moveLoop targetX targetZ tolerance startTime maxTimeout currentX currentZ (clock w1) w1
                 else if clock w1 - lastMoveTime > STUCK_THRESHOLD
                 then (\<lparr>arrived = False, stoppedMoving = True, at_x = currentX, at_z = currentZ\<rparr>, w1)
                 else moveLoop targetX targetZ tolerance startTime maxTimeout lastX lastZ lastMoveTime w1))
      else (moveTimedOut targetX targetZ tolerance lastX lastZ w, w))"
  by pat_completeness auto
termination
proof (relation "measure (\<lambda>(targetX, targetZ, tolerance, startTime, maxTimeout, lastX, lastZ, lastMoveTime, w).
                   nat \<lceil>maxTimeout\<rceil> + startTime - clock w)")
  show "wf (measure (\<lambda>(targetX, targetZ, tolerance, startTime, maxTimeout, lastX, lastZ, lastMoveTime, w).
                   nat \<lceil>maxTimeout\<rceil> + startTime - clock w))"
    by simp
next
  fix targetX targetZ :: int and tolerance maxTimeout :: real and startTime lastMoveTime :: nat
    and lastX lastZ :: int and w w1 :: session
  assume a: "real (clock w) - real startTime < maxTimeout" and w1: "w1 = sleep POLL_INTERVAL w"
  from a have "real (clock w) < real_of_int \<lceil>maxTimeout\<rceil> + real startTime"
    by linarith
  then have "int (clock w) < \<lceil>maxTimeout\<rceil> + int startTime"
    by linarith
  then have "clock w < nat \<lceil>maxTimeout\<rceil> + startTime"
    by linarith
  then have lt: "nat \<lceil>maxTimeout\<rceil> + startTime - clock w1 < nat \<lceil>maxTimeout\<rceil> + startTime - clock w"
    by (simp add: w1 sleep_def POLL_INTERVAL_def)
  {
    fix p x xa xb
    show "((targetX, targetZ, tolerance, startTime, maxTimeout, x, xa, clock w1, w1),
           targetX, targetZ, tolerance, startTime, maxTimeout, lastX, lastZ, lastMoveTime, w)
          \<in> measure (\<lambda>(targetX, targetZ, tolerance, startTime, maxTimeout, lastX, lastZ, lastMoveTime, w).
                   nat \<lceil>maxTimeout\<rceil> + startTime - clock w)"
      using lt by simp
  }
  show "((targetX, targetZ, tolerance, startTime, maxTimeout, lastX, lastZ, lastMoveTime, w1),
         targetX, targetZ, tolerance, startTime, maxTimeout, lastX, lastZ, lastMoveTime, w)
        \<in> measure (\<lambda>(targetX, targetZ, tolerance, startTime, maxTimeout, lastX, lastZ, lastMoveTime, w).
                   nat \<lceil>maxTimeout\<rceil> + startTime - clock w)"
    using lt by simp
qed

declare moveLoop.simps [simp del]

definition waitForMovementComplete :: "int \<Rightarrow> int \<Rightarrow> real \<Rightarrow> session \<Rightarrow> move_result \<times> session" where
  "waitForMovementComplete targetX targetZ tolerance w =
     (case playerOf (getState w) of
        None \<Rightarrow> (\<lparr>arrived = False, stoppedMoving = True, at_x = 0, at_z = 0\<rparr>, w)
      | Some p \<Rightarrow>
          (let startX = worldX p; startZ = worldZ p;
               distance = dist2d targetX targetZ startX startZ;
               maxTimeout = maxTimeoutFor distance
           in moveLoop targetX targetZ tolerance (clock w) maxTimeout startX startZ (clock w) w))"

text \<open>\<^verbatim>\<open>walkTo\<close>: the replanning loop. One pass of the loop body either returns from
  \<^verbatim>\<open>walkTo\<close> or reaches the stuck accounting with the progress it made and the position
  it ended at.\<close>

datatype 'a flow = Return action_result | Continue 'a

definition MAX_PATH_QUERIES :: nat where "MAX_PATH_QUERIES = 80"
definition WAYPOINT_STEP :: nat where "WAYPOINT_STEP = 5"
definition INTERMEDIATE_DISTANCES :: "real list" where "INTERMEDIATE_DISTANCES = [60, 40, 25]"
definition PERPENDICULAR_OFFSETS :: "real list" where "PERPENDICULAR_OFFSETS = [0, 15, -15, 30, -30]"

definition at_text :: "string \<Rightarrow> int \<Rightarrow> int \<Rightarrow> rendered" where
  "at_text lead px pz = [Lit lead, Num px, Lit '', '', Num pz, Lit '')'']"

definition hasWaypoints :: "path_result \<Rightarrow> bool" where
  "hasWaypoints pr = (case waypoints pr of None \<Rightarrow> False | Some wps \<Rightarrow> wps \<noteq> [])"

text \<open>\<^verbatim>\<open>Math.round\<close>\<close>

definition jsRound :: "real \<Rightarrow> int" where
  "jsRound v = \<lfloor>v + 1 / 2\<rfloor>"

text \<open>The intermediate points of the long-range search, in the order the nested loops
  query them: a distance not below the distance to the goal is skipped.\<close>

definition intermediateTargets :: "int \<Rightarrow> int \<Rightarrow> int \<Rightarrow> int \<Rightarrow> real \<Rightarrow> (int \<times> int) list" where
  "intermediateTargets x z currentX currentZ distToGoal =
     (let dirX = real_of_int (x - currentX) / distToGoal;
          dirZ = real_of_int (z - currentZ) / distToGoal;
          perpX = - dirZ;
          perpZ = dirX
      in concat (map (\<lambda>dist.
           if dist \<ge> distToGoal then []
           else map (\<lambda>offset.
                  (jsRound (real_of_int currentX + dirX * dist + perpX * offset),
                   jsRound (real_of_int currentZ + dirZ * dist + perpZ * offset)))
                PERPENDICULAR_OFFSETS)
         INTERMEDIATE_DISTANCES))"

fun intermediateSearch :: "(int \<times> int) list \<Rightarrow> path_result \<Rightarrow> session \<Rightarrow> path_result \<times> session" where
  "intermediateSearch [] pathResult w = (pathResult, w)"
| "intermediateSearch ((ix, iz) # rest) pathResult w =
     (let (pathResult', w1) = sendFindPath ix iz 500 w
      in if hasWaypoints pathResult' then (pathResult', w1)
         else intermediateSearch rest pathResult' w1)"

definition directWalk :: "int \<Rightarrow> int \<Rightarrow> real \<Rightarrow> session \<Rightarrow> action_result \<times> session" where
  "directWalk x z tolerance w =
     (let (u, w1) = send (Walk x z True) w
      in case waitForCondition
                (\<lambda>s. case player s of
                        None \<Rightarrow> False
                      | Some p \<Rightarrow> dist2d x z (worldX p) (worldZ p) \<le> tolerance)
                10000 w1 of
           (Inr s, w2) \<Rightarrow>
             (\<lparr>success = True, message = at_text ''Arrived at ('' x z, reason = None\<rparr>, w2)
         | (Inl e, w2) \<Rightarrow>
             (\<lparr>success = False, message = at_text ''No path found to ('' x z, reason = None\<rparr>, w2))"

function strideLoop ::
  "int \<Rightarrow> int \<Rightarrow> real \<Rightarrow> (int \<times> int) list \<Rightarrow> nat \<Rightarrow> session \<Rightarrow> unit flow \<times> session"
where
  "strideLoop x z tolerance wps wpIndex w =
     (if wpIndex < length wps then
        (let (wx, wz) = wps ! wpIndex;
             (u, w1) = send (Walk wx wz True) w;
             (moveResult, w2) = waitForMovementComplete wx wz 3 w1
         in if playerOf (getState w2) = None
            then (Return \<lparr>success = False, message = [Lit ''Lost connection during walk''],
                           reason = None\<rparr>, w2)
            else
              (let newDist = dist2d x z (at_x moveResult) (at_z moveResult)
               in if newDist \<le> tolerance
                  then (Return \<lparr>success = True,
                                 message = at_text ''Arrived at ('' (at_x moveResult) (at_z moveResult),
                                 reason = None\<rparr>, w2)
                  else if stoppedMoving moveResult \<and> \<not> arrived moveResult
                  then (Continue (), w2)
                  else strideLoop x z tolerance wps (wpIndex + WAYPOINT_STEP) w2))
      else (Continue (), w))"
  by pat_completeness auto
termination
  by (relation "measure (\<lambda>(x, z, tolerance, wps, wpIndex, w). length wps - wpIndex)")
     (auto simp: WAYPOINT_STEP_def)

declare strideLoop.simps [simp del]

definition walkAttempt ::
  "int \<Rightarrow> int \<Rightarrow> real \<Rightarrow> session \<Rightarrow> (real \<times> int \<times> int) flow \<times> session"
where
  "walkAttempt x z tolerance w =
     (case playerOf (getState w) of
        None \<Rightarrow>
          (Return \<lparr>success = False, message = [Lit ''Lost player state''], reason = None\<rparr>, w)
      | Some p \<Rightarrow>
          (let currentX = worldX p; currentZ = worldZ p;
               distToGoal = dist2d x z currentX currentZ
           in if distToGoal \<le> tolerance
              then (Return \<lparr>success = True, message = at_text ''Arrived at ('' currentX currentZ,
                             reason = None\<rparr>, w)
              else
                (let (firstResult, w1) = sendFindPath x z 500 w;
                     (pathResult, w2) =
                        (if \<not> hasWaypoints firstResult \<and> distToGoal > 40
                         then intermediateSearch
                                (intermediateTargets x z currentX currentZ distToGoal) firstResult w1
                         else (firstResult, w1))
                 in if \<not> path_success pathResult \<or> \<not> hasWaypoints pathResult
                    then (let (r, w3) = directWalk x z tolerance w2 in (Return r, w3))
                    else
                      (let wps = (case waypoints pathResult of None \<Rightarrow> [] | Some l \<Rightarrow> l)
                       in case strideLoop x z tolerance wps
                                 (min (WAYPOINT_STEP - 1) (length wps - 1)) w2 of
                            (Return r, w3) \<Rightarrow> (Return r, w3)
                          | (Continue u, w3) \<Rightarrow>
                              (let w5 = (if wps = [] then w3
                                         else (let (lx, lz) = wps ! (length wps - 1);
                                                   (u, w4) = send (Walk lx lz True) w3
                                               in snd (waitForMovementComplete lx lz 3 w4)));
                                   afterX = (case playerOf (getState w5) of
                                               None \<Rightarrow> currentX | Some q \<Rightarrow> worldX q);
                                   afterZ = (case playerOf (getState w5) of
                                               None \<Rightarrow> currentZ | Some q \<Rightarrow> worldZ q);
                                   newDistToGoal = dist2d x z afterX afterZ
                               in if newDistToGoal \<le> tolerance
                                  then (Return \<lparr>success = True,
                                                 message = at_text ''Arrived at ('' afterX afterZ,
                                                 reason = None\<rparr>, w5)
                                  else (Continue (distToGoal - newDistToGoal, afterX, afterZ), w5))))))"

definition stuckResult :: "int \<Rightarrow> int \<Rightarrow> int \<Rightarrow> int \<Rightarrow> action_result" where
  "stuckResult afterX afterZ x z =
     \<lparr>success = False,
      message = at_text ''Stuck at ('' afterX afterZ @ at_text '' - cannot reach ('' x z,
      reason = None\<rparr>"

definition walkGaveUp :: "int \<Rightarrow> int \<Rightarrow> real \<Rightarrow> int \<Rightarrow> int \<Rightarrow> session \<Rightarrow> action_result" where
  "walkGaveUp x z tolerance startX startZ w =
     (let finalX = (case playerOf (getState w) of None \<Rightarrow> startX | Some p \<Rightarrow> worldX p);
          finalZ = (case playerOf (getState w) of None \<Rightarrow> startZ | Some p \<Rightarrow> worldZ p);
          finalDist = dist2d x z finalX finalZ
      in \<lparr>success = (finalDist \<le> tolerance),
          message = (if finalDist \<le> tolerance then at_text ''Arrived at ('' finalX finalZ
                     else at_text ''Could not reach ('' x z @ at_text '' - stopped at ('' finalX finalZ),
          reason = None\<rparr>)"

function walkLoop ::
  "int \<Rightarrow> int \<Rightarrow> real \<Rightarrow> int \<Rightarrow> int \<Rightarrow> nat \<Rightarrow> nat \<Rightarrow> session \<Rightarrow> action_result \<times> session"
where
  "walkLoop x z tolerance startX startZ query stuckCount w =
     (if query < MAX_PATH_QUERIES then
        (case walkAttempt x z tolerance w of
           (Return r, w1) \<Rightarrow> (r, w1)
         | (Continue (progressMade, afterX, afterZ), w1) \<Rightarrow>
             if progressMade < 5
             then (if stuckCount + 1 \<ge> 3
                   then (stuckResult afterX afterZ x z, w1)
                   else walkLoop x z tolerance startX startZ (query + 1) (stuckCount + 1) w1)
             else walkLoop x z tolerance startX startZ (query + 1) 0 w1)
      else (walkGaveUp x z tolerance startX startZ w, w))"
  by pat_completeness auto
termination
  by (relation "measure (\<lambda>(x, z, tolerance, startX, startZ, query, stuckCount, w). MAX_PATH_QUERIES - query)")
     auto

declare walkLoop.simps [simp del]

definition walkTo :: "int \<Rightarrow> int \<Rightarrow> real \<Rightarrow> session \<Rightarrow> action_result \<times> session" where
  "walkTo x z tolerance w =
     (case playerOf (getState w) of
        None \<Rightarrow> (\<lparr>success = False, message = [Lit ''No player state''], reason = None\<rparr>, w)
      | Some p \<Rightarrow>
          (let startX = worldX p; startZ = worldZ p;
               startDist = dist2d x z startX startZ
           in if startDist \<le> tolerance
              then (\<lparr>success = True, message = at_text ''Already at ('' x z, reason = None\<rparr>, w)
              else walkLoop x z tolerance startX startZ 0 0 w))"

section \<open>UI helpers\<close>

text \<open>
  Modelled from the spec: \<^verbatim>\<open>waitForStateChange(timeoutMs)\<close> (spec section 6) resolves at the
  next snapshot that differs from the current one and fails after the timeout.
\<close>

fun firstChange :: "(nat \<Rightarrow> world_state option) \<Rightarrow> world_state option \<Rightarrow> nat \<Rightarrow> nat \<Rightarrow> nat option" where
  "firstChange f cur t 0 = None"
| "firstChange f cur t (Suc n) = (if f t \<noteq> cur then Some t else firstChange f cur (Suc t) n)"

definition waitForStateChange :: "nat \<Rightarrow> session \<Rightarrow> (error + unit) \<times> session" where
  "waitForStateChange timeout w =
     (case firstChange (feed w) (getState w) (clock w) timeout of
        None \<Rightarrow> (Inl ConditionTimeout, w\<lparr>clock := clock w + timeout\<rparr>)
      | Some t \<Rightarrow> (Inr (), w\<lparr>clock := t\<rparr>))"

text \<open>\<^verbatim>\<open>dismissBlockingUI\<close>: the argument of the loop is the number of attempts left.\<close>

fun dismissLoop :: "nat \<Rightarrow> session \<Rightarrow> session" where
  "dismissLoop 0 w = w"
| "dismissLoop (Suc n) w =
     (case getState w of
        None \<Rightarrow> w
      | Some state \<Rightarrow>
          if dlg_isOpen (dialog state)
          then (let (u, w1) = send (ClickDialog 0) w;
                    (v, w2) = waitForStateChange 2000 w1
                in dismissLoop n w2)
          else w)"

definition dismissBlockingUI :: "session \<Rightarrow> session" where
  "dismissBlockingUI w = dismissLoop 10 w"

section \<open>Smart actions\<close>

definition doorPattern :: "string \<Rightarrow> bool" where
  "doorPattern n = (re_has ''door'' n \<or> re_has ''gate'' n)"

definition doorAt :: "int \<Rightarrow> int \<Rightarrow> nearby_loc list \<Rightarrow> nearby_loc option" where
  "doorAt doorX doorZ locs = find (\<lambda>l. loc_x l = doorX \<and> loc_z l = doorZ \<and> doorPattern (loc_name l)) locs"

definition doorCond :: "int \<Rightarrow> int \<Rightarrow> int \<Rightarrow> world_state \<Rightarrow> bool" where
  "doorCond doorX doorZ startTick state =
     (if anyMessage unreachableText startTick (gameMessages state) then True
      else (case doorAt doorX doorZ (nearbyLocs state) of
              None \<Rightarrow> True
            | Some doorNow \<Rightarrow>
                hasOption (re_is ''close'') (loc_optionsWithIndex doorNow)
                \<and> \<not> hasOption (re_is ''open'') (loc_optionsWithIndex doorNow)))"

text \<open>The part of \<^verbatim>\<open>openDoor\<close> after the interaction has been sent.\<close>

definition doorOutcome :: "nearby_loc \<Rightarrow> session \<Rightarrow> door_result \<times> session" where
  "doorOutcome d w =
     (let doorX = loc_x d; doorZ = loc_z d; startTick = tickOf (getState w)
      in case waitForCondition (doorCond doorX doorZ startTick) 5000 w of
           (Inr s, w1) \<Rightarrow>
             (let finalState = getState w1;
                  msgs = (case finalState of None \<Rightarrow> [] | Some f \<Rightarrow> gameMessages f)
              in case firstVerdict
                        (\<lambda>t. if unreachableText t
                              then Some \<lparr>success = False,
                                         message = [Lit ''Cannot reach '', Str (loc_name d), Lit '' - still blocked''],
                                         reason = Some ''open_failed'', door = Some d\<rparr>
                              else None)
                        startTick msgs of
                   Some r \<Rightarrow> (r, w1)
                 | None \<Rightarrow>
                     (case (case finalState of None \<Rightarrow> None | Some f \<Rightarrow> doorAt doorX doorZ (nearbyLocs f)) of
                        None \<Rightarrow>
                          (\<lparr>success = True, message = [Lit ''Opened '', Str (loc_name d)],
                            reason = None, door = Some d\<rparr>, w1)
                      | Some doorAfter \<Rightarrow>
                          if hasOption (re_is ''close'') (loc_optionsWithIndex doorAfter)
                          then (\<lparr>success = True, message = [Lit ''Opened '', Str (loc_name d)],
                                 reason = None, door = Some doorAfter\<rparr>, w1)
                          else (\<lparr>success = False, message = [Str (loc_name d), Lit '' did not open''],
                                 reason = Some ''open_failed'', door = Some doorAfter\<rparr>, w1)))
         | (Inl e, w1) \<Rightarrow>
             (\<lparr>success = False,
               message = [Lit ''Timeout waiting for '', Str (loc_name d), Lit '' to open''],
               reason = Some ''timeout'', door = Some d\<rparr>, w1))"

definition openDoor :: "nearby_loc target option \<Rightarrow> session \<Rightarrow> door_result \<times> session" where
  "openDoor target w =
     (case resolveLocation target doorPattern w of
        None \<Rightarrow>
          (\<lparr>success = False, message = [Lit ''No door found nearby''],
            reason = Some ''door_not_found'', door = None\<rparr>, w)
      | Some d \<Rightarrow>
          (case findOption (re_is ''open'') (loc_optionsWithIndex d) of
             None \<Rightarrow>
               (case findOption (re_is ''close'') (loc_optionsWithIndex d) of
                  Some closeOpt \<Rightarrow>
                    (\<lparr>success = True, message = [Str (loc_name d), Lit '' is already open''],
                      reason = Some ''already_open'', door = Some d\<rparr>, w)
                | None \<Rightarrow>
                    (\<lparr>success = False,
                      message = [Str (loc_name d), Lit '' has no Open option (options: '',
                                 Strs (loc_options d), Lit '')''],
                      reason = Some ''no_open_option'', door = Some d\<rparr>, w))
           | Some openOpt \<Rightarrow>
               if loc_distance d > 2 then
                 (let (walkResult, w1) = walkTo (loc_x d) (loc_z d) 3 w
                  in if \<not> success walkResult
                     then (\<lparr>success = False,
                            message = [Lit ''Could not walk to '', Str (loc_name d), Lit '': '']
                                      @ message walkResult,
                            reason = Some ''walk_failed'', door = Some d\<rparr>, w1)
                     else
                       (case doorAt (loc_x d) (loc_z d) (getNearbyLocs w1) of
                          None \<Rightarrow>
                            (\<lparr>success = True,
                              message = [Str (loc_name d), Lit '' is no longer visible (may have been opened)''],
                              reason = None, door = Some d\<rparr>, w1)
                        | Some refreshedDoor \<Rightarrow>
                            (case findOption (re_is ''open'') (loc_optionsWithIndex refreshedDoor) of
                               None \<Rightarrow>
                                 if hasOption (re_is ''close'') (loc_optionsWithIndex refreshedDoor)
                                 then (\<lparr>success = True,
                                        message = [Str (loc_name d), Lit '' is already open''],
                                        reason = Some ''already_open'', door = Some refreshedDoor\<rparr>, w1)
                                 else (\<lparr>success = False,
                                        message = [Str (loc_name d), Lit '' no longer has Open option''],
                                        reason = Some ''no_open_option'', door = Some refreshedDoor\<rparr>, w1)
                             | Some refreshedOpenOpt \<Rightarrow>
                                 (let (u, w2) = send (InteractLoc (loc_x refreshedDoor) (loc_z refreshedDoor)
                                                        (loc_id refreshedDoor) (opIndex refreshedOpenOpt)) w1
                                  in doorOutcome d w2))))
               else
                 (let (u, w1) = send (InteractLoc (loc_x d) (loc_z d) (loc_id d) (opIndex openOpt)) w
                  in doorOutcome d w1)))"

definition chopCond :: "nearby_loc \<Rightarrow> nat \<Rightarrow> world_state \<Rightarrow> bool" where
  "chopCond tree invCountBefore state =
     (let newItem = length (inventory state) > invCountBefore;
          treeGone = (find (\<lambda>l. loc_x l = loc_x tree \<and> loc_z l = loc_z tree \<and> loc_id l = loc_id tree)
                        (nearbyLocs state) = None)
      in newItem \<or> treeGone)"

definition chopTree :: "nearby_loc target option \<Rightarrow> session \<Rightarrow> chop_result \<times> session" where
  "chopTree target w0 =
     (let w = dismissBlockingUI w0
      in case resolveLocation target (re_is ''tree'') w of
           None \<Rightarrow> (\<lparr>success = False, message = [Lit ''No tree found''], reason = None, logs = None\<rparr>, w)
         | Some tree \<Rightarrow>
             (let invCountBefore = length (getInventory w);
                  (result, w1) = send (InteractLoc (loc_x tree) (loc_z tree) (loc_id tree) 1) w
              in if \<not> ack_success result
                 then (\<lparr>success = False, message = ack_message result, reason = None, logs = None\<rparr>, w1)
                 else
                   (case waitForCondition (chopCond tree invCountBefore) 30000 w1 of
                      (Inr s, w2) \<Rightarrow>
                        (\<lparr>success = True, message = [Lit ''Chopped tree''], reason = None,
                          logs = findInventoryItem (re_has ''logs'') w2\<rparr>, w2)
                    | (Inl e, w2) \<Rightarrow>
                        (\<lparr>success = False, message = [Lit ''Timed out waiting for tree chop''],
                          reason = None, logs = None\<rparr>, w2))))"

text \<open>
  Modelled from the spec: a wait predicate may have side effects (spec 4.1). The predicate of
  \<^verbatim>\<open>burnLogs\<close> keeps \<^verbatim>\<open>lastDialogClickTick\<close> and fires dialog clicks; its environment is
  threaded through the polls, and the clicks join the command log when the wait ends.
\<close>

fun firstSatisfyingM ::
  "(world_state \<Rightarrow> 'e \<Rightarrow> bool \<times> 'e) \<Rightarrow> (nat \<Rightarrow> world_state option) \<Rightarrow> nat \<Rightarrow> nat \<Rightarrow> 'e
     \<Rightarrow> (nat \<times> world_state) option \<times> 'e"
where
  "firstSatisfyingM p f t 0 env = (None, env)"
| "firstSatisfyingM p f t (Suc n) env =
     (case f t of
        None \<Rightarrow> firstSatisfyingM p f (Suc t) n env
      | Some s \<Rightarrow>
          (let (holds, env') = p s env
           in if holds then (Some (t, s), env') else firstSatisfyingM p f (Suc t) n env'))"

definition waitForConditionM ::
  "(world_state \<Rightarrow> (int \<times> command list) \<Rightarrow> bool \<times> (int \<times> command list)) \<Rightarrow> nat \<Rightarrow> int \<Rightarrow> session
     \<Rightarrow> (error + world_state) \<times> session"
where
  "waitForConditionM p timeout env0 w =
     (case firstSatisfyingM p (feed w) (clock w) timeout (env0, []) of
        (None, (e, cmds)) \<Rightarrow>
          (Inl ConditionTimeout, w\<lparr>clock := clock w + timeout, sent := sent w @ cmds\<rparr>)
      | (Some (t, s), (e, cmds)) \<Rightarrow> (Inr s, w\<lparr>clock := t, sent := sent w @ cmds\<rparr>))"

definition skillExperience :: "string \<Rightarrow> skill_state list \<Rightarrow> int" where
  "skillExperience n sks = (case find (\<lambda>k. sk_name k = n) sks of None \<Rightarrow> 0 | Some k \<Rightarrow> sk_experience k)"

definition burnFailureText :: "string \<Rightarrow> bool" where
  "burnFailureText t =
     list_ex (\<lambda>f. str_includes t f) [''can't light a fire'', ''you need to move'', ''can't do that here'']"

definition burnCond ::
  "int \<Rightarrow> int \<Rightarrow> world_state \<Rightarrow> (int \<times> command list) \<Rightarrow> bool \<times> (int \<times> command list)"
where
  "burnCond fmBefore startTick state env =
     (let fmXp = skillExperience ''Firemaking'' (skills state)
      in if fmXp > fmBefore then (True, env)
         else
           (let (lastDialogClickTick, cmds) = env;
                env' = (if dlg_isOpen (dialog state) \<and> tick state - lastDialogClickTick \<ge> 3
                        then (tick state, cmds @ [ClickDialog 0])
                        else env)
            in (anyMessage burnFailureText startTick (gameMessages state), env')))"

definition burnLogs :: "inventory_item target option \<Rightarrow> session \<Rightarrow> burn_result \<times> session" where
  "burnLogs logsTarget w0 =
     (let w = dismissBlockingUI w0
      in case findInventoryItem (re_has ''tinderbox'') w of
           None \<Rightarrow>
             (\<lparr>success = False, message = [Lit ''No tinderbox in inventory''], reason = None,
               xpGained = 0\<rparr>, w)
         | Some tinderbox \<Rightarrow>
             (case resolveInventoryItem logsTarget (re_has ''logs'') w of
                None \<Rightarrow>
                  (\<lparr>success = False, message = [Lit ''No logs in inventory''], reason = None,
                    xpGained = 0\<rparr>, w)
              | Some lg \<Rightarrow>
                  (let fmBefore = (case getSkill ''Firemaking'' w of None \<Rightarrow> 0 | Some k \<Rightarrow> sk_experience k);
                       (result, w1) = send (UseItemOnItem (inv_slot tinderbox) (inv_slot lg)) w
                   in if \<not> ack_success result
                      then (\<lparr>success = False, message = ack_message result, reason = None,
                             xpGained = 0\<rparr>, w1)
                      else
                        (let startTick = tickOf (getState w1)
                         in case waitForConditionM (burnCond fmBefore startTick) 30000 0 w1 of
                              (Inr s, w2) \<Rightarrow>
                                (let fmAfter = (case getSkill ''Firemaking'' w2 of
                                                  None \<Rightarrow> 0 | Some k \<Rightarrow> sk_experience k);
                                     gained = fmAfter - fmBefore
                                 in (\<lparr>success = (gained > 0),
                                       message = (if gained > 0 then [Lit ''Burned logs'']
                                                  else [Lit ''Failed to light fire (possibly bad location)'']),
                                       reason = None, xpGained = gained\<rparr>, w2))
                            | (Inl e, w2) \<Rightarrow>
                                (\<lparr>success = False, message = [Lit ''Timed out waiting for fire''],
                                  reason = None, xpGained = 0\<rparr>, w2)))))"

definition pickupCond :: "int \<Rightarrow> nat \<Rightarrow> world_state \<Rightarrow> bool" where
  "pickupCond startTick invCountBefore state =
     (anyMessage (\<lambda>t. unreachableText t \<or> inventoryFullText t) startTick (gameMessages state)
      \<or> length (inventory state) > invCountBefore)"

definition pickupVerdict :: "ground_item \<Rightarrow> string \<Rightarrow> item_result option" where
  "pickupVerdict it t =
     (if unreachableText t
      then Some \<lparr>success = False,
                 message = [Lit ''Cannot reach '', Str (gi_name it), Lit '' at ('', Num (gi_x it),
                            Lit '', '', Num (gi_z it), Lit '') - path blocked''],
                 reason = Some ''cant_reach'', item = None\<rparr>
      else if inventoryFullText t
      then Some \<lparr>success = False, message = [Lit ''Inventory is full''],
                 reason = Some ''inventory_full'', item = None\<rparr>
      else None)"

definition pickupItem :: "ground_item target \<Rightarrow> session \<Rightarrow> item_result \<times> session" where
  "pickupItem target w =
     (case resolveGroundItem target w of
        None \<Rightarrow>
          (\<lparr>success = False, message = [Lit ''Item not found on ground''],
            reason = Some ''item_not_found'', item = None\<rparr>, w)
      | Some it \<Rightarrow>
          (let invCountBefore = length (getInventory w);
               startTick = tickOf (getState w);
               (result, w1) = send (Pickup (gi_x it) (gi_z it) (gi_id it)) w
           in if \<not> ack_success result
              then (\<lparr>success = False, message = ack_message result, reason = None, item = None\<rparr>, w1)
              else
                (case waitForCondition (pickupCond startTick invCountBefore) 10000 w1 of
                   (Inr finalState, w2) \<Rightarrow>
                     (case firstVerdict (pickupVerdict it) startTick (gameMessages finalState) of
                        Some r \<Rightarrow> (r, w2)
                      | None \<Rightarrow>
                          (\<lparr>success = True, message = [Lit ''Picked up '', Str (gi_name it)],
                            reason = None,
                            item = find (\<lambda>i. inv_id i = gi_id it) (getInventory w2)\<rparr>, w2))
                 | (Inl e, w2) \<Rightarrow>
                     (\<lparr>success = False, message = [Lit ''Timed out waiting for pickup''],
                       reason = Some ''timeout'', item = None\<rparr>, w2))))"

definition talkTo :: "nearby_npc target \<Rightarrow> session \<Rightarrow> talk_result \<times> session" where
  "talkTo target w =
     (case resolveNpc target w of
        None \<Rightarrow>
          (\<lparr>success = False, message = [Lit ''NPC not found''], reason = None, talk_dialog = None\<rparr>, w)
      | Some npc \<Rightarrow>
          (let (result, w1) = send (TalkToNpc (npc_index npc)) w
           in if \<not> ack_success result
              then (\<lparr>success = False, message = ack_message result, reason = None,
                     talk_dialog = None\<rparr>, w1)
              else
                (case waitForCondition (\<lambda>s. dlg_isOpen (dialog s)) 10000 w1 of
                   (Inr state, w2) \<Rightarrow>
                     (\<lparr>success = True, message = [Lit ''Talking to '', Str (npc_name npc)],
                       reason = None, talk_dialog = Some (dialog state)\<rparr>, w2)
                 | (Inl e, w2) \<Rightarrow>
                     (\<lparr>success = False, message = [Lit ''Timed out waiting for dialog''],
                       reason = None, talk_dialog = None\<rparr>, w2))))"

section \<open>Shop actions\<close>

definition closeShop :: "nat \<Rightarrow> session \<Rightarrow> action_result \<times> session" where
  "closeShop timeout w =
     (let state = getState w
      in if \<not> shopOpen state \<and> \<not> interfaceOpen state
         then (\<lparr>success = True, message = [Lit ''Shop already closed''], reason = None\<rparr>, w)
         else
           (let (u, w1) = send CloseShop w
            in case waitForCondition
                      (\<lambda>s. let shopClosed = \<not> shop_isOpen (shop s);
                                interfaceClosed = \<not> interfaceOpen (Some s)
                            in shopClosed \<and> interfaceClosed)
                      timeout w1 of
                 (Inr s, w2) \<Rightarrow>
                   (\<lparr>success = True, message = [Lit ''Shop closed''], reason = None\<rparr>, w2)
               | (Inl e, w2) \<Rightarrow>
                   (let (u, w3) = send CloseShop w2;
                        w4 = sleep 500 w3;
                        finalState = getState w4
                    in if \<not> shopOpen finalState \<and> \<not> interfaceOpen finalState
                       then (\<lparr>success = True, message = [Lit ''Shop closed (second attempt)''],
                              reason = None\<rparr>, w4)
                       else (\<lparr>success = False,
                              message = [Lit ''Shop close timeout - shop.isOpen='',
                                         Flag (map_option (\<lambda>f. shop_isOpen (shop f)) finalState),
                                         Lit '', interface.isOpen='',
                                         Flag (case finalState of
                                                 None \<Rightarrow> None
                                               | Some f \<Rightarrow> map_option if_isOpen (interface f))],
                              reason = None\<rparr>, w4))))"

definition openShop :: "nearby_npc target \<Rightarrow> session \<Rightarrow> action_result \<times> session" where
  "openShop target w =
     (case resolveNpc target w of
        None \<Rightarrow> (\<lparr>success = False, message = [Lit ''Shopkeeper not found''], reason = None\<rparr>, w)
      | Some npc \<Rightarrow>
          (case findOption (re_has ''trade'') (npc_optionsWithIndex npc) of
             None \<Rightarrow>
               (\<lparr>success = False, message = [Lit ''No trade option on NPC''], reason = None\<rparr>, w)
           | Some tradeOpt \<Rightarrow>
               (let (result, w1) = send (InteractNpc (npc_index npc) (opIndex tradeOpt)) w
                in if \<not> ack_success result
                   then (\<lparr>success = ack_success result, message = ack_message result,
                          reason = ack_reason result\<rparr>, w1)
                   else
                     (case waitForCondition (\<lambda>state. shop_isOpen (shop state)) 10000 w1 of
                        (Inr s, w2) \<Rightarrow>
                          (\<lparr>success = True,
                            message = [Lit ''Opened shop: '',
                                       (case getState w2 of
                                          None \<Rightarrow> Lit ''undefined''
                                        | Some f \<Rightarrow> Str (shop_title (shop f)))],
                            reason = None\<rparr>, w2)
                      | (Inl e, w2) \<Rightarrow>
                          (\<lparr>success = False, message = [Lit ''Timed out waiting for shop to open''],
                            reason = None\<rparr>, w2)))))"

definition buyCond :: "shop_item \<Rightarrow> nat \<Rightarrow> world_state \<Rightarrow> bool" where
  "buyCond shopItem countBefore state =
     (case find (\<lambda>i. inv_id i = si_id shopItem) (inventory state) of
        None \<Rightarrow> False
      | Some i \<Rightarrow> inv_count i > countBefore)"

definition buyFromShop :: "shop_item target \<Rightarrow> int \<Rightarrow> session \<Rightarrow> item_result \<times> session" where
  "buyFromShop target amount w =
     (case getState w of
        None \<Rightarrow>
          (\<lparr>success = False, message = [Lit ''Shop is not open''], reason = None, item = None\<rparr>, w)
      | Some st \<Rightarrow>
          if \<not> shop_isOpen (shop st)
          then (\<lparr>success = False, message = [Lit ''Shop is not open''], reason = None, item = None\<rparr>, w)
          else
            (case resolveShopItem target (shopItems (shop st)) of
               None \<Rightarrow>
                 (\<lparr>success = False, message = [Lit ''Item not found in shop: '', Arg], reason = None,
                   item = None\<rparr>, w)
             | Some shopItem \<Rightarrow>
                 (let invBefore = getInventory w;
                      countBefore = (case find (\<lambda>i. inv_id i = si_id shopItem) invBefore of
                                       None \<Rightarrow> 0 | Some had \<Rightarrow> inv_count had);
                      (result, w1) = send (ShopBuy (si_slot shopItem) amount) w
                  in if \<not> ack_success result
                     then (\<lparr>success = False, message = ack_message result, reason = None,
                            item = None\<rparr>, w1)
                     else
                       (case waitForCondition (buyCond shopItem countBefore) 5000 w1 of
                          (Inr s, w2) \<Rightarrow>
                            (\<lparr>success = True,
                              message = [Lit ''Bought '', Str (si_name shopItem), Lit '' x'', Num amount],
                              reason = None,
                              item = find (\<lambda>i. inv_id i = si_id shopItem) (getInventory w2)\<rparr>, w2)
                        | (Inl e, w2) \<Rightarrow>
                            (\<lparr>success = False,
                              message = [Lit ''Failed to buy '', Str (si_name shopItem),
                                         Lit '' (no coins or out of stock?)''],
                              reason = None, item = None\<rparr>, w2)))))"

text \<open>\<^verbatim>\<open>getTotalCount\<close>: the units of one item id over all stacks the player offers.\<close>

definition getTotalCount :: "int \<Rightarrow> shop_item list \<Rightarrow> nat" where
  "getTotalCount i items = foldl (\<lambda>sum x. sum + si_count x) 0 (filter (\<lambda>x. si_id x = i) items)"

definition cantSellText :: "string \<Rightarrow> bool" where
  "cantSellText t = str_includes t ''can't sell this item''"

definition sellCond :: "int \<Rightarrow> int \<Rightarrow> nat \<Rightarrow> world_state \<Rightarrow> bool" where
  "sellCond itemId startTick totalCountBefore state =
     (if anyMessage cantSellText startTick (gameMessages state) then True
      else (let totalCountNow = getTotalCount itemId (playerItems (shop state))
            in totalCountNow < totalCountBefore))"

text \<open>The part of \<^verbatim>\<open>sellAllToShop\<close> after its loop, and the loop itself: it has no bound
  of its own, so not returning is the value \<open>None\<close>.\<close>

definition sellAllDone :: "shop_item \<Rightarrow> int \<Rightarrow> sell_result" where
  "sellAllDone sellItem totalSold =
     (if totalSold = 0
      then \<lparr>success = False, message = [Lit ''Failed to sell any '', Str (si_name sellItem)],
            reason = None, amountSold = None, rejected = None\<rparr>
      else \<lparr>success = True, message = [Lit ''Sold '', Str (si_name sellItem), Lit '' x'', Num totalSold],
            reason = None, amountSold = Some totalSold, rejected = None\<rparr>)"

definition sellAllVerdict :: "shop_item \<Rightarrow> int \<Rightarrow> string \<Rightarrow> sell_result option" where
  "sellAllVerdict sellItem totalSold t =
     (if str_includes t ''can't sell this item to this shop''
      then Some \<lparr>success = (totalSold > 0),
                 message = (if totalSold > 0
                            then [Lit ''Sold '', Str (si_name sellItem), Lit '' x'', Num totalSold,
                                  Lit '', then shop stopped buying'']
                            else [Lit ''Shop doesn't buy '', Str (si_name sellItem)]),
                 reason = None, amountSold = Some totalSold, rejected = Some True\<rparr>
      else if str_includes t ''can't sell this item''
      then Some \<lparr>success = False, message = [Str (si_name sellItem), Lit '' cannot be sold''],
                 reason = None, amountSold = Some totalSold, rejected = Some True\<rparr>
      else None)"

partial_function (option) sellAllLoop ::
  "shop_item \<Rightarrow> int \<Rightarrow> int \<Rightarrow> session \<Rightarrow> (sell_result \<times> session) option"
where
  "sellAllLoop sellItem startTick totalSold w =
     (case getState w of
        None \<Rightarrow> Some (sellAllDone sellItem totalSold, w)
      | Some state \<Rightarrow>
          if \<not> shop_isOpen (shop state) then Some (sellAllDone sellItem totalSold, w)
          else
            (case find (\<lambda>i. si_id i = si_id sellItem) (playerItems (shop state)) of
               None \<Rightarrow> Some (sellAllDone sellItem totalSold, w)
             | Some currentItem \<Rightarrow>
                 if si_count currentItem = 0 then Some (sellAllDone sellItem totalSold, w)
                 else
                   (let totalCountBefore = getTotalCount (si_id sellItem) (playerItems (shop state));
                        sellAmount = min 10 (int (si_count currentItem));
                        currentSlot = si_slot currentItem
                    in case send (ShopSell currentSlot sellAmount) w of
                         (result, w1) \<Rightarrow>
                           if \<not> ack_success result then Some (sellAllDone sellItem totalSold, w1)
                           else
                             (case waitForCondition
                                     (sellCond (si_id sellItem) startTick totalCountBefore) 3000 w1 of
                                (Inl e, w2) \<Rightarrow> Some (sellAllDone sellItem totalSold, w2)
                              | (Inr finalState, w2) \<Rightarrow>
                                  (case firstVerdict (sellAllVerdict sellItem totalSold) startTick
                                          (gameMessages finalState) of
                                     Some r \<Rightarrow> Some (r, w2)
                                   | None \<Rightarrow>
                                       (let totalCountAfter =
                                              getTotalCount (si_id sellItem) (playerItems (shop finalState));
                                            soldThisRound = int totalCountBefore - int totalCountAfter
                                        in if soldThisRound = 0
                                           then Some (sellAllDone sellItem (totalSold + soldThisRound), w2)
                                           else sellAllLoop sellItem startTick
                                                  (totalSold + soldThisRound) w2))))))"

definition sellAllToShop :: "shop_item \<Rightarrow> int \<Rightarrow> session \<Rightarrow> (sell_result \<times> session) option" where
  "sellAllToShop sellItem startTick w = sellAllLoop sellItem startTick 0 w"

datatype sell_amount = Amount int | All

definition sellVerdict :: "shop_item \<Rightarrow> string \<Rightarrow> sell_result option" where
  "sellVerdict sellItem t =
     (if str_includes t ''can't sell this item to this shop''
      then Some \<lparr>success = False, message = [Lit ''Shop doesn't buy '', Str (si_name sellItem)],
                 reason = None, amountSold = None, rejected = Some True\<rparr>
      else if str_includes t ''can't sell this item to a shop''
      then Some \<lparr>success = False,
                 message = [Lit ''Cannot sell '', Str (si_name sellItem), Lit '' to any shop''],
                 reason = None, amountSold = None, rejected = Some True\<rparr>
      else if str_includes t ''can't sell this item''
      then Some \<lparr>success = False, message = [Str (si_name sellItem), Lit '' is not tradeable''],
                 reason = None, amountSold = None, rejected = Some True\<rparr>
      else None)"

definition sellToShop :: "shop_item target \<Rightarrow> sell_amount \<Rightarrow> session \<Rightarrow> (sell_result \<times> session) option" where
  "sellToShop target amount w =
     (case getState w of
        None \<Rightarrow>
          Some (\<lparr>success = False, message = [Lit ''Shop is not open''], reason = None,
                 amountSold = None, rejected = None\<rparr>, w)
      | Some st \<Rightarrow>
          if \<not> shop_isOpen (shop st)
          then Some (\<lparr>success = False, message = [Lit ''Shop is not open''], reason = None,
                      amountSold = None, rejected = None\<rparr>, w)
          else
            (case resolveShopItem target (playerItems (shop st)) of
               None \<Rightarrow>
                 Some (\<lparr>success = False, message = [Lit ''Item not found to sell: '', Arg],
                        reason = None, amountSold = None, rejected = None\<rparr>, w)
             | Some sellItem \<Rightarrow>
                 (let startTick = tickOf (getState w)
                  in case amount of
                       All \<Rightarrow> sellAllToShop sellItem startTick w
                     | Amount n \<Rightarrow>
                         (let validAmount = (if n \<in> set [1, 5, 10] then n else 1);
                              (result, w1) = send (ShopSell (si_slot sellItem) validAmount) w
                          in if \<not> ack_success result
                             then Some (\<lparr>success = False, message = ack_message result, reason = None,
                                         amountSold = None, rejected = None\<rparr>, w1)
                             else
                               (let totalCountBefore =
                                      getTotalCount (si_id sellItem) (playerItems (shop st))
                                in case waitForCondition
                                          (sellCond (si_id sellItem) startTick totalCountBefore) 5000 w1 of
                                     (Inr finalState, w2) \<Rightarrow>
                                       (case firstVerdict (sellVerdict sellItem) startTick
                                               (gameMessages finalState) of
                                          Some r \<Rightarrow> Some (r, w2)
                                        | None \<Rightarrow>
                                            (let totalCountAfter =
                                                   getTotalCount (si_id sellItem)
                                                     (playerItems (shop finalState));
                                                 sold = int totalCountBefore - int totalCountAfter
                                             in Some (\<lparr>success = True,
                                                        message = [Lit ''Sold '', Str (si_name sellItem),
                                                                   Lit '' x'', Num sold],
                                                        reason = None, amountSold = Some sold,
                                                        rejected = None\<rparr>, w2)))
                                   | (Inl e, w2) \<Rightarrow>
                                       Some (\<lparr>success = False,
                                              message = [Lit ''Failed to sell '', Str (si_name sellItem),
                                                         Lit '' (timeout)''],
                                              reason = None, amountSold = None, rejected = None\<rparr>, w2))))))"

section \<open>Bank actions\<close>

text \<open>The wait primitive returns a snapshot that is the current one and satisfies the
  predicate; the retry loop of \<^verbatim>\<open>openBank\<close> terminates because of it.\<close>

lemma firstSatisfying_Some:
  "firstSatisfying p f t n = Some (t', s) \<Longrightarrow> f t' = Some s \<and> p s \<and> t \<le> t' \<and> t' < t + n"
proof (induction n arbitrary: t)
  case 0
  then show ?case by simp
next
  case (Suc n)
  show ?case
  proof (cases "f t")
    case None
    with Suc.prems have "firstSatisfying p f (Suc t) n = Some (t', s)" by simp
    from Suc.IH [OF this] show ?thesis by simp
  next
    case (Some s0)
    show ?thesis
    proof (cases "p s0")
      case True
      with Some Suc.prems show ?thesis by simp
    next
      case False
      with Some Suc.prems have "firstSatisfying p f (Suc t) n = Some (t', s)" by simp
      from Suc.IH [OF this] show ?thesis by simp
    qed
  qed
qed

lemma waitForCondition_Inr:
  assumes "waitForCondition p timeout w = (Inr s, w')"
  shows "getState w' = Some s \<and> p s \<and> clock w \<le> clock w' \<and> clock w' < clock w + timeout
         \<and> feed w' = feed w \<and> sent w' = sent w \<and> reply w' = reply w \<and> paths w' = paths w"
proof -
  from assms obtain t where f: "firstSatisfying p (feed w) (clock w) timeout = Some (t, s)"
    and w': "w' = w\<lparr>clock := t\<rparr>"
    by (auto simp: waitForCondition_def split: option.splits)
  from firstSatisfying_Some [OF f] w' show ?thesis
    by (simp add: getState_def)
qed

lemma waitForCondition_Inl:
  assumes "waitForCondition p timeout w = (Inl e, w')"
  shows "w' = w\<lparr>clock := clock w + timeout\<rparr>"
  using assms by (auto simp: waitForCondition_def split: option.splits)

definition bankOpenedResult :: "world_state option \<Rightarrow> action_result" where
  "bankOpenedResult st =
     \<lparr>success = True,
      message = [Lit ''Bank opened (interfaceId: '',
                 (case st of
                    None \<Rightarrow> Lit ''undefined''
                  | Some s \<Rightarrow> (case interface s of None \<Rightarrow> Lit ''undefined'' | Some i \<Rightarrow> Num (interfaceId i))),
                 Lit '')''],
      reason = None\<rparr>"

text \<open>The retry loop of \<^verbatim>\<open>openBank\<close> and the code after it.\<close>

function openBankLoop :: "nat \<Rightarrow> nat \<Rightarrow> session \<Rightarrow> action_result \<times> session" where
  "openBankLoop startTime timeout w =
     (if clock w - startTime < timeout then
        (case waitForCondition (\<lambda>s. interfaceOpen (Some s) \<or> dialogOpen (Some s))
                (min 2000 (timeout - (clock w - startTime))) w of
           (Inr s, w1) \<Rightarrow>
             (let currentState = getState w1
              in if interfaceOpen currentState then (bankOpenedResult currentState, w1)
                 else if dialogOpen currentState
                 then (let opt = (case currentState of
                                    None \<Rightarrow> None
                                  | Some c \<Rightarrow> (case dlg_options (dialog c) of [] \<Rightarrow> None | o' # rest \<Rightarrow> Some o'));
                           (u, w2) = send (ClickDialog (case opt of None \<Rightarrow> 0 | Some o' \<Rightarrow> dlg_index o')) w1;
                           w3 = sleep 300 w2
                       in openBankLoop startTime timeout w3)
                 else openBankLoop startTime timeout w1)
         | (Inl e, w1) \<Rightarrow> openBankLoop startTime timeout w1)
      else
        (let finalState = getState w
         in if interfaceOpen finalState then (bankOpenedResult finalState, w)
            else (\<lparr>success = False, message = [Lit ''Timeout waiting for bank interface to open''],
                   reason = Some ''timeout''\<rparr>, w)))"
  by pat_completeness auto
termination
proof (relation "measure (\<lambda>(startTime, timeout, w). startTime + timeout - clock w)")
  show "wf (measure (\<lambda>(startTime, timeout, w). startTime + timeout - clock w))"
    by simp
next
  fix startTime timeout :: nat and w y :: session and x :: "error + world_state" and a :: error
  assume t: "clock w - startTime < timeout"
    and x: "(x, y) = waitForCondition (\<lambda>s. interfaceOpen (Some s) \<or> dialogOpen (Some s))
                  (min 2000 (timeout - (clock w - startTime))) w"
    and r: "x = Inl a"
  from x r have "waitForCondition (\<lambda>s. interfaceOpen (Some s) \<or> dialogOpen (Some s))
                  (min 2000 (timeout - (clock w - startTime))) w = (Inl a, y)" by simp
  from waitForCondition_Inl [OF this]
  have "clock y = clock w + min 2000 (timeout - (clock w - startTime))"
    by simp
  then show "((startTime, timeout, y), startTime, timeout, w)
      \<in> measure (\<lambda>(startTime, timeout, w). startTime + timeout - clock w)"
    using t by simp
next
  fix startTime timeout :: nat and w y ya xe :: session and x :: "error + world_state"
    and b :: world_state and xa :: "world_state option" and xb :: "dialog_option option"
    and xc :: "ack \<times> session" and xd :: ack
  assume t: "clock w - startTime < timeout"
    and x: "(x, y) = waitForCondition (\<lambda>s. interfaceOpen (Some s) \<or> dialogOpen (Some s))
                  (min 2000 (timeout - (clock w - startTime))) w"
    and r: "x = Inr b"
    and xc: "xc = send (ClickDialog (case xb of None \<Rightarrow> 0 | Some x \<Rightarrow> dlg_index x)) y"
    and ya: "(xd, ya) = xc" and xe: "xe = sleep 300 ya"
  from x r have "waitForCondition (\<lambda>s. interfaceOpen (Some s) \<or> dialogOpen (Some s))
                  (min 2000 (timeout - (clock w - startTime))) w = (Inr b, y)" by simp
  from waitForCondition_Inr [OF this] have "clock w \<le> clock y" by simp
  moreover from xc ya xe have "clock y + 300 \<le> clock xe" by (auto simp: send_def sleep_def)
  ultimately show "((startTime, timeout, xe), startTime, timeout, w)
      \<in> measure (\<lambda>(startTime, timeout, w). startTime + timeout - clock w)"
    using t by simp
next
  fix startTime timeout :: nat and w y :: session and x :: "error + world_state"
    and b :: world_state and xa :: "world_state option"
  assume t: "clock w - startTime < timeout"
    and x: "(x, y) = waitForCondition (\<lambda>s. interfaceOpen (Some s) \<or> dialogOpen (Some s))
                  (min 2000 (timeout - (clock w - startTime))) w"
    and r: "x = Inr b"
    and c: "xa = getState y"
    and n1: "\<not> interfaceOpen xa" and n2: "\<not> dialogOpen xa"
  from x r have "waitForCondition (\<lambda>s. interfaceOpen (Some s) \<or> dialogOpen (Some s))
                  (min 2000 (timeout - (clock w - startTime))) w = (Inr b, y)" by simp
  from waitForCondition_Inr [OF this] c n1 n2 have False by simp
  then show "((startTime, timeout, y), startTime, timeout, w)
      \<in> measure (\<lambda>(startTime, timeout, w). startTime + timeout - clock w)" ..
qed

declare openBankLoop.simps [simp del]

definition openBank :: "nat \<Rightarrow> session \<Rightarrow> action_result \<times> session" where
  "openBank timeout w0 =
     (if interfaceOpen (getState w0)
      then (\<lparr>success = True, message = [Lit ''Bank already open''], reason = None\<rparr>, w0)
      else
        (let w = dismissBlockingUI w0;
             banker = findNearbyNpc (re_has ''banker'') w;
             bankBooth = findNearbyLoc (\<lambda>n. re_has ''bank booth'' n \<or> re_has ''bank chest'' n) w;
             (viaBanker, w1) =
                (case banker of
                   None \<Rightarrow> (False, w)
                 | Some b \<Rightarrow>
                     (case findOption (re_is ''bank'') (npc_optionsWithIndex b) of
                        None \<Rightarrow> (False, w)
                      | Some bankOpt \<Rightarrow>
                          (True, snd (send (InteractNpc (npc_index b) (opIndex bankOpt)) w))));
             (interactSuccess, w2) =
                (if \<not> viaBanker then
                   (case bankBooth of
                      None \<Rightarrow> (False, w1)
                    | Some booth \<Rightarrow>
                        (case (case findOption (re_is ''bank'') (loc_optionsWithIndex booth) of
                                 Some o' \<Rightarrow> Some o'
                               | None \<Rightarrow> findOption (re_has ''use'') (loc_optionsWithIndex booth)) of
                           None \<Rightarrow> (False, w1)
                         | Some bankOpt \<Rightarrow>
                             (True, snd (send (InteractLoc (loc_x booth) (loc_z booth) (loc_id booth)
                                                 (opIndex bankOpt)) w1))))
                 else (True, w1))
         in if \<not> interactSuccess
            then (\<lparr>success = False, message = [Lit ''No banker NPC or bank booth found nearby''],
                   reason = Some ''no_bank_found''\<rparr>, w2)
            else openBankLoop (clock w2) timeout w2))"

definition closeBank :: "nat \<Rightarrow> session \<Rightarrow> action_result \<times> session" where
  "closeBank timeout w =
     (let state = getState w
      in if \<not> interfaceOpen state
         then (\<lparr>success = True, message = [Lit ''Bank already closed''], reason = None\<rparr>, w)
         else
           (let (u, w1) = send CloseModal w
            in case waitForCondition (\<lambda>s. \<not> interfaceOpen (Some s)) timeout w1 of
                 (Inr s, w2) \<Rightarrow>
                   (\<lparr>success = True, message = [Lit ''Bank closed''], reason = None\<rparr>, w2)
               | (Inl e, w2) \<Rightarrow>
                   (let (u, w3) = send CloseModal w2;
                        w4 = sleep 500 w3;
                        finalState = getState w4
                    in if \<not> interfaceOpen finalState
                       then (\<lparr>success = True, message = [Lit ''Bank closed (second attempt)''],
                              reason = None\<rparr>, w4)
                       else (\<lparr>success = False,
                              message = [Lit ''Bank close timeout - interface.isOpen='',
                                         Flag (case finalState of
                                                 None \<Rightarrow> None
                                               | Some f \<Rightarrow> map_option if_isOpen (interface f))],
                              reason = None\<rparr>, w4))))"

text \<open>\<^verbatim>\<open>inventory.filter(i => i.id === id).reduce((sum, i) => sum + i.count, 0)\<close>\<close>

definition countOf :: "int \<Rightarrow> inventory_item list \<Rightarrow> nat" where
  "countOf i items = foldl (\<lambda>sum x. sum + inv_count x) 0 (filter (\<lambda>x. inv_id x = i) items)"

definition depositCond :: "inventory_item \<Rightarrow> nat \<Rightarrow> world_state \<Rightarrow> bool" where
  "depositCond it countBefore s =
     (let countNow = countOf (inv_id it) (inventory s) in countNow < countBefore)"

definition depositItem ::
  "inventory_item target \<Rightarrow> int \<Rightarrow> session \<Rightarrow> deposit_result \<times> session"
where
  "depositItem target amount w =
     (let state = getState w
      in if \<not> interfaceOpen state
         then (\<lparr>success = False, message = [Lit ''Bank is not open''],
                reason = Some ''bank_not_open'', amountDeposited = None\<rparr>, w)
         else
           (case resolveInventoryItem (Some target) re_any w of
              None \<Rightarrow>
                (\<lparr>success = False, message = [Lit ''Item not found in inventory: '', Arg],
                  reason = Some ''item_not_found'', amountDeposited = None\<rparr>, w)
            | Some it \<Rightarrow>
                (let countBefore = (case state of
                                      None \<Rightarrow> 0
                                    | Some s \<Rightarrow> countOf (inv_id it) (inventory s));
                     (u, w1) = send (BankDeposit (inv_slot it) amount) w
                 in case waitForCondition (depositCond it countBefore) 5000 w1 of
                      (Inr s, w2) \<Rightarrow>
                        (let countAfter = (case getState w2 of
                                             None \<Rightarrow> 0
                                           | Some f \<Rightarrow> countOf (inv_id it) (inventory f));
                             deposited = int countBefore - int countAfter
                         in (\<lparr>success = True,
                               message = [Lit ''Deposited '', Str (inv_name it), Lit '' x'', Num deposited],
                               reason = None, amountDeposited = Some deposited\<rparr>, w2))
                    | (Inl e, w2) \<Rightarrow>
                        (\<lparr>success = False,
                          message = [Lit ''Timeout waiting for '', Str (inv_name it),
                                     Lit '' to be deposited''],
                          reason = Some ''timeout'', amountDeposited = None\<rparr>, w2))))"

definition withdrawCond :: "world_state \<Rightarrow> world_state \<Rightarrow> bool" where
  "withdrawCond state s =
     (length (inventory s) > length (inventory state)
      \<or> list_ex (\<lambda>i. case find (\<lambda>bi. inv_slot bi = inv_slot i) (inventory state) of
                        None \<Rightarrow> False
                      | Some before \<Rightarrow> inv_count i > inv_count before)
           (inventory s))"

definition withdrawItem :: "int \<Rightarrow> int \<Rightarrow> session \<Rightarrow> item_result \<times> session" where
  "withdrawItem bankSlot amount w =
     (case getState w of
        None \<Rightarrow>
          (\<lparr>success = False, message = [Lit ''Bank is not open''], reason = Some ''bank_not_open'',
            item = None\<rparr>, w)
      | Some state \<Rightarrow>
          if \<not> interfaceOpen (Some state)
          then (\<lparr>success = False, message = [Lit ''Bank is not open''],
                 reason = Some ''bank_not_open'', item = None\<rparr>, w)
          else
            (let (u, w1) = send (BankWithdraw bankSlot amount) w
             in case waitForCondition (withdrawCond state) 5000 w1 of
                  (Inr s, w2) \<Rightarrow>
                    (let finalInv = getInventory w2;
                         newItem = find (\<lambda>i. case find (\<lambda>bi. inv_slot bi = inv_slot i) (inventory state) of
                                                None \<Rightarrow> True
                                              | Some before \<Rightarrow> inv_count i > inv_count before)
                                     finalInv
                     in (\<lparr>success = True,
                           message = [Lit ''Withdrew item from bank slot '', Num bankSlot],
                           reason = None, item = newItem\<rparr>, w2))
                | (Inl e, w2) \<Rightarrow>
                    (\<lparr>success = False, message = [Lit ''Timeout waiting for item to be withdrawn''],
                      reason = Some ''timeout'', item = None\<rparr>, w2)))"

section \<open>Equipment and combat\<close>

definition equipCond :: "inventory_item \<Rightarrow> world_state \<Rightarrow> bool" where
  "equipCond it state =
     (find (\<lambda>i. inv_slot i = inv_slot it \<and> inv_id i = inv_id it) (inventory state) = None)"

definition equipItem :: "inventory_item target \<Rightarrow> session \<Rightarrow> action_result \<times> session" where
  "equipItem target w =
     (case resolveInventoryItem (Some target) re_any w of
        None \<Rightarrow> (\<lparr>success = False, message = [Lit ''Item not found: '', Arg], reason = None\<rparr>, w)
      | Some it \<Rightarrow>
          (case findOption (\<lambda>t. re_has ''wield'' t \<or> re_has ''wear'' t \<or> re_has ''equip'' t)
                  (inv_optionsWithIndex it) of
             None \<Rightarrow>
               (\<lparr>success = False, message = [Lit ''No equip option on '', Str (inv_name it)],
                 reason = None\<rparr>, w)
           | Some equipOpt \<Rightarrow>
               (let (result, w1) = send (UseItem (inv_slot it) (opIndex equipOpt)) w
                in if \<not> ack_success result
                   then (\<lparr>success = False, message = ack_message result, reason = None\<rparr>, w1)
                   else
                     (case waitForCondition (equipCond it) 5000 w1 of
                        (Inr s, w2) \<Rightarrow>
                          (\<lparr>success = True, message = [Lit ''Equipped '', Str (inv_name it)],
                            reason = None\<rparr>, w2)
                      | (Inl e, w2) \<Rightarrow>
                          (\<lparr>success = False, message = [Lit ''Failed to equip '', Str (inv_name it)],
                            reason = None\<rparr>, w2)))))"

definition unequipCond :: "inventory_item \<Rightarrow> nat \<Rightarrow> world_state \<Rightarrow> bool" where
  "unequipCond it invCountBefore state =
     (length (inventory state) > invCountBefore \<or> list_ex (\<lambda>i. inv_id i = inv_id it) (inventory state))"

text \<open>\<^verbatim>\<open>new RegExp(item.name, 'i')\<close> is a builtin of the language, taken as a parameter:
  \<open>compile source\<close> is the test of the case-insensitive expression built from \<open>source\<close>, and
  \<open>None\<close> where the constructor throws a syntax error. The constructor is called inside the
  try block of the wait, so its error ends in the catch clause.\<close>

definition unequipItem ::
  "(string \<Rightarrow> (string \<Rightarrow> bool) option) \<Rightarrow> inventory_item target \<Rightarrow> session \<Rightarrow> item_result \<times> session"
where
  "unequipItem compile target w =
     (case (case target of Handle h \<Rightarrow> Some h | Pattern p \<Rightarrow> findEquipmentItem p w) of
        None \<Rightarrow>
          (\<lparr>success = False, message = [Lit ''Item not found in equipment: '', Arg], reason = None,
            item = None\<rparr>, w)
      | Some it \<Rightarrow>
          (let invCountBefore = length (getInventory w);
               (result, w1) = send (UseEquipmentItem (inv_slot it) 1) w
           in if \<not> ack_success result
              then (\<lparr>success = False, message = ack_message result, reason = None, item = None\<rparr>, w1)
              else
                (case waitForCondition (unequipCond it invCountBefore) 5000 w1 of
                   (Inr s, w2) \<Rightarrow>
                     (case compile (inv_name it) of
                        Some pat \<Rightarrow>
                          (\<lparr>success = True, message = [Lit ''Unequipped '', Str (inv_name it)],
                            reason = None, item = findInventoryItem pat w2\<rparr>, w2)
                      | None \<Rightarrow>
                          (\<lparr>success = False, message = [Lit ''Failed to unequip '', Str (inv_name it)],
                            reason = None, item = None\<rparr>, w2))
                 | (Inl e, w2) \<Rightarrow>
                     (\<lparr>success = False, message = [Lit ''Failed to unequip '', Str (inv_name it)],
                       reason = None, item = None\<rparr>, w2))))"

definition skillLevel :: "skill_state option \<Rightarrow> int" where
  "skillLevel k = (case k of None \<Rightarrow> 10 | Some sk \<Rightarrow> sk_level sk)"

definition eatCond :: "inventory_item \<Rightarrow> int \<Rightarrow> nat \<Rightarrow> world_state \<Rightarrow> bool" where
  "eatCond food hpBefore foodCountBefore state =
     (let hp = skillLevel (find (\<lambda>s. sk_name s = ''Hitpoints'') (skills state));
          foodCount = length (filter (\<lambda>i. inv_id i = inv_id food) (inventory state))
      in hp > hpBefore \<or> foodCount < foodCountBefore)"

definition eatFood :: "inventory_item target \<Rightarrow> session \<Rightarrow> eat_result \<times> session" where
  "eatFood target w =
     (case resolveInventoryItem (Some target) re_any w of
        None \<Rightarrow>
          (\<lparr>success = False, message = [Lit ''Food not found: '', Arg], reason = None, hpGained = 0\<rparr>, w)
      | Some food \<Rightarrow>
          (case findOption (re_has ''eat'') (inv_optionsWithIndex food) of
             None \<Rightarrow>
               (\<lparr>success = False, message = [Lit ''No eat option on '', Str (inv_name food)],
                 reason = None, hpGained = 0\<rparr>, w)
           | Some eatOpt \<Rightarrow>
               (let hpBefore = skillLevel (getSkill ''Hitpoints'' w);
                    foodCountBefore = length (filter (\<lambda>i. inv_id i = inv_id food) (getInventory w));
                    (result, w1) = send (UseItem (inv_slot food) (opIndex eatOpt)) w
                in if \<not> ack_success result
                   then (\<lparr>success = False, message = ack_message result, reason = None,
                          hpGained = 0\<rparr>, w1)
                   else
                     (case waitForCondition (eatCond food hpBefore foodCountBefore) 5000 w1 of
                        (Inr s, w2) \<Rightarrow>
                          (let hpAfter = skillLevel (getSkill ''Hitpoints'' w2)
                           in (\<lparr>success = True, message = [Lit ''Ate '', Str (inv_name food)],
                                 reason = None, hpGained = hpAfter - hpBefore\<rparr>, w2))
                      | (Inl e, w2) \<Rightarrow>
                          (\<lparr>success = False, message = [Lit ''Failed to eat '', Str (inv_name food)],
                            reason = None, hpGained = 0\<rparr>, w2)))))"

definition attackCond :: "nearby_npc \<Rightarrow> int \<Rightarrow> world_state \<Rightarrow> bool" where
  "attackCond npc startTick state =
     (if anyMessage (\<lambda>t. unreachableText t \<or> inCombatText t) startTick (gameMessages state) then True
      else (case find (\<lambda>n. npc_index n = npc_index npc) (nearbyNpcs state) of
              None \<Rightarrow> True
            | Some targetNpc \<Rightarrow> if npc_distance targetNpc \<le> 2 then True else False))"

definition attackVerdict :: "nearby_npc \<Rightarrow> string \<Rightarrow> action_result option" where
  "attackVerdict npc t =
     (if unreachableText t
      then Some \<lparr>success = False,
                 message = [Lit ''Cannot reach '', Str (npc_name npc), Lit '' - obstacle in the way''],
                 reason = Some ''out_of_reach''\<rparr>
      else if inCombatText t
      then Some \<lparr>success = False, message = [Str (npc_name npc), Lit '' is already in combat''],
                 reason = Some ''already_in_combat''\<rparr>
      else None)"

definition attackNpc :: "nearby_npc target \<Rightarrow> nat \<Rightarrow> session \<Rightarrow> action_result \<times> session" where
  "attackNpc target timeout w =
     (case resolveNpc target w of
        None \<Rightarrow>
          (\<lparr>success = False, message = [Lit ''NPC not found: '', Arg],
            reason = Some ''npc_not_found''\<rparr>, w)
      | Some npc \<Rightarrow>
          (case findOption (re_has ''attack'') (npc_optionsWithIndex npc) of
             None \<Rightarrow>
               (\<lparr>success = False, message = [Lit ''No attack option on '', Str (npc_name npc)],
                 reason = Some ''no_attack_option''\<rparr>, w)
           | Some attackOpt \<Rightarrow>
               (let startTick = tickOf (getState w);
                    (result, w1) = send (InteractNpc (npc_index npc) (opIndex attackOpt)) w
                in if \<not> ack_success result
                   then (\<lparr>success = False, message = ack_message result, reason = None\<rparr>, w1)
                   else
                     (case waitForCondition (attackCond npc startTick) timeout w1 of
                        (Inr finalState, w2) \<Rightarrow>
                          (case firstVerdict (attackVerdict npc) startTick (gameMessages finalState) of
                             Some r \<Rightarrow> (r, w2)
                           | None \<Rightarrow>
                               (\<lparr>success = True, message = [Lit ''Attacking '', Str (npc_name npc)],
                                 reason = None\<rparr>, w2))
                      | (Inl e, w2) \<Rightarrow>
                          (\<lparr>success = False,
                            message = [Lit ''Timeout waiting to attack '', Str (npc_name npc)],
                            reason = Some ''timeout''\<rparr>, w2)))))"

definition magicXp :: "world_state \<Rightarrow> int" where
  "magicXp state =
     (case find (\<lambda>s. sk_name s = ''Magic'') (skills state) of None \<Rightarrow> 0 | Some k \<Rightarrow> sk_experience k)"

definition castCond :: "int \<Rightarrow> int \<Rightarrow> world_state \<Rightarrow> bool" where
  "castCond startTick startMagicXp state =
     (if anyMessage (\<lambda>t. unreachableText t \<or> noRunesText t) startTick (gameMessages state) then True
      else (let currentMagicXp = magicXp state
            in if currentMagicXp > startMagicXp then True else False))"

definition castVerdict :: "nearby_npc \<Rightarrow> string \<Rightarrow> cast_result option" where
  "castVerdict npc t =
     (if unreachableText t
      then Some \<lparr>success = False,
                 message = [Lit ''Cannot reach '', Str (npc_name npc), Lit '' - obstacle in the way''],
                 reason = Some ''out_of_reach'', hit = None, cast_xpGained = None\<rparr>
      else if noRunesText t
      then Some \<lparr>success = False, message = [Lit ''Not enough runes to cast spell''],
                 reason = Some ''no_runes'', hit = None, cast_xpGained = None\<rparr>
      else None)"

definition castSpellOnNpc ::
  "nearby_npc target \<Rightarrow> int \<Rightarrow> nat \<Rightarrow> session \<Rightarrow> cast_result \<times> session"
where
  "castSpellOnNpc target spellComponent timeout w =
     (case resolveNpc target w of
        None \<Rightarrow>
          (\<lparr>success = False, message = [Lit ''NPC not found: '', Arg],
            reason = Some ''npc_not_found'', hit = None, cast_xpGained = None\<rparr>, w)
      | Some npc \<Rightarrow>
          (case getState w of
             None \<Rightarrow>
               (\<lparr>success = False, message = [Lit ''No game state available''], reason = None,
                 hit = None, cast_xpGained = None\<rparr>, w)
           | Some startState \<Rightarrow>
               (let startTick = tick startState;
                    startMagicXp = magicXp startState;
                    (result, w1) = send (SpellOnNpc (npc_index npc) spellComponent) w
                in if \<not> ack_success result
                   then (\<lparr>success = False, message = ack_message result, reason = None,
                          hit = None, cast_xpGained = None\<rparr>, w1)
                   else
                     (case waitForCondition (castCond startTick startMagicXp) timeout w1 of
                        (Inr finalState, w2) \<Rightarrow>
                          (case firstVerdict (castVerdict npc) startTick (gameMessages finalState) of
                             Some r \<Rightarrow> (r, w2)
                           | None \<Rightarrow>
                               (let finalMagicXp = magicXp finalState;
                                    gained = finalMagicXp - startMagicXp
                                in if gained > 0
                                   then (\<lparr>success = True,
                                          message = [Lit ''Hit '', Str (npc_name npc), Lit '' for '',
                                                     Num gained, Lit '' Magic XP''],
                                          reason = None, hit = Some True, cast_xpGained = Some gained\<rparr>, w2)
                                   else (\<lparr>success = True,
                                          message = [Lit ''Splashed on '', Str (npc_name npc)],
                                          reason = None, hit = Some False, cast_xpGained = Some 0\<rparr>, w2)))
                      | (Inl e, w2) \<Rightarrow>
                          (\<lparr>success = True,
                            message = [Lit ''Splashed on '', Str (npc_name npc), Lit '' (timeout)''],
                            reason = None, hit = Some False, cast_xpGained = Some 0\<rparr>, w2)))))"

section \<open>Describing snapshot streams\<close>

text \<open>\<open>holdsAt p f u\<close>: the snapshot shown at time \<open>u\<close> exists and satisfies \<open>p\<close>.
  \<open>quiet p w d\<close>: none of the next \<open>d\<close> snapshots of the session, from now on, satisfies
  \<open>p\<close>.\<close>

definition holdsAt :: "(world_state \<Rightarrow> bool) \<Rightarrow> (nat \<Rightarrow> world_state option) \<Rightarrow> nat \<Rightarrow> bool" where
  "holdsAt p f u = (case f u of None \<Rightarrow> False | Some s \<Rightarrow> p s)"

definition quiet :: "(world_state \<Rightarrow> bool) \<Rightarrow> session \<Rightarrow> nat \<Rightarrow> bool" where
  "quiet p w d = (\<forall>u<d. \<not> holdsAt p (feed w) (clock w + u))"

section \<open>Scenarios\<close>

text \<open>Concrete snapshots and scripted sessions on which the theorems below are run.\<close>

definition blank :: world_state where
  "blank =
     \<lparr>player = Some \<lparr>worldX = 0, worldZ = 0\<rparr>, tick = 0, gameMessages = [], inventory = [],
      equipment = [], nearbyNpcs = [], nearbyLocs = [], groundItems = [], skills = [],
      dialog = \<lparr>dlg_isOpen = False, dlg_options = []\<rparr>,
      shop = \<lparr>shop_isOpen = False, shop_title = [], shopItems = [], playerItems = []\<rparr>,
      interface = None\<rparr>"

definition script :: "(nat \<Rightarrow> world_state option) \<Rightarrow> (command \<Rightarrow> bool) \<Rightarrow> session" where
  "script f ok =
     \<lparr>clock = 0, feed = f,
      reply = (\<lambda>t c. \<lparr>ack_success = ok c, ack_message = [], ack_reason = None\<rparr>),
      paths = (\<lambda>t x z. \<lparr>path_success = False, waypoints = None\<rparr>), late = (\<lambda>t. 0), sent = []\<rparr>"

definition bankOpen :: "world_state \<Rightarrow> world_state" where
  "bankOpen s = s\<lparr>interface := Some \<lparr>if_isOpen = True, interfaceId = 5292\<rparr>\<rparr>"

definition stack :: "int \<Rightarrow> int \<Rightarrow> string \<Rightarrow> nat \<Rightarrow> inventory_item" where
  "stack slot i n c =
     \<lparr>inv_slot = slot, inv_id = i, inv_name = n, inv_count = c, inv_optionsWithIndex = []\<rparr>"

definition deposit_feed :: "nat \<Rightarrow> world_state option" where
  "deposit_feed t =
     (if t < 2
      then Some (bankOpen (blank\<lparr>inventory := [stack 0 1739 ''Cowhide'' 7, stack 1 1739 ''Cowhide'' 5]\<rparr>))
      else Some (bankOpen (blank\<lparr>inventory := [stack 1 1739 ''Cowhide'' 5]\<rparr>)))"

definition shopWith :: "shop_item list \<Rightarrow> world_state \<Rightarrow> world_state" where
  "shopWith items s =
     s\<lparr>shop := \<lparr>shop_isOpen = True, shop_title = ''General Store'', shopItems = [],
                  playerItems = items\<rparr>\<rparr>"

definition offer :: "int \<Rightarrow> int \<Rightarrow> string \<Rightarrow> nat \<Rightarrow> shop_item" where
  "offer slot i n c = \<lparr>si_slot = slot, si_id = i, si_name = n, si_count = c\<rparr>"

definition idle :: session where
  "idle = script (\<lambda>t. Some blank) (\<lambda>c. True)"

definition bank_closing :: session where
  "bank_closing = script (\<lambda>t. if t < 3 then Some (bankOpen blank) else Some blank) (\<lambda>c. True)"

definition shop_closing :: session where
  "shop_closing = script (\<lambda>t. if t < 3 then Some (shopWith [] blank) else Some blank) (\<lambda>c. True)"

definition goblin :: nearby_npc where
  "goblin = \<lparr>npc_index = 7, npc_name = ''Goblin'', npc_distance = 5,
             npc_optionsWithIndex = [\<lparr>op_text = ''Attack'', opIndex = 2\<rparr>,
                                     \<lparr>op_text = ''Talk-to'', opIndex = 1\<rparr>]\<rparr>"

definition chat :: "string \<Rightarrow> int \<Rightarrow> game_message" where
  "chat t k = \<lparr>msg_text = t, msg_tick = k\<rparr>"

definition field :: world_state where
  "field = blank\<lparr>tick := 10, nearbyNpcs := [goblin]\<rparr>"

definition fight_then_blocked :: session where
  "fight_then_blocked =
     script (\<lambda>t. if t < 2 then Some field
                  else Some (field\<lparr>tick := 11,
                        gameMessages := [chat ''Someone else is fighting that.'' 11,
                                         chat ''I can't reach that!'' 11]\<rparr>)) (\<lambda>c. True)"

definition blocked :: session where
  "blocked =
     script (\<lambda>t. if t < 2 then Some field
                  else Some (field\<lparr>tick := 11,
                        gameMessages := [chat ''Someone else is fighting that.'' 9,
                                         chat ''I can't reach that!'' 11]\<rparr>)) (\<lambda>c. True)"

definition stale_then_close :: session where
  "stale_then_close =
     script (\<lambda>t. if t < 2 then Some (field\<lparr>gameMessages := [chat ''I can't reach that!'' 10]\<rparr>)
                  else Some (field\<lparr>tick := 11, nearbyNpcs := [goblin\<lparr>npc_distance := 1\<rparr>],
                        gameMessages := [chat ''I can't reach that!'' 10]\<rparr>)) (\<lambda>c. True)"

definition goblinP :: "nearby_npc target" where
  "goblinP = Pattern (re_has ''goblin'')"

definition burnDone :: "int \<Rightarrow> int \<Rightarrow> world_state \<Rightarrow> bool" where
  "burnDone fmBefore startTick state =
     (skillExperience ''Firemaking'' (skills state) > fmBefore
      \<or> anyMessage burnFailureText startTick (gameMessages state))"

definition keeper :: nearby_npc where
  "keeper = \<lparr>npc_index = 3, npc_name = ''Shop keeper'', npc_distance = 4,
             npc_optionsWithIndex = [\<lparr>op_text = ''Talk-to'', opIndex = 1\<rparr>,
                                     \<lparr>op_text = ''Trade'', opIndex = 3\<rparr>]\<rparr>"

definition gate :: nearby_loc where
  "gate = \<lparr>loc_x = 1, loc_z = 0, loc_id = 1530, loc_name = ''Door'', loc_distance = 1,
           loc_options = [''Open''], loc_optionsWithIndex = [\<lparr>op_text = ''Open'', opIndex = 1\<rparr>]\<rparr>"

definition oak :: nearby_loc where
  "oak = \<lparr>loc_x = 0, loc_z = 1, loc_id = 1276, loc_name = ''Tree'', loc_distance = 1,
          loc_options = [''Chop down''], loc_optionsWithIndex = [\<lparr>op_text = ''Chop down'', opIndex = 1\<rparr>]\<rparr>"

definition bones :: ground_item where
  "bones = \<lparr>gi_x = 1, gi_z = 1, gi_id = 526, gi_name = ''Bones''\<rparr>"

definition shrimps :: inventory_item where
  "shrimps = \<lparr>inv_slot = 2, inv_id = 315, inv_name = ''Shrimps'', inv_count = 1,
              inv_optionsWithIndex = [\<lparr>op_text = ''Eat'', opIndex = 1\<rparr>]\<rparr>"

definition sword :: inventory_item where
  "sword = \<lparr>inv_slot = 3, inv_id = 1277, inv_name = ''Bronze sword'', inv_count = 1,
            inv_optionsWithIndex = [\<lparr>op_text = ''Wield'', opIndex = 2\<rparr>]\<rparr>"

definition camp :: world_state where
  "camp = blank\<lparr>tick := 10, nearbyNpcs := [goblin, keeper], nearbyLocs := [gate, oak],
            groundItems := [bones],
            inventory := [stack 0 590 ''Tinderbox'' 1, stack 1 1511 ''Logs'' 1, shrimps, sword],
            equipment := [stack 5 1171 ''Wooden shield'' 1],
            skills := [\<lparr>sk_name = ''Firemaking'', sk_experience = 0, sk_level = 1\<rparr>,
                       \<lparr>sk_name = ''Magic'', sk_experience = 0, sk_level = 1\<rparr>,
                       \<lparr>sk_name = ''Hitpoints'', sk_experience = 1154, sk_level = 10\<rparr>]\<rparr>"

definition store :: world_state where
  "store = camp\<lparr>shop := \<lparr>shop_isOpen = True, shop_title = ''General Store'',
                          shopItems = [offer 0 1351 ''Bronze axe'' 5],
                          playerItems = [offer 2 315 ''Shrimps'' 1]\<rparr>\<rparr>"

definition camping :: session where "camping = script (\<lambda>t. Some camp) (\<lambda>c. True)"

definition banking :: session where "banking = script (\<lambda>t. Some (bankOpen camp)) (\<lambda>c. True)"

definition trading :: session where "trading = script (\<lambda>t. Some store) (\<lambda>c. True)"

text \<open>The reason taxonomy as section 7 of the specification lists it, for comparison with
  the reasons the code writes.\<close>

definition spec_taxonomy :: "string list" where
  "spec_taxonomy =
     [''target_not_found'', ''no_option'', ''out_of_reach'', ''cant_reach'', ''already_in_combat'',
      ''already_open'', ''inventory_full'', ''timeout'', ''rejected'', ''walk_failed'', ''stuck'']"

text \<open>A player that steps back and forth until 1500 ms and then stands still, on a machine
  whose timers fire 1 ms late.\<close>

definition rambler :: session where
  "rambler =
     (script (\<lambda>t. Some (blank\<lparr>player :=
                 Some \<lparr>worldX = (if t < 1500 then int ((t div 150) mod 2) else 0), worldZ = 0\<rparr>\<rparr>))
        (\<lambda>c. True))
       \<lparr>late := (\<lambda>t. 1)\<rparr>"

text \<open>Counting the path queries a call has sent, and two sessions for the replanning loop of
  \<^verbatim>\<open>walkTo\<close>: on \<open>treadmill\<close> the player never leaves the origin and every path query answers
  with the waypoint \<open>(1, 0)\<close>; on \<open>hike\<close> the player is at \<open>(6, 0)\<close> from 150 ms on.\<close>

definition isFindPath :: "command \<Rightarrow> bool" where
  "isFindPath c = (case c of FindPath x z m \<Rightarrow> True | _ \<Rightarrow> False)"

definition pathQueries :: "session \<Rightarrow> nat" where
  "pathQueries w = length (filter isFindPath (sent w))"

definition treadmill :: session where
  "treadmill =
     (script (\<lambda>t. Some blank) (\<lambda>c. True))
       \<lparr>paths := (\<lambda>t x z. \<lparr>path_success = True, waypoints = Some [(1, 0)]\<rparr>)\<rparr>"

definition hike :: session where
  "hike =
     (script (\<lambda>t. Some (blank\<lparr>player := Some \<lparr>worldX = (if t < 150 then 0 else 6), worldZ = 0\<rparr>\<rparr>))
        (\<lambda>c. True))
       \<lparr>paths := (\<lambda>t x z. \<lparr>path_success = True, waypoints = Some [(6, 0)]\<rparr>)\<rparr>"

text \<open>Describing a run of "sell all". \<open>offered\<close> is the number of units of the item the
  current snapshot lists over all stacks. \<open>batchWait\<close> is the wait of the next batch, when the
  loop gets as far as sending it: the shop is open, the first stack of the item is not empty
  and the sell command is acknowledged. \<open>goodBatches n ending\<close> says that \<open>n\<close> batches in a row
  each end in a snapshot without a rejection message, and that \<open>ending\<close> holds of the session
  after them: nothing is left (\<open>soldOut\<close>), the next batch is rejected (\<open>rejectedNext\<close>) or the
  next batch changes nothing before its wait expires (\<open>stalledNext\<close>). \<open>capped\<close> marks a sell
  command of between 1 and 10 units. The three sessions start with stacks of 12 and 5
  cowhides.\<close>

definition offered :: "shop_item \<Rightarrow> session \<Rightarrow> nat" where
  "offered sellItem w =
     (case getState w of
        None \<Rightarrow> 0
      | Some st \<Rightarrow> getTotalCount (si_id sellItem) (playerItems (shop st)))"

definition batchWait ::
  "shop_item \<Rightarrow> int \<Rightarrow> session \<Rightarrow> ((error + world_state) \<times> session) option"
where
  "batchWait sellItem startTick w =
     (case getState w of
        None \<Rightarrow> None
      | Some state \<Rightarrow>
          if \<not> shop_isOpen (shop state) then None
          else
            (case find (\<lambda>i. si_id i = si_id sellItem) (playerItems (shop state)) of
               None \<Rightarrow> None
             | Some currentItem \<Rightarrow>
                 if si_count currentItem = 0 then None
                 else
                   (case send (ShopSell (si_slot currentItem) (min 10 (int (si_count currentItem)))) w of
                      (result, w1) \<Rightarrow>
                        if \<not> ack_success result then None
                        else Some (waitForCondition
                                     (sellCond (si_id sellItem) startTick
                                        (getTotalCount (si_id sellItem) (playerItems (shop state))))
                                     3000 w1))))"

definition noRejection :: "shop_item \<Rightarrow> int \<Rightarrow> world_state \<Rightarrow> bool" where
  "noRejection sellItem startTick s =
     (firstVerdict (sellAllVerdict sellItem 0) startTick (gameMessages s) = None)"

fun goodBatches :: "nat \<Rightarrow> (session \<Rightarrow> bool) \<Rightarrow> shop_item \<Rightarrow> int \<Rightarrow> session \<Rightarrow> bool" where
  "goodBatches 0 ending sellItem startTick w = ending w"
| "goodBatches (Suc n) ending sellItem startTick w =
     (case batchWait sellItem startTick w of
        Some (Inr finalState, w2) \<Rightarrow>
          noRejection sellItem startTick finalState \<and> goodBatches n ending sellItem startTick w2
      | _ \<Rightarrow> False)"

definition soldOut :: "shop_item \<Rightarrow> session \<Rightarrow> bool" where
  "soldOut sellItem w = (getState w \<noteq> None \<and> offered sellItem w = 0)"

definition rejectedNext :: "shop_item \<Rightarrow> int \<Rightarrow> session \<Rightarrow> bool" where
  "rejectedNext sellItem startTick w =
     (case batchWait sellItem startTick w of
        Some (Inr finalState, w2) \<Rightarrow> \<not> noRejection sellItem startTick finalState
      | _ \<Rightarrow> False)"

definition stalledNext :: "shop_item \<Rightarrow> int \<Rightarrow> session \<Rightarrow> bool" where
  "stalledNext sellItem startTick w =
     (case batchWait sellItem startTick w of Some (Inl e, w2) \<Rightarrow> True | _ \<Rightarrow> False)"

definition capped :: "command \<Rightarrow> bool" where
  "capped c = (case c of ShopSell slot a \<Rightarrow> 1 \<le> a \<and> a \<le> 10 | _ \<Rightarrow> False)"

definition hides :: "nat \<Rightarrow> nat \<Rightarrow> shop_item list" where
  "hides a b =
     (if a = 0 then [] else [offer 0 1739 ''Cowhide'' a]) @
     (if b = 0 then [] else [offer 1 1739 ''Cowhide'' b])"

definition clearance :: session where
  "clearance =
     script (\<lambda>t. Some (shopWith (if t < 1 then hides 12 5 else if t < 2 then hides 2 5
                                  else if t < 3 then hides 0 5 else hides 0 0) blank))
       (\<lambda>c. True)"

definition refusal :: session where
  "refusal =
     script (\<lambda>t. Some (shopWith (if t < 1 then hides 12 5 else hides 2 5)
                        (if t < 2 then blank
                         else blank\<lparr>gameMessages := [chat ''You can't sell this item to this shop.'' 9]\<rparr>)))
       (\<lambda>c. True)"

definition standstill :: session where
  "standstill =
     script (\<lambda>t. Some (shopWith (if t < 1 then hides 12 5 else hides 2 5) blank)) (\<lambda>c. True)"

text \<open>For the actions not met so far: \<open>plainWord\<close> is the regular expression of a source
  without metacharacters; a gate three tiles away; a banker; a bank booth; a bank that stays
  open for 5300 ms; and a command channel that refuses every command with a reason of its
  own.\<close>

definition plainWord :: "string \<Rightarrow> (string \<Rightarrow> bool) option" where
  "plainWord source = Some (re_has (toLowerCase source))"

definition farGate :: nearby_loc where
  "farGate = \<lparr>loc_x = 3, loc_z = 0, loc_id = 1551, loc_name = ''Gate'', loc_distance = 3,
              loc_options = [''Open''], loc_optionsWithIndex = [\<lparr>op_text = ''Open'', opIndex = 1\<rparr>]\<rparr>"

definition strolling :: session where
  "strolling = script (\<lambda>t. Some (blank\<lparr>tick := 10, nearbyLocs := [farGate]\<rparr>)) (\<lambda>c. True)"

definition teller :: nearby_npc where
  "teller = \<lparr>npc_index = 9, npc_name = ''Banker'', npc_distance = 2,
             npc_optionsWithIndex = [\<lparr>op_text = ''Talk-to'', opIndex = 1\<rparr>,
                                     \<lparr>op_text = ''Bank'', opIndex = 2\<rparr>]\<rparr>"

definition bankBooth :: nearby_loc where
  "bankBooth = \<lparr>loc_x = 2, loc_z = 1, loc_id = 2213, loc_name = ''Bank booth'', loc_distance = 2,
                loc_options = [''Use-quickly''],
                loc_optionsWithIndex = [\<lparr>op_text = ''Use-quickly'', opIndex = 2\<rparr>]\<rparr>"

definition queueing :: session where
  "queueing = script (\<lambda>t. Some (blank\<lparr>nearbyNpcs := [teller]\<rparr>)) (\<lambda>c. True)"

definition lobby :: session where
  "lobby = script (\<lambda>t. Some (blank\<lparr>nearbyLocs := [bankBooth]\<rparr>)) (\<lambda>c. True)"

definition sticky :: session where
  "sticky = script (\<lambda>t. if t < 5300 then Some (bankOpen blank) else Some blank) (\<lambda>c. True)"

definition refusing :: session where
  "refusing =
     (script (\<lambda>t. Some camp) (\<lambda>c. False))
       \<lparr>reply := (\<lambda>t c. \<lparr>ack_success = False, ack_message = [Lit ''Not connected''],
                              ack_reason = Some ''not_connected''\<rparr>)\<rparr>"

section \<open>The wait primitive\<close>

lemma firstSatisfying_quiet:
  "\<forall>u<d. \<not> holdsAt p f (t + u) \<Longrightarrow> firstSatisfying p f t (d + n) = firstSatisfying p f (t + d) n"
proof (induction d arbitrary: t)
  case 0
  then show ?case by simp
next
  case (Suc d)
  from Suc.prems have h0: "\<not> holdsAt p f t" by (metis add.right_neutral zero_less_Suc)
  have "\<forall>u<d. \<not> holdsAt p f (Suc t + u)"
  proof (intro allI impI)
    fix u assume "u < d"
    then have "Suc u < Suc d" by simp
    with Suc.prems have "\<not> holdsAt p f (t + Suc u)" by blast
    then show "\<not> holdsAt p f (Suc t + u)" by simp
  qed
  from Suc.IH [OF this] have "firstSatisfying p f (Suc t) (d + n) = firstSatisfying p f (Suc t + d) n" .
  with h0 show ?case by (simp add: holdsAt_def split: option.splits)
qed

lemma firstSatisfying_None:
  "\<forall>u<n. \<not> holdsAt p f (t + u) \<Longrightarrow> firstSatisfying p f t n = None"
  using firstSatisfying_quiet [of n p f t 0] by simp

lemma waitForCondition_timeout:
  "quiet p w timeout \<Longrightarrow>
   waitForCondition p timeout w = (Inl ConditionTimeout, w\<lparr>clock := clock w + timeout\<rparr>)"
  by (simp add: waitForCondition_def quiet_def firstSatisfying_None)

lemma waitForCondition_first:
  assumes "quiet p w d" and "d < timeout" and "feed w (clock w + d) = Some s" and "p s"
  shows "waitForCondition p timeout w = (Inr s, w\<lparr>clock := clock w + d\<rparr>)"
proof -
  from assms(2) obtain n where n: "timeout = d + Suc n"
    by (metis less_imp_Suc_add add_Suc_right)
  from assms(1)
  have "firstSatisfying p (feed w) (clock w) (d + Suc n) = firstSatisfying p (feed w) (clock w + d) (Suc n)"
    unfolding quiet_def by (rule firstSatisfying_quiet)
  also have "\<dots> = Some (clock w + d, s)" using assms(3,4) by simp
  finally show ?thesis by (simp add: waitForCondition_def n)
qed

lemma quiet_sent [simp]: "quiet p (w\<lparr>sent := cs\<rparr>) d = quiet p w d"
  by (simp add: quiet_def)

section \<open>Bank transfers are measured, not acknowledged\<close>

text \<open>
  C2. Let the bank be open and the target resolve to an item whose stacks total \<open>B\<close> in the
  current inventory. If the first snapshot in which that total has dropped below \<open>B\<close> (the
  wait condition \<open>depositCond\<close>) arrives within the wait and shows the total \<open>A\<close>, then \<^verbatim>\<open>depositItem\<close> succeeds and reports
  \<open>amountDeposited = B - A\<close>, whatever the command channel answered to the deposit command.
  It issues exactly that one command.
\<close>

theorem depositItem_reports_count_delta:
  assumes isopen: "interfaceOpen (getState w)"
    and resolved: "resolveInventoryItem (Some target) re_any w = Some it"
    and before: "getState w = Some s0" "countOf (inv_id it) (inventory s0) = B"
    and q: "quiet (depositCond it B) w d"
    and d: "d < 5000"
    and after: "feed w (clock w + d) = Some s1" "countOf (inv_id it) (inventory s1) = A" "A < B"
  shows "case depositItem target amount w of (r, w') \<Rightarrow>
           success r \<and> amountDeposited r = Some (int B - int A) \<and> reason r = None \<and>
           sent w' = sent w @ [BankDeposit (inv_slot it) amount] \<and> clock w' = clock w + d"
proof -
  let ?w1 = "w\<lparr>sent := sent w @ [BankDeposit (inv_slot it) amount]\<rparr>"
  let ?p = "depositCond it B"
  have q1: "quiet ?p ?w1 d" using q by simp
  have "waitForCondition ?p 5000 ?w1 = (Inr s1, ?w1\<lparr>clock := clock ?w1 + d\<rparr>)"
    by (rule waitForCondition_first [OF q1 d]) (use after in \<open>simp_all add: depositCond_def\<close>)
  then show ?thesis
    using isopen resolved before after
    by (simp add: depositItem_def send_def Let_def getState_def)
qed

text \<open>Before-count 12 (two stacks, 7 and 5), after-count 5, and a command channel that
  answers every command with failure: the report is 7.\<close>

theorem depositItem_reports_count_delta_witness:
  "case depositItem (Pattern (re_has ''cowhide'')) (-1) (script deposit_feed (\<lambda>c. False)) of
     (r, w') \<Rightarrow>
       success r \<and> amountDeposited r = Some 7 \<and> reason r = None \<and>
       sent w' = [BankDeposit 0 (-1)] \<and> clock w' = 2"
  using depositItem_reports_count_delta [of "script deposit_feed (\<lambda>c. False)"
      "Pattern (re_has ''cowhide'')" "stack 0 1739 ''Cowhide'' 7"
      "bankOpen (blank\<lparr>inventory := [stack 0 1739 ''Cowhide'' 7, stack 1 1739 ''Cowhide'' 5]\<rparr>)"
      12 2 "bankOpen (blank\<lparr>inventory := [stack 1 1739 ''Cowhide'' 5]\<rparr>)" 5 "-1"]
  by (simp add: script_def deposit_feed_def getState_def interfaceOpen_def bankOpen_def blank_def
      resolveInventoryItem_def findInventoryItem_def getInventory_def re_has_def toLowerCase_def
      lowerChar_def stack_def countOf_def quiet_def holdsAt_def depositCond_def numeral_2_eq_2)

section \<open>Selling a fixed amount\<close>

lemma waitForCondition_sent: "waitForCondition p t w = (r, w') \<Longrightarrow> sent w' = sent w"
  by (auto simp: waitForCondition_def split: option.splits prod.splits)

text \<open>
  C10. With the shop open and the item resolved, \<^verbatim>\<open>sellToShop\<close> with a numeric amount
  outside \<open>{1, 5, 10}\<close> returns a result and has issued exactly one command: a sell of 1 from
  the item's slot. The requested amount never reaches the command channel.
\<close>

theorem sellToShop_clamps_amount:
  assumes st: "getState w = Some st" and isopen: "shop_isOpen (shop st)"
    and resolved: "resolveShopItem target (playerItems (shop st)) = Some sellItem"
    and n: "n \<notin> {1, 5, 10}"
  shows "\<exists>r w'. sellToShop target (Amount n) w = Some (r, w')
           \<and> sent w' = sent w @ [ShopSell (si_slot sellItem) 1]"
proof -
  let ?w1 = "w\<lparr>sent := sent w @ [ShopSell (si_slot sellItem) 1]\<rparr>"
  let ?p = "sellCond (si_id sellItem) (tickOf (getState w))
              (getTotalCount (si_id sellItem) (playerItems (shop st)))"
  obtain rs w2 where wt: "waitForCondition ?p 5000 ?w1 = (rs, w2)"
    by (cases "waitForCondition ?p 5000 ?w1")
  from waitForCondition_sent [OF wt] have s2: "sent w2 = sent w @ [ShopSell (si_slot sellItem) 1]"
    by simp
  show ?thesis
    using st isopen resolved n wt s2
    by (cases "ack_success (reply w (clock w) (ShopSell (si_slot sellItem) 1))")
       (auto simp: sellToShop_def send_def Let_def split: sum.splits option.splits)
qed

text \<open>Asking to sell 7 cowhides sends a sell of 1.\<close>

theorem sellToShop_clamps_amount_witness:
  "\<exists>r w'. sellToShop (Pattern (re_has ''cowhide'')) (Amount 7)
              (script (\<lambda>t. Some (shopWith [offer 0 1739 ''Cowhide'' 20] blank)) (\<lambda>c. True)) = Some (r, w')
           \<and> sent w' = [ShopSell 0 1]"
  using sellToShop_clamps_amount
    [of "script (\<lambda>t. Some (shopWith [offer 0 1739 ''Cowhide'' 20] blank)) (\<lambda>c. True)"
        "shopWith [offer 0 1739 ''Cowhide'' 20] blank" "Pattern (re_has ''cowhide'')"
        "offer 0 1739 ''Cowhide'' 20" 7]
  by (simp add: script_def getState_def shopWith_def offer_def resolveShopItem_def re_has_def
      toLowerCase_def lowerChar_def)

section \<open>Walking to a place already reached\<close>

lemma dist2d_le_iff:
  "dist2d tx tz px pz \<le> t \<longleftrightarrow> 0 \<le> t \<and> real_of_int ((tx - px)\<^sup>2 + (tz - pz)\<^sup>2) \<le> t\<^sup>2"
proof -
  let ?a = "real_of_int ((tx - px)\<^sup>2 + (tz - pz)\<^sup>2)"
  have a: "0 \<le> ?a" by simp
  show ?thesis
  proof
    assume h: "dist2d tx tz px pz \<le> t"
    then have le: "sqrt ?a \<le> t" by (simp add: dist2d_def)
    moreover have "0 \<le> sqrt ?a" using a by simp
    ultimately have "0 \<le> t" by linarith
    moreover from le have "?a \<le> t\<^sup>2" by (rule sqrt_le_D)
    ultimately show "0 \<le> t \<and> ?a \<le> t\<^sup>2" by simp
  next
    assume "0 \<le> t \<and> ?a \<le> t\<^sup>2"
    then have "sqrt ?a \<le> t" by (simp add: real_le_lsqrt)
    then show "dist2d tx tz px pz \<le> t" by (simp add: dist2d_def)
  qed
qed

text \<open>
  C4. If the initial snapshot has a player whose straight-line distance to \<open>(x, z)\<close> is at
  most the tolerance, \<^verbatim>\<open>walkTo\<close> returns success and leaves the session as it was: no
  path query, no walk command, no time spent.
\<close>

theorem walkTo_already_there:
  assumes "playerOf (getState w) = Some p"
    and "dist2d x z (worldX p) (worldZ p) \<le> tolerance"
  shows "walkTo x z tolerance w =
           (\<lparr>success = True, message = at_text ''Already at ('' x z, reason = None\<rparr>, w)"
  using assms by (simp add: walkTo_def Let_def)

theorem walkTo_already_there_witness:
  "walkTo 2 2 3 idle = (\<lparr>success = True, message = at_text ''Already at ('' 2 2, reason = None\<rparr>, idle)
   \<and> sent idle = []"
  using walkTo_already_there [of idle "\<lparr>worldX = 0, worldZ = 0\<rparr>" 2 2 3]
  by (simp add: idle_def script_def getState_def playerOf_def blank_def dist2d_le_iff)

section \<open>Closing a bank or a shop twice\<close>

text \<open>
  C9. \<^verbatim>\<open>closeBank\<close> on a snapshot whose interface is not open, and \<^verbatim>\<open>closeShop\<close> on a
  snapshot with neither the shop nor an interface open, return success at once and leave
  the session untouched (no close command). After any successful close, a second close
  is such a call: it succeeds and changes nothing.
\<close>

theorem close_is_idempotent:
  "(\<not> interfaceOpen (getState w) \<longrightarrow>
      closeBank t w = (\<lparr>success = True, message = [Lit ''Bank already closed''], reason = None\<rparr>, w))
   \<and> (\<not> shopOpen (getState w) \<and> \<not> interfaceOpen (getState w) \<longrightarrow>
        closeShop t w = (\<lparr>success = True, message = [Lit ''Shop already closed''], reason = None\<rparr>, w))
   \<and> (closeBank t w = (r, w') \<and> success r \<longrightarrow>
        closeBank t' w' = (\<lparr>success = True, message = [Lit ''Bank already closed''], reason = None\<rparr>, w'))
   \<and> (closeShop t w = (r, w') \<and> success r \<longrightarrow>
        closeShop t' w' = (\<lparr>success = True, message = [Lit ''Shop already closed''], reason = None\<rparr>, w'))"
proof (intro conjI impI)
  assume "\<not> interfaceOpen (getState w)"
  then show "closeBank t w = (\<lparr>success = True, message = [Lit ''Bank already closed''], reason = None\<rparr>, w)"
    by (simp add: closeBank_def)
next
  assume "\<not> shopOpen (getState w) \<and> \<not> interfaceOpen (getState w)"
  then show "closeShop t w = (\<lparr>success = True, message = [Lit ''Shop already closed''], reason = None\<rparr>, w)"
    by (simp add: closeShop_def)
next
  assume a: "closeBank t w = (r, w') \<and> success r"
  have "\<not> interfaceOpen (getState w')"
  proof (cases "interfaceOpen (getState w)")
    case False
    with a show ?thesis by (simp add: closeBank_def)
  next
    case True
    let ?w1 = "w\<lparr>sent := sent w @ [CloseModal]\<rparr>"
    obtain rs w2 where wt: "waitForCondition (\<lambda>s. \<not> interfaceOpen (Some s)) t ?w1 = (rs, w2)"
      by (cases "waitForCondition (\<lambda>s. \<not> interfaceOpen (Some s)) t ?w1")
    show ?thesis
    proof (cases rs)
      case (Inr s)
      with wt waitForCondition_Inr [of "\<lambda>s. \<not> interfaceOpen (Some s)" t ?w1 s w2]
      have "getState w2 = Some s" "\<not> interfaceOpen (Some s)" by simp_all
      moreover from a True wt Inr have "w' = w2" by (simp add: closeBank_def send_def Let_def)
      ultimately show ?thesis by simp
    next
      case (Inl e)
      with a True wt show ?thesis
        by (auto simp: closeBank_def send_def Let_def split: if_splits)
    qed
  qed
  then show "closeBank t' w' = (\<lparr>success = True, message = [Lit ''Bank already closed''], reason = None\<rparr>, w')"
    by (simp add: closeBank_def)
next
  assume a: "closeShop t w = (r, w') \<and> success r"
  let ?c = "\<lambda>s. let shopClosed = \<not> shop_isOpen (shop s); interfaceClosed = \<not> interfaceOpen (Some s)
                 in shopClosed \<and> interfaceClosed"
  have "\<not> shopOpen (getState w') \<and> \<not> interfaceOpen (getState w')"
  proof (cases "\<not> shopOpen (getState w) \<and> \<not> interfaceOpen (getState w)")
    case True
    with a show ?thesis by (auto simp: closeShop_def)
  next
    case False
    let ?w1 = "w\<lparr>sent := sent w @ [CloseShop]\<rparr>"
    obtain rs w2 where wt: "waitForCondition ?c t ?w1 = (rs, w2)"
      by (cases "waitForCondition ?c t ?w1")
    show ?thesis
    proof (cases rs)
      case (Inr s)
      with wt waitForCondition_Inr [of ?c t ?w1 s w2]
      have "getState w2 = Some s" "\<not> shop_isOpen (shop s)" "\<not> interfaceOpen (Some s)"
        by (simp_all add: Let_def)
      moreover from a False wt Inr have "w' = w2" by (auto simp: closeShop_def send_def Let_def)
      ultimately show ?thesis by (simp add: shopOpen_def)
    next
      case (Inl e)
      with a False wt show ?thesis
        by (auto simp: closeShop_def send_def Let_def split: if_splits)
    qed
  qed
  then show "closeShop t' w' = (\<lparr>success = True, message = [Lit ''Shop already closed''], reason = None\<rparr>, w')"
    by (simp add: closeShop_def)
qed

lemma closeBank_closes:
  assumes "interfaceOpen (getState w)"
    and "quiet (\<lambda>s. \<not> interfaceOpen (Some s)) w d" and "d < t"
    and "feed w (clock w + d) = Some s" and "\<not> interfaceOpen (Some s)"
  shows "closeBank t w = (\<lparr>success = True, message = [Lit ''Bank closed''], reason = None\<rparr>,
                          w\<lparr>sent := sent w @ [CloseModal], clock := clock w + d\<rparr>)"
proof -
  let ?w1 = "w\<lparr>sent := sent w @ [CloseModal]\<rparr>"
  have "waitForCondition (\<lambda>s. \<not> interfaceOpen (Some s)) t ?w1 = (Inr s, ?w1\<lparr>clock := clock ?w1 + d\<rparr>)"
    by (rule waitForCondition_first) (use assms in simp_all)
  then show ?thesis using assms(1) by (simp add: closeBank_def send_def)
qed

lemma closeShop_closes:
  assumes "shopOpen (getState w) \<or> interfaceOpen (getState w)"
    and "quiet (\<lambda>s. \<not> shop_isOpen (shop s) \<and> \<not> interfaceOpen (Some s)) w d" and "d < t"
    and "feed w (clock w + d) = Some s" and "\<not> shop_isOpen (shop s)" and "\<not> interfaceOpen (Some s)"
  shows "closeShop t w = (\<lparr>success = True, message = [Lit ''Shop closed''], reason = None\<rparr>,
                          w\<lparr>sent := sent w @ [CloseShop], clock := clock w + d\<rparr>)"
proof -
  let ?w1 = "w\<lparr>sent := sent w @ [CloseShop]\<rparr>"
  have "waitForCondition (\<lambda>s. \<not> shop_isOpen (shop s) \<and> \<not> interfaceOpen (Some s)) t ?w1
          = (Inr s, ?w1\<lparr>clock := clock ?w1 + d\<rparr>)"
    by (rule waitForCondition_first) (use assms in simp_all)
  then show ?thesis using assms(1) by (auto simp: closeShop_def send_def Let_def)
qed

text \<open>On an idle session both closes return at once; a bank and a shop that close 3 ms
  after the close command are closed by one command, and the second close sends none.\<close>

theorem close_is_idempotent_witness:
  "closeBank 5000 idle = (\<lparr>success = True, message = [Lit ''Bank already closed''], reason = None\<rparr>, idle)
   \<and> closeShop 5000 idle = (\<lparr>success = True, message = [Lit ''Shop already closed''], reason = None\<rparr>, idle)
   \<and> (\<exists>r w'. closeBank 5000 bank_closing = (r, w') \<and> success r \<and> sent w' = [CloseModal]
         \<and> closeBank 5000 w' = (\<lparr>success = True, message = [Lit ''Bank already closed''], reason = None\<rparr>, w'))
   \<and> (\<exists>r w'. closeShop 5000 shop_closing = (r, w') \<and> success r \<and> sent w' = [CloseShop]
         \<and> closeShop 5000 w' = (\<lparr>success = True, message = [Lit ''Shop already closed''], reason = None\<rparr>, w'))"
proof -
  have idle: "\<not> shopOpen (getState idle)" "\<not> interfaceOpen (getState idle)"
    by (simp_all add: idle_def script_def getState_def blank_def shopOpen_def interfaceOpen_def)
  have b: "closeBank 5000 bank_closing =
             (\<lparr>success = True, message = [Lit ''Bank closed''], reason = None\<rparr>,
              bank_closing\<lparr>sent := sent bank_closing @ [CloseModal], clock := clock bank_closing + 3\<rparr>)"
    by (rule closeBank_closes [where s = blank])
       (simp_all add: bank_closing_def script_def getState_def blank_def bankOpen_def interfaceOpen_def
          quiet_def holdsAt_def)
  have s: "closeShop 5000 shop_closing =
             (\<lparr>success = True, message = [Lit ''Shop closed''], reason = None\<rparr>,
              shop_closing\<lparr>sent := sent shop_closing @ [CloseShop], clock := clock shop_closing + 3\<rparr>)"
    by (rule closeShop_closes [where s = blank])
       (simp_all add: shop_closing_def script_def getState_def blank_def shopWith_def shopOpen_def
          interfaceOpen_def quiet_def holdsAt_def)
  note c1 = close_is_idempotent [THEN conjunct1, rule_format]
  note c2 = close_is_idempotent [THEN conjunct2, THEN conjunct1, rule_format]
  note c3 = close_is_idempotent [THEN conjunct2, THEN conjunct2, THEN conjunct1, rule_format]
  note c4 = close_is_idempotent [THEN conjunct2, THEN conjunct2, THEN conjunct2, rule_format]
  let ?wb = "bank_closing\<lparr>sent := sent bank_closing @ [CloseModal], clock := clock bank_closing + 3\<rparr>"
  let ?ws = "shop_closing\<lparr>sent := sent shop_closing @ [CloseShop], clock := clock shop_closing + 3\<rparr>"
  have "closeBank 5000 idle = (\<lparr>success = True, message = [Lit ''Bank already closed''], reason = None\<rparr>, idle)"
    by (rule c1) (rule idle)
  moreover
  have "closeShop 5000 idle = (\<lparr>success = True, message = [Lit ''Shop already closed''], reason = None\<rparr>, idle)"
    by (rule c2) (simp add: idle)
  moreover
  have "closeBank 5000 ?wb = (\<lparr>success = True, message = [Lit ''Bank already closed''], reason = None\<rparr>, ?wb)"
    by (rule c3 [OF conjI [OF b]]) simp
  moreover
  have "closeShop 5000 ?ws = (\<lparr>success = True, message = [Lit ''Shop already closed''], reason = None\<rparr>, ?ws)"
    by (rule c4 [OF conjI [OF s]]) simp
  moreover have "sent ?wb = [CloseModal]" "sent ?ws = [CloseShop]"
    by (simp_all add: bank_closing_def shop_closing_def script_def)
  ultimately show ?thesis using b s by simp
qed

section \<open>Chat evidence is gated by the tick of the command\<close>

lemma firstVerdict_SomeD:
  "firstVerdict cls st msgs = Some r \<Longrightarrow>
   \<exists>m\<in>set msgs. msg_tick m > st \<and> cls (toLowerCase (msg_text m)) = Some r"
  by (induction msgs) (auto split: if_splits option.splits)

lemma anyMessage_iff:
  "anyMessage ph st msgs \<longleftrightarrow> (\<exists>m\<in>set msgs. msg_tick m > st \<and> ph (toLowerCase (msg_text m)))"
  by (simp add: anyMessage_def list_ex_iff)

lemma attackNpc_ends:
  assumes "resolveNpc target w = Some npc"
    and "findOption (re_has ''attack'') (npc_optionsWithIndex npc) = Some attackOpt"
    and "ack_success (reply w (clock w) (InteractNpc (npc_index npc) (opIndex attackOpt)))"
    and "quiet (attackCond npc (tickOf (getState w))) w d" and "d < timeout"
    and "feed w (clock w + d) = Some s" and "attackCond npc (tickOf (getState w)) s"
  shows "attackNpc target timeout w =
     ((case firstVerdict (attackVerdict npc) (tickOf (getState w)) (gameMessages s) of
         Some r \<Rightarrow> r
       | None \<Rightarrow> \<lparr>success = True, message = [Lit ''Attacking '', Str (npc_name npc)], reason = None\<rparr>),
      w\<lparr>sent := sent w @ [InteractNpc (npc_index npc) (opIndex attackOpt)], clock := clock w + d\<rparr>)"
proof -
  let ?w1 = "w\<lparr>sent := sent w @ [InteractNpc (npc_index npc) (opIndex attackOpt)]\<rparr>"
  let ?st = "tickOf (getState w)"
  have "waitForCondition (attackCond npc ?st) timeout ?w1 = (Inr s, ?w1\<lparr>clock := clock ?w1 + d\<rparr>)"
    by (rule waitForCondition_first) (use assms in simp_all)
  then show ?thesis using assms(1,2,3)
    by (simp add: attackNpc_def send_def Let_def split: option.splits)
qed

lemma attackVerdict_first_unreachable:
  assumes "msg_tick m > st" and "unreachableText (toLowerCase (msg_text m))"
    and "\<forall>m'\<in>set pre. \<not> (msg_tick m' > st \<and> inCombatText (toLowerCase (msg_text m'))
                            \<and> \<not> unreachableText (toLowerCase (msg_text m')))"
  shows "\<exists>r. firstVerdict (attackVerdict npc) st (pre @ m # post) = Some r
             \<and> \<not> success r \<and> reason r = Some ''out_of_reach''"
  using assms by (induction pre) (auto simp: attackVerdict_def)

text \<open>
  C3, as the code has it. Let the target resolve to an NPC with an attack option, the
  command be accepted, and \<open>s\<close> be the snapshot that ends the wait (the first one within the
  timeout that satisfies the wait predicate). (1) If \<open>s\<close> holds a message newer than
  \<open>startTick\<close> with an unreachable-target phrase, and no message before it in the list is
  newer than \<open>startTick\<close> and carries only an already-in-combat phrase, then \<^verbatim>\<open>attackNpc\<close>
  fails with reason \<open>out_of_reach\<close>. (2) If every message with an unreachable-target phrase,
  in every snapshot of the stream, has a tick of at most \<open>startTick\<close>, the reason is never
  \<open>out_of_reach\<close>.
\<close>

theorem attackNpc_tick_gated:
  "(resolveNpc target w = Some npc
     \<and> findOption (re_has ''attack'') (npc_optionsWithIndex npc) = Some attackOpt
     \<and> ack_success (reply w (clock w) (InteractNpc (npc_index npc) (opIndex attackOpt)))
     \<and> quiet (attackCond npc (tickOf (getState w))) w d \<and> d < timeout
     \<and> feed w (clock w + d) = Some s
     \<and> gameMessages s = pre @ m # post
     \<and> msg_tick m > tickOf (getState w) \<and> unreachableText (toLowerCase (msg_text m))
     \<and> (\<forall>m'\<in>set pre. \<not> (msg_tick m' > tickOf (getState w)
                            \<and> inCombatText (toLowerCase (msg_text m'))
                            \<and> \<not> unreachableText (toLowerCase (msg_text m'))))
    \<longrightarrow> \<not> success (fst (attackNpc target timeout w))
        \<and> reason (fst (attackNpc target timeout w)) = Some ''out_of_reach'')
   \<and> ((\<forall>t s m. feed w t = Some s \<and> m \<in> set (gameMessages s)
                \<and> unreachableText (toLowerCase (msg_text m)) \<longrightarrow> msg_tick m \<le> tickOf (getState w))
    \<longrightarrow> reason (fst (attackNpc target timeout w)) \<noteq> Some ''out_of_reach'')"
proof (intro conjI impI)
  assume a: "resolveNpc target w = Some npc
     \<and> findOption (re_has ''attack'') (npc_optionsWithIndex npc) = Some attackOpt
     \<and> ack_success (reply w (clock w) (InteractNpc (npc_index npc) (opIndex attackOpt)))
     \<and> quiet (attackCond npc (tickOf (getState w))) w d \<and> d < timeout
     \<and> feed w (clock w + d) = Some s
     \<and> gameMessages s = pre @ m # post
     \<and> msg_tick m > tickOf (getState w) \<and> unreachableText (toLowerCase (msg_text m))
     \<and> (\<forall>m'\<in>set pre. \<not> (msg_tick m' > tickOf (getState w)
                            \<and> inCombatText (toLowerCase (msg_text m'))
                            \<and> \<not> unreachableText (toLowerCase (msg_text m'))))"
  let ?st = "tickOf (getState w)"
  from a have c: "attackCond npc ?st s"
    by (auto simp: attackCond_def anyMessage_iff)
  from a obtain r where r: "firstVerdict (attackVerdict npc) ?st (gameMessages s) = Some r"
    "\<not> success r" "reason r = Some ''out_of_reach''"
    using attackVerdict_first_unreachable [of ?st m pre npc post] by auto
  from a c have "attackNpc target timeout w =
     ((case firstVerdict (attackVerdict npc) ?st (gameMessages s) of
         Some r \<Rightarrow> r
       | None \<Rightarrow> \<lparr>success = True, message = [Lit ''Attacking '', Str (npc_name npc)], reason = None\<rparr>),
      w\<lparr>sent := sent w @ [InteractNpc (npc_index npc) (opIndex attackOpt)], clock := clock w + d\<rparr>)"
    by (intro attackNpc_ends) simp_all
  with r show "\<not> success (fst (attackNpc target timeout w))"
    and "reason (fst (attackNpc target timeout w)) = Some ''out_of_reach''" by simp_all
next
  assume old: "\<forall>t s m. feed w t = Some s \<and> m \<in> set (gameMessages s)
                \<and> unreachableText (toLowerCase (msg_text m)) \<longrightarrow> msg_tick m \<le> tickOf (getState w)"
  let ?st = "tickOf (getState w)"
  show "reason (fst (attackNpc target timeout w)) \<noteq> Some ''out_of_reach''"
  proof
    assume bad: "reason (fst (attackNpc target timeout w)) = Some ''out_of_reach''"
    then obtain npc :: nearby_npc and attackOpt :: option_entry and s :: world_state and w2 :: session
      and r :: action_result where
      wt: "waitForCondition (attackCond npc ?st) timeout
             (w\<lparr>sent := sent w @ [InteractNpc (npc_index npc) (opIndex attackOpt)]\<rparr>) = (Inr s, w2)"
      and fv: "firstVerdict (attackVerdict npc) ?st (gameMessages s) = Some r"
      and rr: "reason r = Some ''out_of_reach''"
      by (auto simp: attackNpc_def send_def Let_def split: option.splits if_splits sum.splits prod.splits)
    from waitForCondition_Inr [OF wt] have "feed w (clock w2) = Some s"
      by (auto simp: getState_def)
    moreover from firstVerdict_SomeD [OF fv] obtain m where
      m: "m \<in> set (gameMessages s)" "msg_tick m > ?st" "attackVerdict npc (toLowerCase (msg_text m)) = Some r"
      by blast
    moreover from m(3) rr have "unreachableText (toLowerCase (msg_text m))"
      by (auto simp: attackVerdict_def split: if_splits)
    ultimately show False using old by fastforce
  qed
qed

lemma field_facts:
  "resolveNpc goblinP (script (\<lambda>t. if t < 2 then Some field else Some s') ok) = Some goblin"
  "findOption (re_has ''attack'') (npc_optionsWithIndex goblin) = Some \<lparr>op_text = ''Attack'', opIndex = 2\<rparr>"
  "tickOf (getState (script (\<lambda>t. if t < 2 then Some field else Some s') ok)) = 10"
  "\<not> attackCond goblin 10 field"
  by (simp_all add: goblinP_def resolveNpc_def findNearbyNpc_def getState_def script_def field_def
      blank_def goblin_def re_has_def toLowerCase_def lowerChar_def findOption_def tickOf_def
      attackCond_def anyMessage_def)

text \<open>The sentence of the specification fails when two failure messages are newer than the command:
  the result follows the first of them in list order. Here the already-in-combat message
  comes first and the unreachable one second, both at tick 11 after a command at tick 10.\<close>

theorem attackNpc_first_message_wins_counterexample:
  "feed fight_then_blocked 2 =
     Some (field\<lparr>tick := 11, gameMessages := [chat ''Someone else is fighting that.'' 11,
                                               chat ''I can't reach that!'' 11]\<rparr>)
   \<and> tickOf (getState fight_then_blocked) = 10
   \<and> unreachableText (toLowerCase (msg_text (chat ''I can't reach that!'' 11)))
   \<and> reason (fst (attackNpc goblinP 5000 fight_then_blocked)) = Some ''already_in_combat''"
proof -
  let ?s = "field\<lparr>tick := 11, gameMessages := [chat ''Someone else is fighting that.'' 11,
                                                 chat ''I can't reach that!'' 11]\<rparr>"
  have f: "feed fight_then_blocked 2 = Some ?s"
    by (simp add: fight_then_blocked_def script_def)
  have t: "tickOf (getState fight_then_blocked) = 10"
    unfolding fight_then_blocked_def by (rule field_facts)
  have u: "unreachableText (toLowerCase (msg_text (chat ''I can't reach that!'' 11)))"
    by (simp add: chat_def unreachableText_def toLowerCase_def lowerChar_def)
  have "attackNpc goblinP 5000 fight_then_blocked =
     ((case firstVerdict (attackVerdict goblin) (tickOf (getState fight_then_blocked)) (gameMessages ?s) of
         Some r \<Rightarrow> r
       | None \<Rightarrow> \<lparr>success = True, message = [Lit ''Attacking '', Str (npc_name goblin)], reason = None\<rparr>),
      fight_then_blocked\<lparr>sent := sent fight_then_blocked @ [InteractNpc (npc_index goblin) (opIndex \<lparr>op_text = ''Attack'', opIndex = 2\<rparr>)],
         clock := clock fight_then_blocked + 2\<rparr>)"
  proof (rule attackNpc_ends)
    show "resolveNpc goblinP fight_then_blocked = Some goblin"
      unfolding fight_then_blocked_def by (rule field_facts)
    show "findOption (re_has ''attack'') (npc_optionsWithIndex goblin) = Some \<lparr>op_text = ''Attack'', opIndex = 2\<rparr>"
      by (rule field_facts)
    show "quiet (attackCond goblin (tickOf (getState fight_then_blocked))) fight_then_blocked 2"
      unfolding t using field_facts(4) by (simp add: quiet_def holdsAt_def fight_then_blocked_def script_def)
    show "feed fight_then_blocked (clock fight_then_blocked + 2) = Some ?s"
      by (simp add: fight_then_blocked_def script_def)
    show "attackCond goblin (tickOf (getState fight_then_blocked)) ?s"
      by (simp add: t attackCond_def anyMessage_def chat_def inCombatText_def toLowerCase_def lowerChar_def)
  qed (simp_all add: fight_then_blocked_def script_def)
  then have "reason (fst (attackNpc goblinP 5000 fight_then_blocked)) = Some ''already_in_combat''"
    by (simp add: t chat_def attackVerdict_def unreachableText_def inCombatText_def toLowerCase_def lowerChar_def)
  with f t u show ?thesis by simp
qed

text \<open>An unreachable message at tick 11 behind an in-combat message of tick 9 gives
  \<open>out_of_reach\<close>; an unreachable message of tick 10, the tick of the command, is ignored and
  the attack succeeds once the goblin is in range.\<close>

theorem attackNpc_tick_gated_witness:
  "\<not> success (fst (attackNpc goblinP 5000 blocked))
   \<and> reason (fst (attackNpc goblinP 5000 blocked)) = Some ''out_of_reach''
   \<and> reason (fst (attackNpc goblinP 5000 stale_then_close)) \<noteq> Some ''out_of_reach''"
proof -
  have t: "tickOf (getState blocked) = 10"
    unfolding blocked_def by (rule field_facts)
  have "\<not> success (fst (attackNpc goblinP 5000 blocked))
        \<and> reason (fst (attackNpc goblinP 5000 blocked)) = Some ''out_of_reach''"
  proof (rule attackNpc_tick_gated [where npc = goblin
        and attackOpt = "\<lparr>op_text = ''Attack'', opIndex = 2\<rparr>" and d = 2
        and s = "field\<lparr>tick := 11, gameMessages := [chat ''Someone else is fighting that.'' 9,
                                                        chat ''I can't reach that!'' 11]\<rparr>"
        and pre = "[chat ''Someone else is fighting that.'' 9]"
        and m = "chat ''I can't reach that!'' 11" and post = "[]", THEN conjunct1, THEN mp], intro conjI)
    show "resolveNpc goblinP blocked = Some goblin"
      unfolding blocked_def by (rule field_facts)
    show "findOption (re_has ''attack'') (npc_optionsWithIndex goblin) = Some \<lparr>op_text = ''Attack'', opIndex = 2\<rparr>"
      by (rule field_facts)
    show "quiet (attackCond goblin (tickOf (getState blocked))) blocked 2"
      unfolding t using field_facts(4) by (simp add: quiet_def holdsAt_def blocked_def script_def)
    show "unreachableText (toLowerCase (msg_text (chat ''I can't reach that!'' 11)))"
      by (simp add: chat_def unreachableText_def toLowerCase_def lowerChar_def)
  qed (simp_all add: t, simp_all add: blocked_def script_def chat_def)
  moreover have "reason (fst (attackNpc goblinP 5000 stale_then_close)) \<noteq> Some ''out_of_reach''"
  proof (rule attackNpc_tick_gated [THEN conjunct2, THEN mp])
    have "tickOf (getState stale_then_close) = 10"
      by (simp add: stale_then_close_def script_def getState_def tickOf_def field_def)
    then show "\<forall>t s m. feed stale_then_close t = Some s \<and> m \<in> set (gameMessages s)
                \<and> unreachableText (toLowerCase (msg_text m))
              \<longrightarrow> msg_tick m \<le> tickOf (getState stale_then_close)"
      by (auto simp: stale_then_close_def script_def chat_def split: if_splits)
  qed
  ultimately show ?thesis by simp
qed

section \<open>What a timed-out wait returns\<close>

lemma quiet_static: "(\<And>t. feed w t = Some s) \<Longrightarrow> \<not> p s \<Longrightarrow> quiet p w d"
  by (simp add: quiet_def holdsAt_def)

lemma attackNpc_times_out:
  assumes "resolveNpc target w = Some npc"
    and "findOption (re_has ''attack'') (npc_optionsWithIndex npc) = Some attackOpt"
    and "ack_success (reply w (clock w) (InteractNpc (npc_index npc) (opIndex attackOpt)))"
    and "quiet (attackCond npc (tickOf (getState w))) w timeout"
  shows "fst (attackNpc target timeout w) =
           \<lparr>success = False, message = [Lit ''Timeout waiting to attack '', Str (npc_name npc)],
            reason = Some ''timeout''\<rparr>"
  using assms by (simp add: attackNpc_def send_def Let_def waitForCondition_timeout)

lemma pickupItem_times_out:
  assumes "resolveGroundItem target w = Some it"
    and "ack_success (reply w (clock w) (Pickup (gi_x it) (gi_z it) (gi_id it)))"
    and "quiet (pickupCond (tickOf (getState w)) (length (getInventory w))) w 10000"
  shows "fst (pickupItem target w) =
           \<lparr>success = False, message = [Lit ''Timed out waiting for pickup''],
            reason = Some ''timeout'', item = None\<rparr>"
  using assms by (simp add: pickupItem_def send_def Let_def waitForCondition_timeout)

lemma doorOutcome_times_out:
  assumes "quiet (doorCond (loc_x d) (loc_z d) (tickOf (getState w))) w 5000"
  shows "fst (doorOutcome d w) =
           \<lparr>success = False, message = [Lit ''Timeout waiting for '', Str (loc_name d), Lit '' to open''],
            reason = Some ''timeout'', door = Some d\<rparr>"
  using assms by (simp add: doorOutcome_def Let_def waitForCondition_timeout)

lemma getState_sent [simp]: "getState (w\<lparr>sent := cs\<rparr>) = getState w"
  by (simp add: getState_def)

lemma openDoor_times_out:
  assumes "resolveLocation target doorPattern w = Some d"
    and "findOption (re_is ''open'') (loc_optionsWithIndex d) = Some openOpt"
    and "loc_distance d \<le> 2"
    and "quiet (doorCond (loc_x d) (loc_z d) (tickOf (getState w))) w 5000"
  shows "fst (openDoor target w) =
           \<lparr>success = False, message = [Lit ''Timeout waiting for '', Str (loc_name d), Lit '' to open''],
            reason = Some ''timeout'', door = Some d\<rparr>"
  using assms by (simp add: openDoor_def send_def Let_def doorOutcome_times_out)

lemma depositItem_times_out:
  assumes "getState w = Some s0" and "interfaceOpen (Some s0)"
    and "resolveInventoryItem (Some target) re_any w = Some it"
    and "quiet (depositCond it (countOf (inv_id it) (inventory s0))) w 5000"
  shows "fst (depositItem target amount w) =
           \<lparr>success = False,
            message = [Lit ''Timeout waiting for '', Str (inv_name it), Lit '' to be deposited''],
            reason = Some ''timeout'', amountDeposited = None\<rparr>"
  using assms by (simp add: depositItem_def send_def Let_def waitForCondition_timeout)

lemma withdrawItem_times_out:
  assumes "getState w = Some s0" and "interfaceOpen (Some s0)"
    and "quiet (withdrawCond s0) w 5000"
  shows "fst (withdrawItem bankSlot amount w) =
           \<lparr>success = False, message = [Lit ''Timeout waiting for item to be withdrawn''],
            reason = Some ''timeout'', item = None\<rparr>"
  using assms by (simp add: withdrawItem_def send_def Let_def waitForCondition_timeout)

lemma chopTree_times_out:
  assumes "resolveLocation target (re_is ''tree'') (dismissBlockingUI w0) = Some tree"
    and "ack_success (reply (dismissBlockingUI w0) (clock (dismissBlockingUI w0))
           (InteractLoc (loc_x tree) (loc_z tree) (loc_id tree) 1))"
    and "quiet (chopCond tree (length (getInventory (dismissBlockingUI w0)))) (dismissBlockingUI w0) 30000"
  shows "fst (chopTree target w0) =
           \<lparr>success = False, message = [Lit ''Timed out waiting for tree chop''], reason = None,
            logs = None\<rparr>"
  using assms by (simp add: chopTree_def send_def Let_def waitForCondition_timeout)

text \<open>The truth value of the burn predicate does not depend on its environment.\<close>
lemma burnCond_fst: "fst (burnCond fmBefore startTick state env) = burnDone fmBefore startTick state"
  by (cases env) (simp add: burnCond_def burnDone_def Let_def)

lemma firstSatisfyingM_quiet:
  "\<forall>u<n. \<not> holdsAt (\<lambda>s. \<exists>env. fst (p s env)) f (t + u) \<Longrightarrow>
   fst (firstSatisfyingM p f t n env) = None"
proof (induction n arbitrary: t env)
  case 0
  then show ?case by simp
next
  case (Suc n)
  from Suc.prems have h0: "\<not> holdsAt (\<lambda>s. \<exists>env. fst (p s env)) f t"
    by (metis add.right_neutral zero_less_Suc)
  have rest: "\<forall>u<n. \<not> holdsAt (\<lambda>s. \<exists>env. fst (p s env)) f (Suc t + u)"
  proof (intro allI impI)
    fix u assume "u < n"
    then have "Suc u < Suc n" by simp
    with Suc.prems have "\<not> holdsAt (\<lambda>s. \<exists>env. fst (p s env)) f (t + Suc u)" by blast
    then show "\<not> holdsAt (\<lambda>s. \<exists>env. fst (p s env)) f (Suc t + u)" by simp
  qed
  show ?case
  proof (cases "f t")
    case None
    with Suc.IH [OF rest] show ?thesis by simp
  next
    case (Some s)
    with h0 have "\<not> fst (p s env)" by (auto simp: holdsAt_def)
    then obtain env' where "p s env = (False, env')" by (cases "p s env") auto
    with Some Suc.IH [OF rest] show ?thesis by simp
  qed
qed

lemma waitForConditionM_timeout:
  assumes "quiet (\<lambda>s. \<exists>env. fst (p s env)) w timeout"
  shows "fst (waitForConditionM p timeout env0 w) = Inl ConditionTimeout"
proof -
  from assms have "fst (firstSatisfyingM p (feed w) (clock w) timeout (env0, [])) = None"
    unfolding quiet_def by (rule firstSatisfyingM_quiet)
  then show ?thesis
    by (auto simp: waitForConditionM_def split: prod.splits option.splits)
qed

lemma burnLogs_times_out:
  assumes "findInventoryItem (re_has ''tinderbox'') (dismissBlockingUI w0) = Some tinderbox"
    and "resolveInventoryItem logsTarget (re_has ''logs'') (dismissBlockingUI w0) = Some lg"
    and "ack_success (reply (dismissBlockingUI w0) (clock (dismissBlockingUI w0))
           (UseItemOnItem (inv_slot tinderbox) (inv_slot lg)))"
    and "quiet (burnDone (case getSkill ''Firemaking'' (dismissBlockingUI w0) of
                            None \<Rightarrow> 0 | Some k \<Rightarrow> sk_experience k)
                  (tickOf (getState (dismissBlockingUI w0)))) (dismissBlockingUI w0) 30000"
  shows "fst (burnLogs logsTarget w0) =
           \<lparr>success = False, message = [Lit ''Timed out waiting for fire''], reason = None,
            xpGained = 0\<rparr>"
proof -
  let ?w = "dismissBlockingUI w0"
  let ?fm = "case getSkill ''Firemaking'' ?w of None \<Rightarrow> 0 | Some k \<Rightarrow> sk_experience k"
  let ?w1 = "?w\<lparr>sent := sent ?w @ [UseItemOnItem (inv_slot tinderbox) (inv_slot lg)]\<rparr>"
  have "quiet (\<lambda>s. \<exists>env. fst (burnCond ?fm (tickOf (getState ?w1)) s env)) ?w1 30000"
    using assms(4) by (simp add: burnCond_fst)
  then have "fst (waitForConditionM (burnCond ?fm (tickOf (getState ?w1))) 30000 0 ?w1) = Inl ConditionTimeout"
    by (rule waitForConditionM_timeout)
  then obtain w2 where "waitForConditionM (burnCond ?fm (tickOf (getState ?w1))) 30000 0 ?w1
      = (Inl ConditionTimeout, w2)"
    by (cases "waitForConditionM (burnCond ?fm (tickOf (getState ?w1))) 30000 0 ?w1") auto
  then show ?thesis using assms(1,2,3)
    by (simp add: burnLogs_def send_def Let_def)
qed

lemma talkTo_times_out:
  assumes "resolveNpc target w = Some npc"
    and "ack_success (reply w (clock w) (TalkToNpc (npc_index npc)))"
    and "quiet (\<lambda>s. dlg_isOpen (dialog s)) w 10000"
  shows "fst (talkTo target w) =
           \<lparr>success = False, message = [Lit ''Timed out waiting for dialog''], reason = None,
            talk_dialog = None\<rparr>"
  using assms by (simp add: talkTo_def send_def Let_def waitForCondition_timeout)

lemma equipItem_times_out:
  assumes "resolveInventoryItem (Some target) re_any w = Some it"
    and "findOption (\<lambda>t. re_has ''wield'' t \<or> re_has ''wear'' t \<or> re_has ''equip'' t)
           (inv_optionsWithIndex it) = Some equipOpt"
    and "ack_success (reply w (clock w) (UseItem (inv_slot it) (opIndex equipOpt)))"
    and "quiet (equipCond it) w 5000"
  shows "fst (equipItem target w) =
           \<lparr>success = False, message = [Lit ''Failed to equip '', Str (inv_name it)], reason = None\<rparr>"
  using assms by (simp add: equipItem_def send_def Let_def waitForCondition_timeout)

lemma unequipItem_times_out:
  assumes "(case target of Handle h \<Rightarrow> Some h | Pattern p \<Rightarrow> findEquipmentItem p w) = Some it"
    and "ack_success (reply w (clock w) (UseEquipmentItem (inv_slot it) 1))"
    and "quiet (unequipCond it (length (getInventory w))) w 5000"
  shows "fst (unequipItem compile target w) =
           \<lparr>success = False, message = [Lit ''Failed to unequip '', Str (inv_name it)], reason = None,
            item = None\<rparr>"
  using assms by (simp add: unequipItem_def send_def Let_def waitForCondition_timeout)

lemma eatFood_times_out:
  assumes "resolveInventoryItem (Some target) re_any w = Some food"
    and "findOption (re_has ''eat'') (inv_optionsWithIndex food) = Some eatOpt"
    and "ack_success (reply w (clock w) (UseItem (inv_slot food) (opIndex eatOpt)))"
    and "quiet (eatCond food (skillLevel (getSkill ''Hitpoints'' w))
                  (length (filter (\<lambda>i. inv_id i = inv_id food) (getInventory w)))) w 5000"
  shows "fst (eatFood target w) =
           \<lparr>success = False, message = [Lit ''Failed to eat '', Str (inv_name food)], reason = None,
            hpGained = 0\<rparr>"
  using assms by (simp add: eatFood_def send_def Let_def waitForCondition_timeout)

lemma openShop_times_out:
  assumes "resolveNpc target w = Some npc"
    and "findOption (re_has ''trade'') (npc_optionsWithIndex npc) = Some tradeOpt"
    and "ack_success (reply w (clock w) (InteractNpc (npc_index npc) (opIndex tradeOpt)))"
    and "quiet (\<lambda>s. shop_isOpen (shop s)) w 10000"
  shows "fst (openShop target w) =
           \<lparr>success = False, message = [Lit ''Timed out waiting for shop to open''], reason = None\<rparr>"
  using assms by (simp add: openShop_def send_def Let_def waitForCondition_timeout)

lemma buyFromShop_times_out:
  assumes "getState w = Some st" and "shop_isOpen (shop st)"
    and "resolveShopItem target (shopItems (shop st)) = Some shopItem"
    and "ack_success (reply w (clock w) (ShopBuy (si_slot shopItem) amount))"
    and "quiet (buyCond shopItem (case find (\<lambda>i. inv_id i = si_id shopItem) (getInventory w) of
                                     None \<Rightarrow> 0 | Some had \<Rightarrow> inv_count had)) w 5000"
  shows "fst (buyFromShop target amount w) =
           \<lparr>success = False,
            message = [Lit ''Failed to buy '', Str (si_name shopItem), Lit '' (no coins or out of stock?)''],
            reason = None, item = None\<rparr>"
  using assms by (simp add: buyFromShop_def send_def Let_def waitForCondition_timeout)

lemma sellToShop_times_out:
  assumes "getState w = Some st" and "shop_isOpen (shop st)"
    and "resolveShopItem target (playerItems (shop st)) = Some sellItem"
    and "ack_success (reply w (clock w) (ShopSell (si_slot sellItem) (if n \<in> {1, 5, 10} then n else 1)))"
    and "quiet (sellCond (si_id sellItem) (tick st)
                  (getTotalCount (si_id sellItem) (playerItems (shop st)))) w 5000"
  shows "map_option fst (sellToShop target (Amount n) w) =
           Some \<lparr>success = False,
                 message = [Lit ''Failed to sell '', Str (si_name sellItem), Lit '' (timeout)''],
                 reason = None, amountSold = None, rejected = None\<rparr>"
  using assms by (simp add: sellToShop_def send_def Let_def waitForCondition_timeout tickOf_def)

lemma castSpellOnNpc_times_out:
  assumes "resolveNpc target w = Some npc" and "getState w = Some startState"
    and "ack_success (reply w (clock w) (SpellOnNpc (npc_index npc) spellComponent))"
    and "quiet (castCond (tick startState) (magicXp startState)) w timeout"
  shows "fst (castSpellOnNpc target spellComponent timeout w) =
           \<lparr>success = True, message = [Lit ''Splashed on '', Str (npc_name npc), Lit '' (timeout)''],
            reason = None, hit = Some False, cast_xpGained = Some 0\<rparr>"
  using assms by (simp add: castSpellOnNpc_def send_def Let_def waitForCondition_timeout)

lemma static_session:
  "getState (script (\<lambda>t. Some s) ok) = Some s"
  "feed (script (\<lambda>t. Some s) ok) t = Some s"
  "clock (script (\<lambda>t. Some s) ok) = 0"
  "reply (script (\<lambda>t. Some s) ok) t c = \<lparr>ack_success = ok c, ack_message = [], ack_reason = None\<rparr>"
  "getInventory (script (\<lambda>t. Some s) ok) = inventory s"
  "\<not> dlg_isOpen (dialog s) \<Longrightarrow> dismissBlockingUI (script (\<lambda>t. Some s) ok) = script (\<lambda>t. Some s) ok"
  by (simp_all add: script_def getState_def getInventory_def dismissBlockingUI_def numeral_eq_Suc)

lemma quiet_script: "\<not> p s \<Longrightarrow> quiet p (script (\<lambda>t. Some s) ok) d"
  by (simp add: quiet_def holdsAt_def script_def)

lemmas text_defs = re_has_def re_is_def re_any_def toLowerCase_def lowerChar_def

lemmas camp_defs = camp_def blank_def goblin_def keeper_def gate_def oak_def bones_def shrimps_def
  sword_def stack_def store_def offer_def bankOpen_def

lemma camp_closed: "\<not> dlg_isOpen (dialog camp)"
  by (simp add: camp_defs)

section \<open>The reasons a result can carry\<close>

lemma directWalk_reason: "reason (fst (directWalk x z tolerance w)) = None"
  by (simp add: directWalk_def send_def Let_def split: prod.splits sum.splits)

lemma strideLoop_reason:
  "strideLoop x z tolerance wps i w = (Return r, w') \<Longrightarrow> reason r = None"
proof (induction "length wps - i" arbitrary: i w rule: less_induct)
  case less
  show ?case
  proof (cases "i < length wps")
    case False
    with less.prems show ?thesis by (simp add: strideLoop.simps [of x z tolerance wps i w])
  next
    case True
    obtain wx wz where wp: "wps ! i = (wx, wz)" by (cases "wps ! i")
    obtain u w1 where sd: "send (Walk wx wz True) w = (u, w1)" by (cases "send (Walk wx wz True) w")
    obtain mr w2 where mv: "waitForMovementComplete wx wz 3 w1 = (mr, w2)"
      by (cases "waitForMovementComplete wx wz 3 w1")
    from True have "length wps - (i + WAYPOINT_STEP) < length wps - i"
      by (simp add: WAYPOINT_STEP_def)
    note ih = less.hyps [OF this]
    from less.prems True wp sd mv show ?thesis
      by (subst (asm) strideLoop.simps) (auto simp: Let_def split: if_splits dest: ih)
  qed
qed

lemma walkAttempt_reason:
  assumes "walkAttempt x z tolerance w = (Return r, w')"
  shows "reason r = None"
proof (cases "playerOf (getState w)")
  case None
  with assms show ?thesis by (auto simp: walkAttempt_def)
next
  case (Some p)
  let ?d = "dist2d x z (worldX p) (worldZ p)"
  show ?thesis
  proof (cases "?d \<le> tolerance")
    case True
    with assms Some show ?thesis by (auto simp: walkAttempt_def Let_def)
  next
    case False
    obtain fr w1 where fp: "sendFindPath x z 500 w = (fr, w1)" by (cases "sendFindPath x z 500 w")
    obtain pr w2 where sr: "(if \<not> hasWaypoints fr \<and> ?d > 40
                         then intermediateSearch (intermediateTargets x z (worldX p) (worldZ p) ?d) fr w1
                         else (fr, w1)) = (pr, w2)"
      by (cases "(if \<not> hasWaypoints fr \<and> ?d > 40
                         then intermediateSearch (intermediateTargets x z (worldX p) (worldZ p) ?d) fr w1
                         else (fr, w1))")
    show ?thesis
    proof (cases "\<not> path_success pr \<or> \<not> hasWaypoints pr")
      case True
      with assms Some False fp sr directWalk_reason [of x z tolerance w2] show ?thesis
        by (auto simp: walkAttempt_def Let_def split: prod.splits)
    next
      case ok: False
      let ?wps = "case waypoints pr of None \<Rightarrow> [] | Some l \<Rightarrow> l"
      obtain fl w3 where st: "strideLoop x z tolerance ?wps (min (WAYPOINT_STEP - 1) (length ?wps - 1)) w2 = (fl, w3)"
        by (cases "strideLoop x z tolerance ?wps (min (WAYPOINT_STEP - 1) (length ?wps - 1)) w2")
      show ?thesis
      proof (cases fl)
        case (Return r')
        with assms Some False fp sr ok st strideLoop_reason [of x z tolerance ?wps _ w2 r' w3]
        show ?thesis by (auto simp: walkAttempt_def Let_def)
      next
        case (Continue u)
        with assms Some False fp sr ok st show ?thesis
          by (auto simp: walkAttempt_def Let_def split: if_splits)
      qed
    qed
  qed
qed

lemma walkLoop_reason: "reason (fst (walkLoop x z tolerance startX startZ query stuckCount w)) = None"
proof (induction "MAX_PATH_QUERIES - query" arbitrary: query stuckCount w rule: less_induct)
  case less
  show ?case
  proof (cases "query < MAX_PATH_QUERIES")
    case False
    then show ?thesis
      by (simp add: walkLoop.simps [of x z tolerance startX startZ query stuckCount w] walkGaveUp_def Let_def)
  next
    case True
    then have "MAX_PATH_QUERIES - (query + 1) < MAX_PATH_QUERIES - query" by simp
    note ih = less.hyps [OF this]
    obtain fl w1 where wa: "walkAttempt x z tolerance w = (fl, w1)" by (cases "walkAttempt x z tolerance w")
    show ?thesis
    proof (cases fl)
      case (Return r)
      with True wa walkAttempt_reason [of x z tolerance w r w1] show ?thesis
        by (simp add: walkLoop.simps [of x z tolerance startX startZ query stuckCount w])
    next
      case (Continue c)
      obtain pm ax az where c: "c = (pm, ax, az)" by (cases c)
      from True wa Continue c ih show ?thesis
        by (simp add: walkLoop.simps [of x z tolerance startX startZ query stuckCount w] stuckResult_def)
    qed
  qed
qed

lemma walkTo_reason: "reason (fst (walkTo x z tolerance w)) = None"
  by (simp add: walkTo_def Let_def walkLoop_reason split: option.splits)

lemma firstVerdict_reason:
  assumes "firstVerdict cls st msgs = Some r" and "\<And>t r. cls t = Some r \<Longrightarrow> reason r \<in> R"
  shows "reason r \<in> R"
  using firstVerdict_SomeD [OF assms(1)] assms(2) by blast

lemma doorOutcome_reason:
  "reason (fst (doorOutcome d w)) \<in> {None, Some ''open_failed'', Some ''timeout''}"
proof -
  obtain rs w1 where wt: "waitForCondition (doorCond (loc_x d) (loc_z d) (tickOf (getState w))) 5000 w = (rs, w1)"
    by (cases "waitForCondition (doorCond (loc_x d) (loc_z d) (tickOf (getState w))) 5000 w")
  show ?thesis
  proof (cases rs)
    case (Inl e)
    with wt show ?thesis by (simp add: doorOutcome_def Let_def)
  next
    case (Inr s)
    with wt show ?thesis
      by (auto simp: doorOutcome_def Let_def split: option.splits if_splits
          dest!: firstVerdict_SomeD)
  qed
qed

lemma openDoor_reason:
  "reason (fst (openDoor target w)) \<in>
     {None, Some ''door_not_found'', Some ''already_open'', Some ''no_open_option'',
      Some ''walk_failed'', Some ''open_failed'', Some ''timeout''}"
proof -
  define R where "R = {None, Some ''door_not_found'', Some ''already_open'', Some ''no_open_option'',
      Some ''walk_failed'', Some ''open_failed'', Some ''timeout''}"
  have mem: "None \<in> R" "Some ''door_not_found'' \<in> R" "Some ''already_open'' \<in> R"
    "Some ''no_open_option'' \<in> R" "Some ''walk_failed'' \<in> R"
    by (simp_all add: R_def)
  have d: "reason (fst (doorOutcome d w)) \<in> R" for d w
    using doorOutcome_reason [of d w] by (auto simp: R_def)
  have "reason (fst (openDoor target w)) \<in> R"
    by (simp add: openDoor_def send_def Let_def d mem split: option.splits prod.splits)
  then show ?thesis by (simp add: R_def)
qed

lemma pickupItem_reason:
  "reason (fst (pickupItem target w)) \<in>
     {None, Some ''item_not_found'', Some ''cant_reach'', Some ''inventory_full'', Some ''timeout''}"
  by (auto simp: pickupItem_def send_def Let_def pickupVerdict_def
      split: option.splits prod.splits sum.splits if_splits dest!: firstVerdict_SomeD)

lemma attackNpc_reason:
  "reason (fst (attackNpc target timeout w)) \<in>
     {None, Some ''npc_not_found'', Some ''no_attack_option'', Some ''out_of_reach'',
      Some ''already_in_combat'', Some ''timeout''}"
  by (auto simp: attackNpc_def send_def Let_def attackVerdict_def
      split: option.splits prod.splits sum.splits if_splits dest!: firstVerdict_SomeD)

lemma castSpellOnNpc_reason:
  "reason (fst (castSpellOnNpc target spellComponent timeout w)) \<in>
     {None, Some ''npc_not_found'', Some ''out_of_reach'', Some ''no_runes''}"
  by (auto simp: castSpellOnNpc_def send_def Let_def castVerdict_def
      split: option.splits prod.splits sum.splits if_splits dest!: firstVerdict_SomeD)

lemma depositItem_reason:
  "reason (fst (depositItem target amount w)) \<in>
     {None, Some ''bank_not_open'', Some ''item_not_found'', Some ''timeout''}"
  by (simp add: depositItem_def send_def Let_def split: option.splits prod.splits sum.splits)

lemma withdrawItem_reason:
  "reason (fst (withdrawItem bankSlot amount w)) \<in> {None, Some ''bank_not_open'', Some ''timeout''}"
  by (simp add: withdrawItem_def send_def Let_def split: option.splits prod.splits sum.splits)

lemma openBankLoop_reason:
  "reason (fst (openBankLoop startTime timeout w)) \<in> {None, Some ''timeout''}"
proof (induction "startTime + timeout - clock w" arbitrary: w rule: less_induct)
  case less
  let ?c = "\<lambda>s. interfaceOpen (Some s) \<or> dialogOpen (Some s)"
  let ?t = "min 2000 (timeout - (clock w - startTime))"
  show ?case
  proof (cases "clock w - startTime < timeout")
    case False
    then show ?thesis
      by (simp add: openBankLoop.simps [of startTime timeout w] bankOpenedResult_def Let_def)
  next
    case True
    obtain rs w1 where wt: "waitForCondition ?c ?t w = (rs, w1)"
      by (cases "waitForCondition ?c ?t w")
    show ?thesis
    proof (cases rs)
      case (Inl e)
      from waitForCondition_Inl [OF wt [unfolded Inl]] True
      have "startTime + timeout - clock w1 < startTime + timeout - clock w" by simp
      from less.hyps [OF this] True wt Inl show ?thesis
        by (simp add: openBankLoop.simps [of startTime timeout w])
    next
      case (Inr s)
      from waitForCondition_Inr [OF wt [unfolded Inr]]
      have g: "getState w1 = Some s" "interfaceOpen (Some s) \<or> dialogOpen (Some s)" "clock w \<le> clock w1"
        by simp_all
      show ?thesis
      proof (cases "interfaceOpen (Some s)")
        case True
        with \<open>clock w - startTime < timeout\<close> wt Inr g show ?thesis
          by (simp add: openBankLoop.simps [of startTime timeout w] bankOpenedResult_def)
      next
        case False
        with g have dlg: "dialogOpen (Some s)" by simp
        let ?w3 = "sleep 300 (snd (send (ClickDialog (case (case dlg_options (dialog s) of [] \<Rightarrow> None | o' # rest \<Rightarrow> Some o') of
                       None \<Rightarrow> 0 | Some o' \<Rightarrow> dlg_index o')) w1))"
        from g True have "startTime + timeout - clock ?w3 < startTime + timeout - clock w"
          by (simp add: sleep_def send_def)
        from less.hyps [OF this] True wt Inr g False dlg show ?thesis
          by (simp add: openBankLoop.simps [of startTime timeout w] Let_def send_def)
      qed
    qed
  qed
qed

lemma openBank_reason:
  "reason (fst (openBank timeout w)) \<in> {None, Some ''no_bank_found'', Some ''timeout''}"
proof -
  define R where "R = {None, Some ''no_bank_found'', Some ''timeout''}"
  have mem: "None \<in> R" "Some ''no_bank_found'' \<in> R" by (simp_all add: R_def)
  have l: "reason (fst (openBankLoop a b w)) \<in> R" for a b w
    using openBankLoop_reason [of a b w] by (auto simp: R_def)
  have "reason (fst (openBank timeout w)) \<in> R"
    by (simp add: openBank_def Let_def l mem split: prod.splits)
  then show ?thesis by (simp add: R_def)
qed

lemma sellAllDone_reason: "reason (sellAllDone sellItem totalSold) = None"
  by (simp add: sellAllDone_def)

lemma sellAllVerdict_reason: "sellAllVerdict sellItem totalSold t = Some r \<Longrightarrow> reason r = None"
  by (auto simp: sellAllVerdict_def split: if_splits)

lemma sellAllLoop_reason:
  assumes "sellAllLoop sellItem0 startTick0 totalSold0 w0 = Some y0"
  shows "reason (fst y0) = None"
proof (rule sellAllLoop.raw_induct [where P = "\<lambda>a b c d y. reason (fst y) = None", OF _ assms], goal_cases)
  case (1 loop sellItem startTick totalSold w y)
  note ih = "1"(1)
  note body = "1"(2)
  have v: "firstVerdict (sellAllVerdict sellItem totalSold) startTick msgs = Some r \<Longrightarrow> reason r = None"
    for msgs and r :: sell_result
    using firstVerdict_SomeD [of "sellAllVerdict sellItem totalSold" startTick msgs r]
      sellAllVerdict_reason [of sellItem totalSold _ r] by blast
  show ?case
  proof (cases "getState w")
    case None
    with body show ?thesis by (auto simp: sellAllDone_reason)
  next
    case (Some state)
    show ?thesis
    proof (cases "find (\<lambda>i. si_id i = si_id sellItem) (playerItems (shop state))")
      case None
      with body Some show ?thesis by (auto simp: sellAllDone_reason split: if_splits)
    next
      case (Some currentItem)
      let ?before = "getTotalCount (si_id sellItem) (playerItems (shop state))"
      let ?w1 = "w\<lparr>sent := sent w @ [ShopSell (si_slot currentItem) (min 10 (int (si_count currentItem)))]\<rparr>"
      obtain rs w2 where wt: "waitForCondition (sellCond (si_id sellItem) startTick ?before) 3000 ?w1 = (rs, w2)"
        by (cases "waitForCondition (sellCond (si_id sellItem) startTick ?before) 3000 ?w1")
      show ?thesis
      proof (cases rs)
        case (Inl e)
        with body \<open>getState w = Some state\<close> Some wt show ?thesis
          by (auto simp: sellAllDone_reason Let_def send_def split: if_splits)
      next
        case (Inr finalState)
        show ?thesis
        proof (cases "firstVerdict (sellAllVerdict sellItem totalSold) startTick (gameMessages finalState)")
          case (Some r)
          with body \<open>getState w = Some state\<close> \<open>find _ _ = Some currentItem\<close> wt Inr v [OF Some]
          show ?thesis
            by (auto simp: sellAllDone_reason Let_def send_def split: if_splits)
        next
          case None
          with body \<open>getState w = Some state\<close> \<open>find _ _ = Some currentItem\<close> wt Inr
          show ?thesis
            by (auto simp: sellAllDone_reason Let_def send_def split: if_splits dest: ih)
        qed
      qed
    qed
  qed
qed

lemma sellToShop_reason:
  "sellToShop target amount w = Some y \<Longrightarrow> reason (fst y) = None"
  by (auto simp: sellToShop_def sellAllToShop_def send_def Let_def sellVerdict_def
      split: option.splits if_splits prod.splits sum.splits sell_amount.splits
      dest!: sellAllLoop_reason firstVerdict_SomeD)

lemma no_reason:
  "reason (fst (chopTree ltarget w)) = None"
  "reason (fst (talkTo target w)) = None"
  "reason (fst (closeShop t w)) = None"
  "reason (fst (closeBank t w)) = None"
  "reason (fst (buyFromShop starget amount w)) = None"
  "reason (fst (equipItem itarget w)) = None"
  "reason (fst (unequipItem compile itarget w)) = None"
  "reason (fst (eatFood itarget w)) = None"
  by (simp_all add: chopTree_def talkTo_def closeShop_def closeBank_def buyFromShop_def
      equipItem_def unequipItem_def eatFood_def send_def Let_def
      split: option.splits prod.splits sum.splits)

text \<open>\<^verbatim>\<open>openShop\<close> writes no reason of its own, but it hands a refused command's reply back
  as its result, with the reason the plumbing may have put there.\<close>

lemma openShop_reason:
  "(\<exists>npc tradeOpt.
       resolveNpc target w = Some npc
       \<and> findOption (re_has ''trade'') (npc_optionsWithIndex npc) = Some tradeOpt
       \<and> \<not> ack_success (reply w (clock w) (InteractNpc (npc_index npc) (opIndex tradeOpt)))
       \<and> fst (openShop target w) =
           \<lparr>success = False,
            message = ack_message (reply w (clock w) (InteractNpc (npc_index npc) (opIndex tradeOpt))),
            reason = ack_reason (reply w (clock w) (InteractNpc (npc_index npc) (opIndex tradeOpt)))\<rparr>)
   \<or> reason (fst (openShop target w)) = None"
proof (cases "resolveNpc target w")
  case None
  then show ?thesis by (simp add: openShop_def)
next
  case (Some npc)
  show ?thesis
  proof (cases "findOption (re_has ''trade'') (npc_optionsWithIndex npc)")
    case None
    with Some show ?thesis by (simp add: openShop_def)
  next
    case opt: (Some tradeOpt)
    show ?thesis
    proof (cases "ack_success (reply w (clock w) (InteractNpc (npc_index npc) (opIndex tradeOpt)))")
      case True
      with Some opt have "reason (fst (openShop target w)) = None"
        by (simp add: openShop_def send_def Let_def split: prod.splits sum.splits)
      then show ?thesis ..
    next
      case False
      with Some opt have "fst (openShop target w) =
           \<lparr>success = False,
            message = ack_message (reply w (clock w) (InteractNpc (npc_index npc) (opIndex tradeOpt))),
            reason = ack_reason (reply w (clock w) (InteractNpc (npc_index npc) (opIndex tradeOpt)))\<rparr>"
        by (simp add: openShop_def send_def Let_def)
      with Some opt False show ?thesis by blast
    qed
  qed
qed

lemma burnLogs_reason: "reason (fst (burnLogs logsTarget w)) = None"
  by (simp add: burnLogs_def send_def Let_def split: option.splits prod.splits sum.splits)

text \<open>
  C8, as the code has it. The reason of a result is absent or one of the strings the
  operation's source writes: for \<^verbatim>\<open>openDoor\<close> \<open>door_not_found\<close>, \<open>already_open\<close>,
  \<open>no_open_option\<close>, \<open>walk_failed\<close>, \<open>open_failed\<close>, \<open>timeout\<close>; for \<^verbatim>\<open>pickupItem\<close>
  \<open>item_not_found\<close>, \<open>cant_reach\<close>, \<open>inventory_full\<close>, \<open>timeout\<close>; for \<^verbatim>\<open>attackNpc\<close>
  \<open>npc_not_found\<close>, \<open>no_attack_option\<close>, \<open>out_of_reach\<close>, \<open>already_in_combat\<close>,
  \<open>timeout\<close>; for \<^verbatim>\<open>castSpellOnNpc\<close> \<open>npc_not_found\<close>, \<open>out_of_reach\<close>, \<open>no_runes\<close>; for
  \<^verbatim>\<open>openBank\<close> \<open>no_bank_found\<close>, \<open>timeout\<close>; for \<^verbatim>\<open>depositItem\<close> \<open>bank_not_open\<close>,
  \<open>item_not_found\<close>, \<open>timeout\<close>; for \<^verbatim>\<open>withdrawItem\<close> \<open>bank_not_open\<close>, \<open>timeout\<close>. The
  results of \<^verbatim>\<open>walkTo\<close>, \<^verbatim>\<open>chopTree\<close>, \<^verbatim>\<open>burnLogs\<close>, \<^verbatim>\<open>talkTo\<close>, \<^verbatim>\<open>closeShop\<close>,
  \<^verbatim>\<open>closeBank\<close>, \<^verbatim>\<open>buyFromShop\<close>, \<^verbatim>\<open>sellToShop\<close>, \<^verbatim>\<open>equipItem\<close>, \<^verbatim>\<open>unequipItem\<close> and
  \<^verbatim>\<open>eatFood\<close> never carry a reason, failing or not. \<^verbatim>\<open>openShop\<close> writes no reason either,
  with one exception: when the command channel refuses the trade command, the result is
  that reply itself, so its reason is whatever the plumbing put on the reply.
\<close>

theorem reasons_the_code_writes:
  "reason (fst (openDoor ltarget w)) \<in>
     {None, Some ''door_not_found'', Some ''already_open'', Some ''no_open_option'',
      Some ''walk_failed'', Some ''open_failed'', Some ''timeout''}
   \<and> reason (fst (pickupItem gtarget w)) \<in>
     {None, Some ''item_not_found'', Some ''cant_reach'', Some ''inventory_full'', Some ''timeout''}
   \<and> reason (fst (attackNpc target timeout w)) \<in>
     {None, Some ''npc_not_found'', Some ''no_attack_option'', Some ''out_of_reach'',
      Some ''already_in_combat'', Some ''timeout''}
   \<and> reason (fst (castSpellOnNpc target spellComponent timeout w)) \<in>
     {None, Some ''npc_not_found'', Some ''out_of_reach'', Some ''no_runes''}
   \<and> reason (fst (openBank timeout w)) \<in> {None, Some ''no_bank_found'', Some ''timeout''}
   \<and> reason (fst (depositItem itarget amount w)) \<in>
     {None, Some ''bank_not_open'', Some ''item_not_found'', Some ''timeout''}
   \<and> reason (fst (withdrawItem bankSlot amount w)) \<in> {None, Some ''bank_not_open'', Some ''timeout''}
   \<and> reason (fst (walkTo x z tolerance w)) = None
   \<and> reason (fst (chopTree ltarget w)) = None
   \<and> reason (fst (burnLogs logsTarget w)) = None
   \<and> reason (fst (talkTo target w)) = None
   \<and> reason (fst (closeShop timeout w)) = None
   \<and> reason (fst (closeBank timeout w)) = None
   \<and> ((\<exists>npc tradeOpt.
          resolveNpc target w = Some npc
          \<and> findOption (re_has ''trade'') (npc_optionsWithIndex npc) = Some tradeOpt
          \<and> \<not> ack_success (reply w (clock w) (InteractNpc (npc_index npc) (opIndex tradeOpt)))
          \<and> fst (openShop target w) =
              \<lparr>success = False,
               message = ack_message (reply w (clock w) (InteractNpc (npc_index npc) (opIndex tradeOpt))),
               reason = ack_reason (reply w (clock w) (InteractNpc (npc_index npc) (opIndex tradeOpt)))\<rparr>)
        \<or> reason (fst (openShop target w)) = None)
   \<and> reason (fst (buyFromShop starget amount w)) = None
   \<and> reason (fst (equipItem itarget w)) = None
   \<and> reason (fst (unequipItem compile itarget w)) = None
   \<and> reason (fst (eatFood itarget w)) = None
   \<and> (case sellToShop starget sellAmount w of None \<Rightarrow> True | Some (r, w') \<Rightarrow> reason r = None)"
proof -
  have "case sellToShop starget sellAmount w of None \<Rightarrow> True | Some (r, w') \<Rightarrow> reason r = None"
    using sellToShop_reason [of starget sellAmount w]
    by (cases "sellToShop starget sellAmount w") auto
  then show ?thesis
    using openDoor_reason [of ltarget w] pickupItem_reason [of gtarget w]
      attackNpc_reason [of target timeout w] castSpellOnNpc_reason [of target spellComponent timeout w]
      openBank_reason [of timeout w] depositItem_reason [of itarget amount w]
      withdrawItem_reason [of bankSlot amount w] openShop_reason [of target w]
    by (simp only: walkTo_reason no_reason burnLogs_reason simp_thms)
qed

text \<open>The sentence of the specification fails: with no door nearby \<^verbatim>\<open>openDoor\<close> fails with the reason
  \<open>door_not_found\<close>, which the taxonomy of the specification does not list.\<close>

theorem openDoor_reason_counterexample:
  "\<not> success (fst (openDoor None idle))
   \<and> reason (fst (openDoor None idle)) = Some ''door_not_found''
   \<and> ''door_not_found'' \<notin> set spec_taxonomy"
  by (simp add: openDoor_def resolveLocation_def findNearbyLoc_def getNearbyLocs_def getState_def
      idle_def script_def blank_def spec_taxonomy_def)

text \<open>With nothing nearby \<^verbatim>\<open>openDoor\<close> gives \<open>door_not_found\<close>; and when the command channel
  refuses the trade command with a reason of its own, \<^verbatim>\<open>openShop\<close> hands that reply on.\<close>

theorem reasons_the_code_writes_witness:
  "reason (fst (openDoor None idle)) = Some ''door_not_found''
   \<and> reason (fst (openDoor None idle)) \<in>
       {None, Some ''door_not_found'', Some ''already_open'', Some ''no_open_option'',
        Some ''walk_failed'', Some ''open_failed'', Some ''timeout''}
   \<and> reason (fst (walkTo 2 2 3 idle)) = None
   \<and> reason (fst (closeBank 5000 idle)) = None
   \<and> fst (openShop (Pattern (re_has ''shop keeper'')) refusing) =
       \<lparr>success = False, message = [Lit ''Not connected''], reason = Some ''not_connected''\<rparr>"
proof -
  have "reason (fst (openDoor None idle)) = Some ''door_not_found''"
    by (simp add: openDoor_def resolveLocation_def findNearbyLoc_def getNearbyLocs_def getState_def
      idle_def script_def blank_def)
  moreover
  have "fst (openShop (Pattern (re_has ''shop keeper'')) refusing) =
       \<lparr>success = False, message = [Lit ''Not connected''], reason = Some ''not_connected''\<rparr>"
    by (simp add: openShop_def resolveNpc_def findNearbyNpc_def getState_def refusing_def script_def
        findOption_def send_def camp_defs text_defs)
  ultimately show ?thesis
    using reasons_the_code_writes [where w = idle and ltarget = None and x = 2 and z = 2
        and tolerance = 3 and timeout = 5000]
    by simp
qed

section \<open>Stuck detection while a stride is walked\<close>

lemma maxTimeoutFor_ge: "2000 \<le> maxTimeoutFor d"
  by (simp add: maxTimeoutFor_def MIN_TIMEOUT_def Let_def)

lemma sleep_fields [simp]:
  "feed (sleep ms w) = feed w" "late (sleep ms w) = late w" "sent (sleep ms w) = sent w"
  "clock (sleep ms w) = clock w + ms + late w (clock w)"
  by (simp_all add: sleep_def)

lemma moveLoop_same:
  assumes "real (clock w) - real startTime < maxTimeout"
    and "n = clock w + 150 + late w (clock w)"
    and "playerOf (feed w n) = Some \<lparr>worldX = lastX, worldZ = lastZ\<rparr>"
    and "\<not> dist2d targetX targetZ lastX lastZ \<le> tolerance"
    and "n - lastMoveTime \<le> 600"
  shows "moveLoop targetX targetZ tolerance startTime maxTimeout lastX lastZ lastMoveTime w =
         moveLoop targetX targetZ tolerance startTime maxTimeout lastX lastZ lastMoveTime
           (w\<lparr>clock := n\<rparr>)"
  using assms
  by (subst moveLoop.simps)
     (simp add: sleep_def POLL_INTERVAL_def STUCK_THRESHOLD_def getState_def Let_def)

lemma moveLoop_stuck:
  assumes "real (clock w) - real startTime < maxTimeout"
    and "n = clock w + 150 + late w (clock w)"
    and "playerOf (feed w n) = Some \<lparr>worldX = lastX, worldZ = lastZ\<rparr>"
    and "\<not> dist2d targetX targetZ lastX lastZ \<le> tolerance"
    and "n - lastMoveTime > 600"
  shows "moveLoop targetX targetZ tolerance startTime maxTimeout lastX lastZ lastMoveTime w =
         (\<lparr>arrived = False, stoppedMoving = True, at_x = lastX, at_z = lastZ\<rparr>,
          w\<lparr>clock := n\<rparr>)"
  using assms
  by (subst moveLoop.simps)
     (simp add: sleep_def POLL_INTERVAL_def STUCK_THRESHOLD_def getState_def Let_def)

lemma moveLoop_moved:
  assumes "real (clock w) - real startTime < maxTimeout"
    and "n = clock w + 150 + late w (clock w)"
    and "playerOf (feed w n) = Some \<lparr>worldX = cx, worldZ = cz\<rparr>"
    and "\<not> dist2d targetX targetZ cx cz \<le> tolerance"
    and "cx \<noteq> lastX \<or> cz \<noteq> lastZ"
  shows "moveLoop targetX targetZ tolerance startTime maxTimeout lastX lastZ lastMoveTime w =
         moveLoop targetX targetZ tolerance startTime maxTimeout cx cz n (w\<lparr>clock := n\<rparr>)"
  using assms
  by (subst moveLoop.simps)
     (auto simp: sleep_def POLL_INTERVAL_def STUCK_THRESHOLD_def getState_def Let_def)

lemma moveLoop_expired:
  assumes "\<not> real (clock w) - real startTime < maxTimeout"
  shows "moveLoop targetX targetZ tolerance startTime maxTimeout lastX lastZ lastMoveTime w =
         (moveTimedOut targetX targetZ tolerance lastX lastZ w, w)"
  using assms by (subst moveLoop.simps) simp

lemma moveLoop_frozen:
  assumes far: "\<not> dist2d targetX targetZ lastX lastZ \<le> tolerance"
    and frozen: "\<forall>t. clock w < t \<and> t \<le> lastMoveTime + 750 + L \<longrightarrow>
                   playerOf (feed w t) = Some \<lparr>worldX = lastX, worldZ = lastZ\<rparr>"
    and slow: "\<forall>t. late w t \<le> L"
    and since: "lastMoveTime \<le> clock w" "clock w \<le> lastMoveTime + 600"
    and room: "real (lastMoveTime + 600) - real startTime < maxTimeout"
  shows "\<exists>n. moveLoop targetX targetZ tolerance startTime maxTimeout lastX lastZ lastMoveTime w =
               (\<lparr>arrived = False, stoppedMoving = True, at_x = lastX, at_z = lastZ\<rparr>,
                w\<lparr>clock := n\<rparr>)
             \<and> lastMoveTime + 600 < n \<and> n \<le> lastMoveTime + 750 + L"
  using frozen slow since
proof (induction "lastMoveTime + 601 - clock w" arbitrary: w rule: less_induct)
  case less
  let ?n = "clock w + 150 + late w (clock w)"
  from less.prems(2) have l: "late w (clock w) \<le> L" by simp
  from less.prems(3,4) room have go: "real (clock w) - real startTime < maxTimeout" by simp
  from l less.prems(4) have nb: "clock w < ?n" "?n \<le> lastMoveTime + 750 + L" by simp_all
  with less.prems(1) have at: "playerOf (feed w ?n) = Some \<lparr>worldX = lastX, worldZ = lastZ\<rparr>"
    by blast
  show ?case
  proof (cases "?n - lastMoveTime > 600")
    case True
    from moveLoop_stuck [OF go refl at far True] True nb show ?thesis
      by (intro exI [of _ ?n]) simp
  next
    case False
    let ?w1 = "w\<lparr>clock := ?n\<rparr>"
    have m: "lastMoveTime + 601 - clock ?w1 < lastMoveTime + 601 - clock w"
      using less.prems(4) by simp
    have f1: "\<forall>t. clock ?w1 < t \<and> t \<le> lastMoveTime + 750 + L \<longrightarrow>
                   playerOf (feed ?w1 t) = Some \<lparr>worldX = lastX, worldZ = lastZ\<rparr>"
      using less.prems(1) by simp
    have s1: "\<forall>t. late ?w1 t \<le> L" using less.prems(2) by simp
    have b1: "lastMoveTime \<le> clock ?w1" "clock ?w1 \<le> lastMoveTime + 600"
      using less.prems(3) False by simp_all
    from less.hyps [OF m f1 s1 b1] obtain n
      where "moveLoop targetX targetZ tolerance startTime maxTimeout lastX lastZ lastMoveTime ?w1 =
               (\<lparr>arrived = False, stoppedMoving = True, at_x = lastX, at_z = lastZ\<rparr>,
                ?w1\<lparr>clock := n\<rparr>)"
        and "lastMoveTime + 600 < n" "n \<le> lastMoveTime + 750 + L"
      by blast
    moreover from False have "?n - lastMoveTime \<le> 600" by simp
    from moveLoop_same [OF go refl at far this]
    have "moveLoop targetX targetZ tolerance startTime maxTimeout lastX lastZ lastMoveTime w =
          moveLoop targetX targetZ tolerance startTime maxTimeout lastX lastZ lastMoveTime ?w1" .
    ultimately show ?thesis by (intro exI [of _ n]) simp
  qed
qed

text \<open>
  C7, as the code has it. \<^verbatim>\<open>waitForMovementComplete\<close> has no exception path: it returns a
  value in every branch. Let no timer fire more than \<open>L\<close> ms late. (1) If the player stays
  where the start snapshot had it, farther from the target than the tolerance, for the
  \<open>750 + L\<close> ms after the call, the call returns \<open>{arrived: false, stoppedMoving: true}\<close> with
  that position at the first poll later than the 600 ms stuck threshold, which comes no
  later than \<open>750 + L\<close> ms after the call; for \<open>L < 1250\<close> that is strictly before the adaptive
  timeout, which is at least 2000 ms. (2) The same holds from any pass of the polling loop
  that has just seen the position change (\<open>lastMoveTime\<close> is now), provided the threshold of
  600 ms ends before the timeout: the loop returns the stuck result between 600 and
  \<open>750 + L\<close> ms later. The loop tests the timeout only before a poll, so that return may
  come after the timeout has elapsed.
\<close>

theorem waitForMovementComplete_reports_stuck:
  "(playerOf (getState w) = Some p
      \<and> \<not> dist2d targetX targetZ (worldX p) (worldZ p) \<le> tolerance
      \<and> (\<forall>u\<le>750 + L. playerOf (feed w (clock w + u)) = Some p)
      \<and> (\<forall>t. late w t \<le> L)
    \<longrightarrow> (\<exists>n. waitForMovementComplete targetX targetZ tolerance w =
               (\<lparr>arrived = False, stoppedMoving = True, at_x = worldX p, at_z = worldZ p\<rparr>,
                w\<lparr>clock := n\<rparr>)
             \<and> clock w + 600 < n \<and> n \<le> clock w + 750 + L
             \<and> (L < 1250 \<longrightarrow>
                  real n - real (clock w) < maxTimeoutFor (dist2d targetX targetZ (worldX p) (worldZ p)))))
   \<and> (\<not> dist2d targetX targetZ lastX lastZ \<le> tolerance
      \<and> (\<forall>u\<le>750 + L. playerOf (feed w (clock w + u)) = Some \<lparr>worldX = lastX, worldZ = lastZ\<rparr>)
      \<and> (\<forall>t. late w t \<le> L)
      \<and> real (clock w + 600) - real startTime < maxTimeout
    \<longrightarrow> (\<exists>n. moveLoop targetX targetZ tolerance startTime maxTimeout lastX lastZ (clock w) w =
               (\<lparr>arrived = False, stoppedMoving = True, at_x = lastX, at_z = lastZ\<rparr>,
                w\<lparr>clock := n\<rparr>)
             \<and> clock w + 600 < n \<and> n \<le> clock w + 750 + L))"
proof (intro conjI impI; (elim conjE)?)
  assume p: "playerOf (getState w) = Some p"
    and far: "\<not> dist2d targetX targetZ (worldX p) (worldZ p) \<le> tolerance"
    and frozen: "\<forall>u\<le>750 + L. playerOf (feed w (clock w + u)) = Some p"
    and slow: "\<forall>t. late w t \<le> L"
  let ?d = "dist2d targetX targetZ (worldX p) (worldZ p)"
  have pp: "p = \<lparr>worldX = worldX p, worldZ = worldZ p\<rparr>" by simp
  have ge: "2000 \<le> maxTimeoutFor ?d" by (rule maxTimeoutFor_ge)
  have fr: "\<forall>t. clock w < t \<and> t \<le> clock w + 750 + L \<longrightarrow>
              playerOf (feed w t) = Some \<lparr>worldX = worldX p, worldZ = worldZ p\<rparr>"
  proof (intro allI impI)
    fix t assume t: "clock w < t \<and> t \<le> clock w + 750 + L"
    then have "t - clock w \<le> 750 + L" by arith
    with frozen have "playerOf (feed w (clock w + (t - clock w))) = Some p" by blast
    with t pp show "playerOf (feed w t) = Some \<lparr>worldX = worldX p, worldZ = worldZ p\<rparr>" by simp
  qed
  have room: "real (clock w + 600) - real (clock w) < maxTimeoutFor ?d" using ge by simp
  from moveLoop_frozen [OF far fr slow order_refl _ room] obtain n
    where run: "moveLoop targetX targetZ tolerance (clock w) (maxTimeoutFor ?d) (worldX p) (worldZ p)
                  (clock w) w =
               (\<lparr>arrived = False, stoppedMoving = True, at_x = worldX p, at_z = worldZ p\<rparr>,
                w\<lparr>clock := n\<rparr>)"
      and n: "clock w + 600 < n" "n \<le> clock w + 750 + L"
    by auto
  have "L < 1250 \<longrightarrow> real n - real (clock w) < maxTimeoutFor ?d"
    using n ge by auto
  with p run n
  show "\<exists>n. waitForMovementComplete targetX targetZ tolerance w =
               (\<lparr>arrived = False, stoppedMoving = True, at_x = worldX p, at_z = worldZ p\<rparr>,
                w\<lparr>clock := n\<rparr>)
             \<and> clock w + 600 < n \<and> n \<le> clock w + 750 + L
             \<and> (L < 1250 \<longrightarrow> real n - real (clock w) < maxTimeoutFor ?d)"
    by (intro exI [of _ n]) (simp add: waitForMovementComplete_def Let_def)
next
  assume far: "\<not> dist2d targetX targetZ lastX lastZ \<le> tolerance"
    and frozen: "\<forall>u\<le>750 + L. playerOf (feed w (clock w + u)) = Some \<lparr>worldX = lastX, worldZ = lastZ\<rparr>"
    and slow: "\<forall>t. late w t \<le> L"
    and room: "real (clock w + 600) - real startTime < maxTimeout"
  have fr: "\<forall>t. clock w < t \<and> t \<le> clock w + 750 + L \<longrightarrow>
              playerOf (feed w t) = Some \<lparr>worldX = lastX, worldZ = lastZ\<rparr>"
  proof (intro allI impI)
    fix t assume t: "clock w < t \<and> t \<le> clock w + 750 + L"
    then have "t - clock w \<le> 750 + L" by arith
    with frozen have "playerOf (feed w (clock w + (t - clock w))) = Some \<lparr>worldX = lastX, worldZ = lastZ\<rparr>"
      by blast
    with t show "playerOf (feed w t) = Some \<lparr>worldX = lastX, worldZ = lastZ\<rparr>" by simp
  qed
  from moveLoop_frozen [OF far fr slow order_refl _ room]
  show "\<exists>n. moveLoop targetX targetZ tolerance startTime maxTimeout lastX lastZ (clock w) w =
               (\<lparr>arrived = False, stoppedMoving = True, at_x = lastX, at_z = lastZ\<rparr>,
                w\<lparr>clock := n\<rparr>)
             \<and> clock w + 600 < n \<and> n \<le> clock w + 750 + L"
    by auto
qed

lemma dist_6: "dist2d 6 0 0 0 = 6"
  by (simp add: dist2d_def real_sqrt_unique)

lemma dist_10: "dist2d 10 0 0 0 = 10"
  by (simp add: dist2d_def real_sqrt_unique)

text \<open>The sentence of the specification fails for a freeze that begins late. Timers fire 1 ms
  late, so the polls come 151 ms apart. The player steps back and forth until 1500 ms and
  stands still at \<open>(0, 0)\<close> from then on, 6 tiles from the target with tolerance 3; the adaptive
  timeout is 2000 ms. The poll at 1510 ms is the last to see a movement; the polls at 1661,
  1812 and 1963 ms are within the threshold and before the timeout; the poll at 2114 ms
  reports the player stuck, 614 ms into the freeze and 114 ms after the timeout.\<close>

theorem waitForMovementComplete_late_freeze_counterexample:
  "(\<lambda>u. playerOf (feed rambler (1500 + u))) = (\<lambda>u. Some \<lparr>worldX = 0, worldZ = 0\<rparr>)
   \<and> \<not> dist2d 6 0 0 0 \<le> 3
   \<and> maxTimeoutFor (dist2d 6 0 0 0) = 2000
   \<and> clock rambler = 0
   \<and> waitForMovementComplete 6 0 3 rambler =
       (\<lparr>arrived = False, stoppedMoving = True, at_x = 0, at_z = 0\<rparr>, rambler\<lparr>clock := 2114\<rparr>)
   \<and> \<not> real (clock (snd (waitForMovementComplete 6 0 3 rambler))) - real (clock rambler)
         < maxTimeoutFor (dist2d 6 0 0 0)"
proof -
  have 1: "(\<lambda>u. playerOf (feed rambler (1500 + u))) = (\<lambda>u. Some \<lparr>worldX = 0, worldZ = 0\<rparr>)"
    by (rule ext) (simp add: rambler_def script_def playerOf_def blank_def)
  have 3: "maxTimeoutFor (dist2d 6 0 0 0) = 2000"
    by (simp add: dist_6 maxTimeoutFor_def MIN_TIMEOUT_def TILES_PER_SECOND_def Let_def)
  have at: "playerOf (feed rambler t) =
      Some \<lparr>worldX = (if t < 1500 then int ((t div 150) mod 2) else 0), worldZ = 0\<rparr>" for t
    by (simp add: rambler_def script_def playerOf_def blank_def)
  have lt: "late rambler t = 1" for t by (simp add: rambler_def)
  have far: "\<not> dist2d 6 0 0 0 \<le> 3" "\<not> dist2d 6 0 1 0 \<le> 3" by (simp_all add: dist2d_le_iff)
  have c0: "clock rambler = 0" by (simp add: rambler_def script_def)
  then have w0: "rambler = rambler\<lparr>clock := 0\<rparr>" by simp
  let ?L = "moveLoop 6 0 3 0 2000"
  have "waitForMovementComplete 6 0 3 rambler = ?L 0 0 0 rambler"
    using 3 c0 by (simp add: waitForMovementComplete_def Let_def getState_def at)
  also have "\<dots> = ?L 0 0 0 (rambler\<lparr>clock := 0\<rparr>)"
    by (rule arg_cong [OF w0])
  also have "\<dots> = ?L 1 0 151 (rambler\<lparr>clock := 151\<rparr>)"
    using moveLoop_moved [where w = "rambler\<lparr>clock := 0\<rparr>" and startTime = 0 and maxTimeout = 2000
        and n = 151 and cx = 1 and cz = 0 and targetX = 6 and targetZ = 0 and tolerance = 3
        and lastX = 0 and lastZ = 0 and lastMoveTime = 0] far
    by (simp add: at lt)
  also have "\<dots> = ?L 0 0 302 (rambler\<lparr>clock := 302\<rparr>)"
    using moveLoop_moved [where w = "rambler\<lparr>clock := 151\<rparr>" and startTime = 0 and maxTimeout = 2000
        and n = 302 and cx = 0 and cz = 0 and targetX = 6 and targetZ = 0 and tolerance = 3
        and lastX = 1 and lastZ = 0 and lastMoveTime = 151] far
    by (simp add: at lt)
  also have "\<dots> = ?L 1 0 453 (rambler\<lparr>clock := 453\<rparr>)"
    using moveLoop_moved [where w = "rambler\<lparr>clock := 302\<rparr>" and startTime = 0 and maxTimeout = 2000
        and n = 453 and cx = 1 and cz = 0 and targetX = 6 and targetZ = 0 and tolerance = 3
        and lastX = 0 and lastZ = 0 and lastMoveTime = 302] far
    by (simp add: at lt)
  also have "\<dots> = ?L 0 0 604 (rambler\<lparr>clock := 604\<rparr>)"
    using moveLoop_moved [where w = "rambler\<lparr>clock := 453\<rparr>" and startTime = 0 and maxTimeout = 2000
        and n = 604 and cx = 0 and cz = 0 and targetX = 6 and targetZ = 0 and tolerance = 3
        and lastX = 1 and lastZ = 0 and lastMoveTime = 453] far
    by (simp add: at lt)
  also have "\<dots> = ?L 1 0 755 (rambler\<lparr>clock := 755\<rparr>)"
    using moveLoop_moved [where w = "rambler\<lparr>clock := 604\<rparr>" and startTime = 0 and maxTimeout = 2000
        and n = 755 and cx = 1 and cz = 0 and targetX = 6 and targetZ = 0 and tolerance = 3
        and lastX = 0 and lastZ = 0 and lastMoveTime = 604] far
    by (simp add: at lt)
  also have "\<dots> = ?L 0 0 906 (rambler\<lparr>clock := 906\<rparr>)"
    using moveLoop_moved [where w = "rambler\<lparr>clock := 755\<rparr>" and startTime = 0 and maxTimeout = 2000
        and n = 906 and cx = 0 and cz = 0 and targetX = 6 and targetZ = 0 and tolerance = 3
        and lastX = 1 and lastZ = 0 and lastMoveTime = 755] far
    by (simp add: at lt)
  also have "\<dots> = ?L 1 0 1057 (rambler\<lparr>clock := 1057\<rparr>)"
    using moveLoop_moved [where w = "rambler\<lparr>clock := 906\<rparr>" and startTime = 0 and maxTimeout = 2000
        and n = 1057 and cx = 1 and cz = 0 and targetX = 6 and targetZ = 0 and tolerance = 3
        and lastX = 0 and lastZ = 0 and lastMoveTime = 906] far
    by (simp add: at lt)
  also have "\<dots> = ?L 0 0 1208 (rambler\<lparr>clock := 1208\<rparr>)"
    using moveLoop_moved [where w = "rambler\<lparr>clock := 1057\<rparr>" and startTime = 0 and maxTimeout = 2000
        and n = 1208 and cx = 0 and cz = 0 and targetX = 6 and targetZ = 0 and tolerance = 3
        and lastX = 1 and lastZ = 0 and lastMoveTime = 1057] far
    by (simp add: at lt)
  also have "\<dots> = ?L 1 0 1359 (rambler\<lparr>clock := 1359\<rparr>)"
    using moveLoop_moved [where w = "rambler\<lparr>clock := 1208\<rparr>" and startTime = 0 and maxTimeout = 2000
        and n = 1359 and cx = 1 and cz = 0 and targetX = 6 and targetZ = 0 and tolerance = 3
        and lastX = 0 and lastZ = 0 and lastMoveTime = 1208] far
    by (simp add: at lt)
  also have "\<dots> = ?L 0 0 1510 (rambler\<lparr>clock := 1510\<rparr>)"
    using moveLoop_moved [where w = "rambler\<lparr>clock := 1359\<rparr>" and startTime = 0 and maxTimeout = 2000
        and n = 1510 and cx = 0 and cz = 0 and targetX = 6 and targetZ = 0 and tolerance = 3
        and lastX = 1 and lastZ = 0 and lastMoveTime = 1359] far
    by (simp add: at lt)
  also have "\<dots> = ?L 0 0 1510 (rambler\<lparr>clock := 1661\<rparr>)"
    using moveLoop_same [where w = "rambler\<lparr>clock := 1510\<rparr>" and startTime = 0 and maxTimeout = 2000
        and n = 1661 and targetX = 6 and targetZ = 0 and tolerance = 3
        and lastX = 0 and lastZ = 0 and lastMoveTime = 1510] far
    by (simp add: at lt)
  also have "\<dots> = ?L 0 0 1510 (rambler\<lparr>clock := 1812\<rparr>)"
    using moveLoop_same [where w = "rambler\<lparr>clock := 1661\<rparr>" and startTime = 0 and maxTimeout = 2000
        and n = 1812 and targetX = 6 and targetZ = 0 and tolerance = 3
        and lastX = 0 and lastZ = 0 and lastMoveTime = 1510] far
    by (simp add: at lt)
  also have "\<dots> = ?L 0 0 1510 (rambler\<lparr>clock := 1963\<rparr>)"
    using moveLoop_same [where w = "rambler\<lparr>clock := 1812\<rparr>" and startTime = 0 and maxTimeout = 2000
        and n = 1963 and targetX = 6 and targetZ = 0 and tolerance = 3
        and lastX = 0 and lastZ = 0 and lastMoveTime = 1510] far
    by (simp add: at lt)
  also have "\<dots> = (\<lparr>arrived = False, stoppedMoving = True, at_x = 0, at_z = 0\<rparr>,
                    rambler\<lparr>clock := 2114\<rparr>)"
    using moveLoop_stuck [where w = "rambler\<lparr>clock := 1963\<rparr>" and startTime = 0 and maxTimeout = 2000
        and n = 2114 and targetX = 6 and targetZ = 0 and tolerance = 3
        and lastX = 0 and lastZ = 0 and lastMoveTime = 1510] far
    by (simp add: at lt)
  finally have 4: "waitForMovementComplete 6 0 3 rambler =
       (\<lparr>arrived = False, stoppedMoving = True, at_x = 0, at_z = 0\<rparr>, rambler\<lparr>clock := 2114\<rparr>)" .
  from 1 far(1) 3 c0 4 show ?thesis by simp
qed

text \<open>A player that never moves, 10 tiles from the target, with exact timers: stuck between
  600 and 750 ms, before the timeout. And the loop on \<open>rambler\<close> from the poll at 1510 ms with
  a timeout of 2500 ms: stuck between 2110 and 2261 ms.\<close>

theorem waitForMovementComplete_reports_stuck_witness:
  "(\<exists>n. waitForMovementComplete 10 0 3 idle =
          (\<lparr>arrived = False, stoppedMoving = True, at_x = 0, at_z = 0\<rparr>, idle\<lparr>clock := n\<rparr>)
        \<and> 600 < n \<and> n \<le> 750 \<and> real n < maxTimeoutFor (dist2d 10 0 0 0))
   \<and> (\<exists>n. moveLoop 6 0 3 0 2500 0 0 1510 (rambler\<lparr>clock := 1510\<rparr>) =
          (\<lparr>arrived = False, stoppedMoving = True, at_x = 0, at_z = 0\<rparr>, rambler\<lparr>clock := n\<rparr>)
        \<and> 2110 < n \<and> n \<le> 2261)"
proof
  have far: "\<not> dist2d 10 0 0 0 \<le> 3" by (simp add: dist2d_le_iff)
  have pl: "playerOf (feed idle t) = Some \<lparr>worldX = 0, worldZ = 0\<rparr>" for t
    by (simp add: idle_def script_def playerOf_def blank_def)
  have c0: "clock idle = 0" by (simp add: idle_def script_def)
  have l0: "late idle t = 0" for t by (simp add: idle_def script_def)
  from waitForMovementComplete_reports_stuck [where w = idle and p = "\<lparr>worldX = 0, worldZ = 0\<rparr>"
      and targetX = 10 and targetZ = 0 and tolerance = 3 and L = 0, THEN conjunct1]
    far pl c0 l0
  show "\<exists>n. waitForMovementComplete 10 0 3 idle =
          (\<lparr>arrived = False, stoppedMoving = True, at_x = 0, at_z = 0\<rparr>, idle\<lparr>clock := n\<rparr>)
        \<and> 600 < n \<and> n \<le> 750 \<and> real n < maxTimeoutFor (dist2d 10 0 0 0)"
    by (simp add: getState_def)
next
  have far: "\<not> dist2d 6 0 0 0 \<le> 3" by (simp add: dist2d_le_iff)
  have pl: "playerOf (feed rambler (1510 + u)) = Some \<lparr>worldX = 0, worldZ = 0\<rparr>" for u
    by (simp add: rambler_def script_def playerOf_def blank_def)
  have lt: "late rambler t = 1" for t by (simp add: rambler_def)
  from waitForMovementComplete_reports_stuck [where w = "rambler\<lparr>clock := 1510\<rparr>"
      and lastX = 0 and lastZ = 0 and targetX = 6 and targetZ = 0 and tolerance = 3 and L = 1
      and startTime = 0 and maxTimeout = 2500, THEN conjunct2]
    far pl lt
  show "\<exists>n. moveLoop 6 0 3 0 2500 0 0 1510 (rambler\<lparr>clock := 1510\<rparr>) =
          (\<lparr>arrived = False, stoppedMoving = True, at_x = 0, at_z = 0\<rparr>, rambler\<lparr>clock := n\<rparr>)
        \<and> 2110 < n \<and> n \<le> 2261"
    by simp
qed

section \<open>The replanning loop of walkTo\<close>

lemma moveLoop_sent:
  "sent (snd (moveLoop targetX targetZ tolerance startTime maxTimeout lastX lastZ lastMoveTime w)) = sent w"
proof (induction targetX targetZ tolerance startTime maxTimeout lastX lastZ lastMoveTime w
    rule: moveLoop.induct)
  case (1 targetX targetZ tolerance startTime maxTimeout lastX lastZ lastMoveTime w)
  show ?case
  proof (cases "real (clock w) - real startTime < maxTimeout")
    case False
    then show ?thesis
      by (subst moveLoop.simps) simp
  next
    case True
    show ?thesis
    proof (cases "playerOf (getState (sleep POLL_INTERVAL w))")
      case None
      with True show ?thesis by (subst moveLoop.simps) (simp add: Let_def sleep_def)
    next
      case (Some p)
      note ih1 = "1.IH"(1) [OF True refl Some refl refl refl]
      note ih2 = "1.IH"(2) [OF True refl Some refl refl refl]
      from True Some ih1 ih2 show ?thesis
        by (subst moveLoop.simps) (auto simp: Let_def sleep_def)
    qed
  qed
qed

lemma waitForMovementComplete_sent:
  "sent (snd (waitForMovementComplete targetX targetZ tolerance w)) = sent w"
  by (simp add: waitForMovementComplete_def Let_def moveLoop_sent split: option.splits)

lemma strideLoop_queries:
  "pathQueries (snd (strideLoop x z tolerance wps i w)) = pathQueries w"
proof (induction "length wps - i" arbitrary: i w rule: less_induct)
  case less
  show ?case
  proof (cases "i < length wps")
    case False
    then show ?thesis by (simp add: strideLoop.simps [of x z tolerance wps i w])
  next
    case True
    obtain wx wz where wp: "wps ! i = (wx, wz)" by (cases "wps ! i")
    let ?w1 = "w\<lparr>sent := sent w @ [Walk wx wz True]\<rparr>"
    obtain mr w2 where mv: "waitForMovementComplete wx wz 3 ?w1 = (mr, w2)"
      by (cases "waitForMovementComplete wx wz 3 ?w1")
    from waitForMovementComplete_sent [of wx wz 3 ?w1] mv
    have s2: "pathQueries w2 = pathQueries w" by (simp add: pathQueries_def isFindPath_def)
    from True have "length wps - (i + WAYPOINT_STEP) < length wps - i"
      by (simp add: WAYPOINT_STEP_def)
    note ih = less.hyps [OF this, of w2]
    from True wp mv s2 ih show ?thesis
      by (subst strideLoop.simps) (simp add: Let_def send_def)
  qed
qed

lemma intermediateSearch_queries:
  "pathQueries (snd (intermediateSearch cs pr w)) \<le> pathQueries w + length cs"
proof (induction cs arbitrary: pr w)
  case Nil
  then show ?case by simp
next
  case (Cons c cs)
  obtain ix iz where c: "c = (ix, iz)" by (cases c)
  let ?w1 = "w\<lparr>sent := sent w @ [FindPath ix iz 500]\<rparr>"
  have "pathQueries ?w1 = pathQueries w + 1" by (simp add: pathQueries_def isFindPath_def)
  with Cons [of "paths w (clock w) ix iz" ?w1] c show ?case
    by (simp add: sendFindPath_def Let_def pathQueries_def)
qed

lemma intermediateTargets_length: "length (intermediateTargets x z cx cz d) \<le> 15"
  by (simp add: intermediateTargets_def Let_def INTERMEDIATE_DISTANCES_def PERPENDICULAR_OFFSETS_def)

lemma directWalk_queries: "pathQueries (snd (directWalk x z tolerance w)) = pathQueries w"
proof -
  let ?w1 = "w\<lparr>sent := sent w @ [Walk x z True]\<rparr>"
  let ?p = "\<lambda>s. case player s of None \<Rightarrow> False | Some p \<Rightarrow> dist2d x z (worldX p) (worldZ p) \<le> tolerance"
  obtain rs w2 where wt: "waitForCondition ?p 10000 ?w1 = (rs, w2)"
    by (cases "waitForCondition ?p 10000 ?w1")
  from waitForCondition_sent [OF wt] wt show ?thesis
    by (cases rs) (simp_all add: directWalk_def send_def pathQueries_def isFindPath_def)
qed

lemma walkAttempt_queries:
  "pathQueries (snd (walkAttempt x z tolerance w)) \<le> pathQueries w + 16"
proof (cases "playerOf (getState w)")
  case None
  then show ?thesis by (simp add: walkAttempt_def)
next
  case (Some p)
  let ?d = "dist2d x z (worldX p) (worldZ p)"
  show ?thesis
  proof (cases "?d \<le> tolerance")
    case True
    with Some show ?thesis by (simp add: walkAttempt_def Let_def)
  next
    case far: False
    let ?w1 = "w\<lparr>sent := sent w @ [FindPath x z 500]\<rparr>"
    let ?first = "paths w (clock w) x z"
    have q1: "pathQueries ?w1 = pathQueries w + 1" by (simp add: pathQueries_def isFindPath_def)
    obtain pr w2 where search:
      "(if \<not> hasWaypoints ?first \<and> ?d > 40
        then intermediateSearch (intermediateTargets x z (worldX p) (worldZ p) ?d) ?first ?w1
        else (?first, ?w1)) = (pr, w2)"
      by (cases "(if \<not> hasWaypoints ?first \<and> ?d > 40
        then intermediateSearch (intermediateTargets x z (worldX p) (worldZ p) ?d) ?first ?w1
        else (?first, ?w1))")
    have q2: "pathQueries w2 \<le> pathQueries w + 16"
    proof (cases "\<not> hasWaypoints ?first \<and> ?d > 40")
      case True
      with search have "w2 = snd (intermediateSearch (intermediateTargets x z (worldX p) (worldZ p) ?d) ?first ?w1)"
        by simp
      with intermediateSearch_queries [of "intermediateTargets x z (worldX p) (worldZ p) ?d" ?first ?w1]
        intermediateTargets_length [of x z "worldX p" "worldZ p" ?d] q1
      show ?thesis by simp
    next
      case False
      with search have "w2 = ?w1" by auto
      with q1 show ?thesis by simp
    qed
    show ?thesis
    proof (cases "\<not> path_success pr \<or> \<not> hasWaypoints pr")
      case True
      have "walkAttempt x z tolerance w = (Return (fst (directWalk x z tolerance w2)), snd (directWalk x z tolerance w2))"
        using Some far True search
        by (simp add: walkAttempt_def Let_def sendFindPath_def split: prod.splits)
      with directWalk_queries [of x z tolerance w2] q2 show ?thesis by simp
    next
      case False
      define wps where "wps = (case waypoints pr of None \<Rightarrow> [] | Some l \<Rightarrow> l)"
      obtain fl w3 where st: "strideLoop x z tolerance wps (min (WAYPOINT_STEP - 1) (length wps - 1)) w2 = (fl, w3)"
        by (cases "strideLoop x z tolerance wps (min (WAYPOINT_STEP - 1) (length wps - 1)) w2")
      from strideLoop_queries [of x z tolerance wps "min (WAYPOINT_STEP - 1) (length wps - 1)" w2] st
      have q3: "pathQueries w3 = pathQueries w2" by simp
      show ?thesis
      proof (cases fl)
        case (Return r)
        have "snd (walkAttempt x z tolerance w) = w3"
          using Some far False search st Return
          by (simp add: walkAttempt_def Let_def sendFindPath_def wps_def)
        with q2 q3 show ?thesis by simp
      next
        case (Continue u)
        define w5 where "w5 = (if wps = [] then w3
                               else (let (lx, lz) = wps ! (length wps - 1);
                                         (u, w4) = send (Walk lx lz True) w3
                                     in snd (waitForMovementComplete lx lz 3 w4)))"
        have q5: "pathQueries w5 = pathQueries w3"
        proof (cases "wps = []")
          case True
          then show ?thesis by (simp add: w5_def)
        next
          case False
          obtain lx lz where l: "wps ! (length wps - 1) = (lx, lz)" by (cases "wps ! (length wps - 1)")
          from False l have "w5 = snd (waitForMovementComplete lx lz 3 (w3\<lparr>sent := sent w3 @ [Walk lx lz True]\<rparr>))"
            by (simp add: w5_def send_def)
          with waitForMovementComplete_sent [of lx lz 3 "w3\<lparr>sent := sent w3 @ [Walk lx lz True]\<rparr>"]
          show ?thesis by (simp add: pathQueries_def isFindPath_def)
        qed
        have "snd (walkAttempt x z tolerance w) = w5"
          using Some far False search st Continue
          by (simp add: walkAttempt_def Let_def sendFindPath_def wps_def [symmetric] w5_def [symmetric])
        with q2 q3 q5 show ?thesis by simp
      qed
    qed
  qed
qed

lemma walkLoop_queries:
  "pathQueries (snd (walkLoop x z tolerance startX startZ query stuckCount w))
     \<le> pathQueries w + (MAX_PATH_QUERIES - query) * 16"
proof (induction "MAX_PATH_QUERIES - query" arbitrary: query stuckCount w rule: less_induct)
  case less
  show ?case
  proof (cases "query < MAX_PATH_QUERIES")
    case False
    then show ?thesis by (simp add: walkLoop.simps [of x z tolerance startX startZ query stuckCount w])
  next
    case True
    obtain fl w1 where wa: "walkAttempt x z tolerance w = (fl, w1)"
      by (cases "walkAttempt x z tolerance w")
    from walkAttempt_queries [of x z tolerance w] wa
    have q1: "pathQueries w1 \<le> pathQueries w + 16" by simp
    from True have m: "MAX_PATH_QUERIES - (query + 1) < MAX_PATH_QUERIES - query" by simp
    from True have e: "(MAX_PATH_QUERIES - query) * 16 = 16 + (MAX_PATH_QUERIES - (query + 1)) * 16"
      by (simp add: algebra_simps)
    show ?thesis
    proof (cases fl)
      case (Return r)
      with True wa q1 show ?thesis
        by (simp add: walkLoop.simps [of x z tolerance startX startZ query stuckCount w] e)
    next
      case (Continue c)
      obtain pm ax az where c: "c = (pm, ax, az)" by (cases c)
      note ih1 = less.hyps [OF m, of "stuckCount + 1" w1]
      note ih2 = less.hyps [OF m, of 0 w1]
      from True wa Continue c q1 ih1 ih2 show ?thesis
        by (simp add: walkLoop.simps [of x z tolerance startX startZ query stuckCount w] e)
    qed
  qed
qed

lemma walkTo_queries:
  "pathQueries (snd (walkTo x z tolerance w)) \<le> pathQueries w + MAX_PATH_QUERIES * 16"
  using walkLoop_queries [of x z tolerance _ _ 0 0 w]
  by (simp add: walkTo_def Let_def split: option.splits)

lemma moveLoop_arrives:
  assumes "real (clock w) - real startTime < maxTimeout"
    and "late w (clock w) = 0"
    and "playerOf (feed w (clock w + 150)) = Some q"
    and "dist2d targetX targetZ (worldX q) (worldZ q) \<le> tolerance"
  shows "moveLoop targetX targetZ tolerance startTime maxTimeout lastX lastZ lastMoveTime w =
         (\<lparr>arrived = True, stoppedMoving = False, at_x = worldX q, at_z = worldZ q\<rparr>,
          w\<lparr>clock := clock w + 150\<rparr>)"
  using assms
  by (subst moveLoop.simps)
     (simp add: sleep_def POLL_INTERVAL_def getState_def Let_def)

lemma waitForMovementComplete_arrives:
  assumes "playerOf (feed w (clock w)) = Some p"
    and "late w (clock w) = 0"
    and "playerOf (feed w (clock w + 150)) = Some q"
    and "dist2d targetX targetZ (worldX q) (worldZ q) \<le> tolerance"
  shows "waitForMovementComplete targetX targetZ tolerance w =
         (\<lparr>arrived = True, stoppedMoving = False, at_x = worldX q, at_z = worldZ q\<rparr>,
          w\<lparr>clock := clock w + 150\<rparr>)"
proof -
  have "0 < maxTimeoutFor (dist2d targetX targetZ (worldX p) (worldZ p))"
    using maxTimeoutFor_ge [of "dist2d targetX targetZ (worldX p) (worldZ p)"] by simp
  then have "real (clock w) - real (clock w) < maxTimeoutFor (dist2d targetX targetZ (worldX p) (worldZ p))"
    by simp
  from moveLoop_arrives [OF this assms(2,3,4)] assms(1) show ?thesis
    by (simp add: waitForMovementComplete_def getState_def Let_def)
qed

lemma walkAttempt_one_waypoint:
  assumes exact: "late w = (\<lambda>t. 0)"
    and here: "playerOf (feed w (clock w)) = Some p"
    and far: "\<not> dist2d x z (worldX p) (worldZ p) \<le> tolerance"
    and path: "paths w (clock w) x z = \<lparr>path_success = True, waypoints = Some [(wx, wz)]\<rparr>"
    and next1: "playerOf (feed w (clock w + 150)) = Some q"
    and near1: "dist2d wx wz (worldX q) (worldZ q) \<le> 3"
    and far1: "\<not> dist2d x z (worldX q) (worldZ q) \<le> tolerance"
    and next2: "playerOf (feed w (clock w + 300)) = Some q'"
    and near2: "dist2d wx wz (worldX q') (worldZ q') \<le> 3"
    and far2: "\<not> dist2d x z (worldX q') (worldZ q') \<le> tolerance"
  shows "walkAttempt x z tolerance w =
         (Continue (dist2d x z (worldX p) (worldZ p) - dist2d x z (worldX q') (worldZ q'),
                    worldX q', worldZ q'),
          w\<lparr>clock := clock w + 300,
            sent := sent w @ [FindPath x z 500, Walk wx wz True, Walk wx wz True]\<rparr>)"
proof -
  let ?w2 = "w\<lparr>sent := sent w @ [FindPath x z 500]\<rparr>"
  let ?w2' = "?w2\<lparr>sent := sent ?w2 @ [Walk wx wz True]\<rparr>"
  let ?w3 = "?w2'\<lparr>clock := clock w + 150\<rparr>"
  let ?w4 = "?w3\<lparr>sent := sent ?w3 @ [Walk wx wz True]\<rparr>"
  have m1: "waitForMovementComplete wx wz 3 ?w2' =
            (\<lparr>arrived = True, stoppedMoving = False, at_x = worldX q, at_z = worldZ q\<rparr>, ?w3)"
    using waitForMovementComplete_arrives [of ?w2' p q wx wz 3] here next1 near1 exact by simp
  have s2: "strideLoop x z tolerance [(wx, wz)] 5 ?w3 = (Continue (), ?w3)"
    by (subst strideLoop.simps) simp
  have s1: "strideLoop x z tolerance [(wx, wz)] 0 ?w2 = (Continue (), ?w3)"
    using m1 far1 next1 s2
    by (subst strideLoop.simps) (simp add: send_def Let_def getState_def WAYPOINT_STEP_def)
  have m2: "waitForMovementComplete wx wz 3 ?w4 =
            (\<lparr>arrived = True, stoppedMoving = False, at_x = worldX q', at_z = worldZ q'\<rparr>,
             ?w4\<lparr>clock := clock w + 300\<rparr>)"
    using waitForMovementComplete_arrives [of ?w4 q q' wx wz 3] next1 next2 near2 exact
    by (simp add: add.commute)
  show ?thesis
    using here far path s1 m2 next2 far2
    by (simp add: walkAttempt_def Let_def getState_def sendFindPath_def hasWaypoints_def
        WAYPOINT_STEP_def send_def)
qed

lemma walkLoop_slow:
  assumes "query < MAX_PATH_QUERIES"
    and "walkAttempt x z tolerance w = (Continue (progressMade, afterX, afterZ), w1)"
    and "progressMade < 5" and "stuckCount + 1 < 3"
  shows "walkLoop x z tolerance startX startZ query stuckCount w =
         walkLoop x z tolerance startX startZ (query + 1) (stuckCount + 1) w1"
  using assms by (subst walkLoop.simps) simp

lemma walkLoop_third:
  assumes "query < MAX_PATH_QUERIES"
    and "walkAttempt x z tolerance w = (Continue (progressMade, afterX, afterZ), w1)"
    and "progressMade < 5" and "3 \<le> stuckCount + 1"
  shows "walkLoop x z tolerance startX startZ query stuckCount w = (stuckResult afterX afterZ x z, w1)"
  using assms by (subst walkLoop.simps) simp

lemma walkLoop_progress:
  assumes "query < MAX_PATH_QUERIES"
    and "walkAttempt x z tolerance w = (Continue (progressMade, afterX, afterZ), w1)"
    and "\<not> progressMade < 5"
  shows "walkLoop x z tolerance startX startZ query stuckCount w =
         walkLoop x z tolerance startX startZ (query + 1) 0 w1"
  using assms by (subst walkLoop.simps) simp

lemma walkAttempt_position:
  assumes "walkAttempt x z tolerance w = (Continue (progressMade, afterX, afterZ), w1)"
    and "playerOf (getState w1) = Some q"
  shows "afterX = worldX q \<and> afterZ = worldZ q"
  using assms
  by (auto simp: walkAttempt_def Let_def split: option.splits if_splits prod.splits flow.splits)

lemma treadmill_attempt:
  assumes "late w = (\<lambda>t. 0)" and "feed w = (\<lambda>t. Some blank)"
    and "paths w = (\<lambda>t x z. \<lparr>path_success = True, waypoints = Some [(1, 0)]\<rparr>)"
  shows "walkAttempt 10 0 3 w =
         (Continue (0, 0, 0),
          w\<lparr>clock := clock w + 300,
            sent := sent w @ [FindPath 10 0 500, Walk 1 0 True, Walk 1 0 True]\<rparr>)"
  using walkAttempt_one_waypoint [of w "\<lparr>worldX = 0, worldZ = 0\<rparr>" 10 0 3 1 0
      "\<lparr>worldX = 0, worldZ = 0\<rparr>" "\<lparr>worldX = 0, worldZ = 0\<rparr>"] assms
  by (simp add: playerOf_def blank_def dist_10 dist2d_le_iff)

lemma dist_20: "dist2d 20 0 0 0 = 20"
  by (simp add: dist2d_def real_sqrt_unique)

lemma dist_14: "dist2d 20 0 6 0 = 14"
  by (simp add: dist2d_def real_sqrt_unique)

lemma hike_attempt:
  "walkAttempt 20 0 3 hike =
     (Continue (6, 6, 0),
      hike\<lparr>clock := 300, sent := [FindPath 20 0 500, Walk 6 0 True, Walk 6 0 True]\<rparr>)"
  using walkAttempt_one_waypoint [of hike "\<lparr>worldX = 0, worldZ = 0\<rparr>" 20 0 3 6 0
      "\<lparr>worldX = 6, worldZ = 0\<rparr>" "\<lparr>worldX = 6, worldZ = 0\<rparr>"]
  by (simp add: hike_def script_def playerOf_def blank_def dist_20 dist_14 dist2d_le_iff)

text \<open>
  C6. \<^verbatim>\<open>walkTo\<close> returns on every session, and its replanning loop is capped: a call sends
  at most \<open>MAX_PATH_QUERIES * 16\<close> path queries (each of at most 80 passes asks for one path
  to the goal and for at most fifteen paths to intermediate points). When three
  consecutive passes, counted from a counter of zero, each end with the distance to the
  goal improved by less than 5, the third pass returns the failure "Stuck at ..." carrying
  the position of the last snapshot. A pass that improves the distance by 5 or more puts
  the counter back to zero.
\<close>

theorem walkTo_replanning_is_bounded:
  "pathQueries (snd (walkTo x z tolerance w)) \<le> pathQueries w + MAX_PATH_QUERIES * 16
   \<and> (playerOf (getState w) = Some p \<and> \<not> dist2d x z (worldX p) (worldZ p) \<le> tolerance \<longrightarrow>
        walkTo x z tolerance w = walkLoop x z tolerance (worldX p) (worldZ p) 0 0 w)
   \<and> (query + 2 < MAX_PATH_QUERIES
        \<and> walkAttempt x z tolerance w = (Continue (p1, ax1, az1), w1) \<and> p1 < 5
        \<and> walkAttempt x z tolerance w1 = (Continue (p2, ax2, az2), w2) \<and> p2 < 5
        \<and> walkAttempt x z tolerance w2 = (Continue (p3, ax3, az3), w3) \<and> p3 < 5 \<longrightarrow>
        walkLoop x z tolerance startX startZ query 0 w = (stuckResult ax3 az3 x z, w3)
        \<and> \<not> success (stuckResult ax3 az3 x z)
        \<and> message (stuckResult ax3 az3 x z) =
            [Lit ''Stuck at ('', Num ax3, Lit '', '', Num az3, Lit '')'',
             Lit '' - cannot reach ('', Num x, Lit '', '', Num z, Lit '')'']
        \<and> (\<forall>q. playerOf (getState w3) = Some q \<longrightarrow> ax3 = worldX q \<and> az3 = worldZ q))
   \<and> (query < MAX_PATH_QUERIES
        \<and> walkAttempt x z tolerance w = (Continue (progressMade, afterX, afterZ), w1)
        \<and> 5 \<le> progressMade \<longrightarrow>
        walkLoop x z tolerance startX startZ query stuckCount w =
        walkLoop x z tolerance startX startZ (query + 1) 0 w1)"
proof (intro conjI impI allI)
  show "pathQueries (snd (walkTo x z tolerance w)) \<le> pathQueries w + MAX_PATH_QUERIES * 16"
    by (rule walkTo_queries)
next
  assume "playerOf (getState w) = Some p \<and> \<not> dist2d x z (worldX p) (worldZ p) \<le> tolerance"
  then show "walkTo x z tolerance w = walkLoop x z tolerance (worldX p) (worldZ p) 0 0 w"
    by (simp add: walkTo_def Let_def)
next
  assume a: "query + 2 < MAX_PATH_QUERIES
        \<and> walkAttempt x z tolerance w = (Continue (p1, ax1, az1), w1) \<and> p1 < 5
        \<and> walkAttempt x z tolerance w1 = (Continue (p2, ax2, az2), w2) \<and> p2 < 5
        \<and> walkAttempt x z tolerance w2 = (Continue (p3, ax3, az3), w3) \<and> p3 < 5"
  then have q: "query < MAX_PATH_QUERIES" "query + 1 < MAX_PATH_QUERIES"
    "query + 1 + 1 < MAX_PATH_QUERIES" by simp_all
  from a have t1: "walkAttempt x z tolerance w = (Continue (p1, ax1, az1), w1)" and s1: "p1 < 5"
    and t2: "walkAttempt x z tolerance w1 = (Continue (p2, ax2, az2), w2)" and s2: "p2 < 5"
    and t3: "walkAttempt x z tolerance w2 = (Continue (p3, ax3, az3), w3)" and s3: "p3 < 5"
    by simp_all
  have "walkLoop x z tolerance startX startZ query 0 w =
        walkLoop x z tolerance startX startZ (query + 1) (0 + 1) w1"
    by (rule walkLoop_slow [OF q(1) t1 s1]) simp
  also have "\<dots> = walkLoop x z tolerance startX startZ (query + 1 + 1) (0 + 1 + 1) w2"
    by (rule walkLoop_slow [OF q(2) t2 s2]) simp
  also have "\<dots> = (stuckResult ax3 az3 x z, w3)"
    by (rule walkLoop_third [OF q(3) t3 s3]) simp
  finally show "walkLoop x z tolerance startX startZ query 0 w = (stuckResult ax3 az3 x z, w3)" .
  show "\<not> success (stuckResult ax3 az3 x z)" by (simp add: stuckResult_def)
  show "message (stuckResult ax3 az3 x z) =
            [Lit ''Stuck at ('', Num ax3, Lit '', '', Num az3, Lit '')'',
             Lit '' - cannot reach ('', Num x, Lit '', '', Num z, Lit '')'']"
    by (simp add: stuckResult_def at_text_def)
  fix q assume "playerOf (getState w3) = Some q"
  with a walkAttempt_position [of x z tolerance w2 p3 ax3 az3 w3 q]
  show "ax3 = worldX q" "az3 = worldZ q" by simp_all
next
  assume "query < MAX_PATH_QUERIES
        \<and> walkAttempt x z tolerance w = (Continue (progressMade, afterX, afterZ), w1)
        \<and> 5 \<le> progressMade"
  then show "walkLoop x z tolerance startX startZ query stuckCount w =
        walkLoop x z tolerance startX startZ (query + 1) 0 w1"
    using walkLoop_progress [of query x z tolerance w progressMade afterX afterZ w1 startX startZ stuckCount]
    by simp
qed

theorem walkTo_replanning_is_bounded_witness:
  "walkTo 10 0 3 treadmill =
     (stuckResult 0 0 10 0,
      treadmill\<lparr>clock := 900,
        sent := [FindPath 10 0 500, Walk 1 0 True, Walk 1 0 True,
                 FindPath 10 0 500, Walk 1 0 True, Walk 1 0 True,
                 FindPath 10 0 500, Walk 1 0 True, Walk 1 0 True]\<rparr>)
   \<and> playerOf (getState (treadmill\<lparr>clock := 900\<rparr>)) = Some \<lparr>worldX = 0, worldZ = 0\<rparr>
   \<and> walkLoop 20 0 3 0 0 0 2 hike =
       walkLoop 20 0 3 0 0 1 0
         (hike\<lparr>clock := 300, sent := [FindPath 20 0 500, Walk 6 0 True, Walk 6 0 True]\<rparr>)"
proof (intro conjI)
  let ?s1 = "[FindPath 10 0 500, Walk 1 0 True, Walk 1 0 True]"
  let ?w1 = "treadmill\<lparr>clock := 300, sent := ?s1\<rparr>"
  let ?w2 = "treadmill\<lparr>clock := 600, sent := ?s1 @ ?s1\<rparr>"
  let ?w3 = "treadmill\<lparr>clock := 900, sent := ?s1 @ ?s1 @ ?s1\<rparr>"
  have a1: "walkAttempt 10 0 3 treadmill = (Continue (0, 0, 0), ?w1)"
    using treadmill_attempt [of treadmill] by (simp add: treadmill_def script_def)
  have a2: "walkAttempt 10 0 3 ?w1 = (Continue (0, 0, 0), ?w2)"
    using treadmill_attempt [of ?w1] by (simp add: treadmill_def script_def)
  have a3: "walkAttempt 10 0 3 ?w2 = (Continue (0, 0, 0), ?w3)"
    using treadmill_attempt [of ?w2] by (simp add: treadmill_def script_def)
  have start: "playerOf (getState treadmill) = Some \<lparr>worldX = 0, worldZ = 0\<rparr>"
    by (simp add: treadmill_def script_def getState_def playerOf_def blank_def)
  have far: "\<not> dist2d 10 0 0 0 \<le> 3" by (simp add: dist_10)
  have "walkTo 10 0 3 treadmill = walkLoop 10 0 3 0 0 0 0 treadmill"
    using walkTo_replanning_is_bounded [where w = treadmill and x = 10 and z = 0
        and tolerance = 3 and p = "\<lparr>worldX = 0, worldZ = 0\<rparr>", THEN conjunct2, THEN conjunct1]
      start far by simp
  also have "\<dots> = (stuckResult 0 0 10 0, ?w3)"
    using walkTo_replanning_is_bounded [where w = treadmill and x = 10 and z = 0
        and tolerance = 3 and query = 0 and startX = 0 and startZ = 0
        and ?p1.0 = 0 and ?ax1.0 = 0 and ?az1.0 = 0 and ?w1.0 = ?w1
        and ?p2.0 = 0 and ?ax2.0 = 0 and ?az2.0 = 0 and ?w2.0 = ?w2
        and ?p3.0 = 0 and ?ax3.0 = 0 and ?az3.0 = 0 and ?w3.0 = ?w3,
        THEN conjunct2, THEN conjunct2, THEN conjunct1]
      a1 a2 a3 by (simp add: MAX_PATH_QUERIES_def)
  finally show "walkTo 10 0 3 treadmill =
     (stuckResult 0 0 10 0,
      treadmill\<lparr>clock := 900,
        sent := [FindPath 10 0 500, Walk 1 0 True, Walk 1 0 True,
                 FindPath 10 0 500, Walk 1 0 True, Walk 1 0 True,
                 FindPath 10 0 500, Walk 1 0 True, Walk 1 0 True]\<rparr>)" by simp
  show "playerOf (getState (treadmill\<lparr>clock := 900\<rparr>)) = Some \<lparr>worldX = 0, worldZ = 0\<rparr>"
    by (simp add: treadmill_def script_def getState_def playerOf_def blank_def)
  show "walkLoop 20 0 3 0 0 0 2 hike =
       walkLoop 20 0 3 0 0 1 0
         (hike\<lparr>clock := 300, sent := [FindPath 20 0 500, Walk 6 0 True, Walk 6 0 True]\<rparr>)"
    using walkTo_replanning_is_bounded [where w = hike and x = 20 and z = 0
        and tolerance = 3 and query = 0 and startX = 0 and startZ = 0 and stuckCount = 2
        and progressMade = 6 and afterX = 6 and afterZ = 0
        and ?w1.0 = "hike\<lparr>clock := 300, sent := [FindPath 20 0 500, Walk 6 0 True, Walk 6 0 True]\<rparr>",
        THEN conjunct2, THEN conjunct2, THEN conjunct2]
      hike_attempt by (simp add: MAX_PATH_QUERIES_def)
qed

section \<open>Selling all of an item\<close>

lemma foldl_count: "foldl (\<lambda>sum x. sum + si_count x) a xs = a + sum_list (map si_count xs)"
  by (induction xs arbitrary: a) simp_all

lemma getTotalCount_sum:
  "getTotalCount i items = sum_list (map si_count (filter (\<lambda>x. si_id x = i) items))"
  by (simp add: getTotalCount_def foldl_count)

lemma find_le_total:
  assumes "find (\<lambda>x. si_id x = i) items = Some cur"
  shows "si_count cur \<le> getTotalCount i items"
proof -
  from assms have "cur \<in> set (filter (\<lambda>x. si_id x = i) items)"
    by (auto simp: find_Some_iff)
  then have "si_count cur \<in> set (map si_count (filter (\<lambda>x. si_id x = i) items))"
    by simp
  then show ?thesis
    unfolding getTotalCount_sum by (rule member_le_sum_list) simp
qed

lemma sellAllVerdict_None:
  "sellAllVerdict sellItem a t = None \<longleftrightarrow> \<not> cantSellText t \<and> \<not> str_includes t ''can't sell this item to this shop''"
  by (simp add: sellAllVerdict_def cantSellText_def)

lemma firstVerdict_None_iff:
  "firstVerdict cls st msgs = None \<longleftrightarrow>
   (\<forall>m\<in>set msgs. msg_tick m > st \<longrightarrow> cls (toLowerCase (msg_text m)) = None)"
  by (induction msgs) (auto split: option.splits)

lemma firstVerdict_total:
  "firstVerdict (sellAllVerdict sellItem a) st msgs = None \<longleftrightarrow>
   firstVerdict (sellAllVerdict sellItem b) st msgs = None"
  by (simp add: firstVerdict_None_iff sellAllVerdict_None)

lemma noRejection_quiet:
  "firstVerdict (sellAllVerdict sellItem a) st msgs = None \<Longrightarrow> \<not> anyMessage cantSellText st msgs"
  by (auto simp: firstVerdict_None_iff sellAllVerdict_None anyMessage_iff)

lemma sellAllVerdict_fields:
  "sellAllVerdict sellItem sold t = Some r \<Longrightarrow> rejected r = Some True \<and> amountSold r = Some sold"
  by (auto simp: sellAllVerdict_def split: if_splits)

lemma firstVerdict_fields:
  assumes "firstVerdict (sellAllVerdict sellItem sold) st msgs = Some r"
  shows "rejected r = Some True \<and> amountSold r = Some sold"
proof -
  from firstVerdict_SomeD [of "sellAllVerdict sellItem sold" st msgs r, OF assms]
  obtain m :: game_message
    where "sellAllVerdict sellItem sold (toLowerCase (msg_text m)) = Some r" by blast
  then show ?thesis by (rule sellAllVerdict_fields)
qed

lemma batch_step:
  assumes bw: "batchWait sellItem startTick w = Some (Inr finalState, w2)"
    and nr: "noRejection sellItem startTick finalState"
  shows "sellAllLoop sellItem startTick sold w =
           sellAllLoop sellItem startTick (sold + (int (offered sellItem w) - int (offered sellItem w2))) w2"
    and "offered sellItem w2 < offered sellItem w"
    and "\<exists>c. sent w2 = sent w @ [c] \<and> capped c"
proof -
  from bw obtain state where st: "getState w = Some state" and op: "shop_isOpen (shop state)"
    by (auto simp: batchWait_def split: option.splits if_splits)
  from bw st op obtain cur
    where f: "find (\<lambda>i. si_id i = si_id sellItem) (playerItems (shop state)) = Some cur"
      and c0: "si_count cur \<noteq> 0"
    by (auto simp: batchWait_def split: option.splits if_splits)
  let ?c = "ShopSell (si_slot cur) (min 10 (int (si_count cur)))"
  let ?w1 = "w\<lparr>sent := sent w @ [?c]\<rparr>"
  let ?before = "getTotalCount (si_id sellItem) (playerItems (shop state))"
  from bw st op f c0 have ok: "ack_success (reply w (clock w) ?c)"
    and wt: "waitForCondition (sellCond (si_id sellItem) startTick ?before) 3000 ?w1 = (Inr finalState, w2)"
    by (auto simp: batchWait_def send_def split: if_splits)
  from waitForCondition_Inr [OF wt]
  have g2: "getState w2 = Some finalState"
    and sc: "sellCond (si_id sellItem) startTick ?before finalState"
    and s2: "sent w2 = sent ?w1" by simp_all
  from nr have nv: "firstVerdict (sellAllVerdict sellItem sold) startTick (gameMessages finalState) = None"
    using firstVerdict_total [of sellItem sold startTick "gameMessages finalState" 0]
    by (simp add: noRejection_def)
  from noRejection_quiet [OF nv] sc
  have drop: "getTotalCount (si_id sellItem) (playerItems (shop finalState)) < ?before"
    by (simp add: sellCond_def Let_def)
  have o1: "offered sellItem w = ?before" using st by (simp add: offered_def)
  have o2: "offered sellItem w2 = getTotalCount (si_id sellItem) (playerItems (shop finalState))"
    using g2 by (simp add: offered_def)
  from drop o1 o2 show "offered sellItem w2 < offered sellItem w" by simp
  from c0 s2 show "\<exists>c. sent w2 = sent w @ [c] \<and> capped c"
    by (simp add: capped_def)
  from drop have ne: "int ?before - int (getTotalCount (si_id sellItem) (playerItems (shop finalState))) \<noteq> 0"
    by simp
  show "sellAllLoop sellItem startTick sold w =
           sellAllLoop sellItem startTick (sold + (int (offered sellItem w) - int (offered sellItem w2))) w2"
    using st op f c0 ok wt nv ne
    by (subst sellAllLoop.simps) (simp add: send_def Let_def o1 o2)
qed

lemma goodBatches_SucE:
  assumes "goodBatches (Suc n) ending sellItem startTick w"
  obtains finalState w2
  where "batchWait sellItem startTick w = Some (Inr finalState, w2)"
    and "noRejection sellItem startTick finalState"
    and "goodBatches n ending sellItem startTick w2"
proof (cases "batchWait sellItem startTick w")
  case None
  with assms show ?thesis by simp
next
  case (Some y)
  obtain rs w2 where y: "y = (rs, w2)" by (cases y)
  show ?thesis
  proof (cases rs)
    case (Inl e)
    with assms Some y show ?thesis by simp
  next
    case (Inr finalState)
    with assms Some y that [of finalState w2] show ?thesis by simp
  qed
qed

lemma batches_run:
  assumes "goodBatches n ending sellItem startTick w"
  shows "\<exists>w' cmds. ending w' \<and> offered sellItem w' + n \<le> offered sellItem w
           \<and> sent w' = sent w @ cmds \<and> length cmds = n \<and> list_all capped cmds
           \<and> (\<forall>sold. sellAllLoop sellItem startTick sold w =
                 sellAllLoop sellItem startTick
                   (sold + (int (offered sellItem w) - int (offered sellItem w'))) w')"
  using assms
proof (induction n arbitrary: w)
  case 0
  then show ?case by (intro exI [of _ w] exI [of _ "[]"]) simp
next
  case (Suc n)
  from Suc.prems obtain finalState w2
    where bw: "batchWait sellItem startTick w = Some (Inr finalState, w2)"
      and nr: "noRejection sellItem startTick finalState"
      and rest: "goodBatches n ending sellItem startTick w2"
    by (rule goodBatches_SucE)
  note step = batch_step [OF bw nr]
  from step(3) obtain c where c: "sent w2 = sent w @ [c]" "capped c" by blast
  from Suc.IH [OF rest] obtain w' cmds
    where e: "ending w'" and le: "offered sellItem w' + n \<le> offered sellItem w2"
      and s: "sent w' = sent w2 @ cmds" and l: "length cmds = n" and cp: "list_all capped cmds"
      and run: "\<And>sold. sellAllLoop sellItem startTick sold w2 =
                 sellAllLoop sellItem startTick
                   (sold + (int (offered sellItem w2) - int (offered sellItem w'))) w'"
    by blast
  have r: "sellAllLoop sellItem startTick sold w =
           sellAllLoop sellItem startTick
             (sold + (int (offered sellItem w) - int (offered sellItem w'))) w'" for sold
    using step(1) [of sold] run [of "sold + (int (offered sellItem w) - int (offered sellItem w2))"]
    by (simp add: algebra_simps)
  show ?case
  proof (intro exI [of _ w'] exI [of _ "c # cmds"] conjI allI)
    show "ending w'" by (rule e)
    show "offered sellItem w' + Suc n \<le> offered sellItem w" using le step(2) by simp
    show "sent w' = sent w @ c # cmds" using s c(1) by simp
    show "length (c # cmds) = Suc n" using l by simp
    show "list_all capped (c # cmds)" using cp c(2) by simp
    show "sellAllLoop sellItem startTick sold w =
           sellAllLoop sellItem startTick
             (sold + (int (offered sellItem w) - int (offered sellItem w'))) w'" for sold
      by (rule r)
  qed
qed

lemma soldOut_ends:
  assumes "soldOut sellItem w"
  shows "sellAllLoop sellItem startTick sold w = Some (sellAllDone sellItem sold, w)"
proof -
  from assms obtain state where st: "getState w = Some state"
    and z: "getTotalCount (si_id sellItem) (playerItems (shop state)) = 0"
    by (auto simp: soldOut_def offered_def)
  show ?thesis
  proof (cases "find (\<lambda>i. si_id i = si_id sellItem) (playerItems (shop state))")
    case None
    with st show ?thesis by (subst sellAllLoop.simps) simp
  next
    case (Some cur)
    from find_le_total [OF Some] z have "si_count cur = 0" by simp
    with st Some show ?thesis by (subst sellAllLoop.simps) simp
  qed
qed

lemma rejectedNext_ends:
  assumes "rejectedNext sellItem startTick w"
  shows "\<exists>r w'. sellAllLoop sellItem startTick sold w = Some (r, w')
           \<and> rejected r = Some True \<and> amountSold r = Some sold \<and> 0 < offered sellItem w
           \<and> (\<exists>c. sent w' = sent w @ [c] \<and> capped c)"
proof -
  from assms obtain finalState w2
    where bw: "batchWait sellItem startTick w = Some (Inr finalState, w2)"
      and rj: "\<not> noRejection sellItem startTick finalState"
    by (auto simp: rejectedNext_def split: option.splits sum.splits)
  from bw obtain state where st: "getState w = Some state" and op: "shop_isOpen (shop state)"
    by (auto simp: batchWait_def split: option.splits if_splits)
  from bw st op obtain cur
    where f: "find (\<lambda>i. si_id i = si_id sellItem) (playerItems (shop state)) = Some cur"
      and c0: "si_count cur \<noteq> 0"
    by (auto simp: batchWait_def split: option.splits if_splits)
  let ?c = "ShopSell (si_slot cur) (min 10 (int (si_count cur)))"
  let ?w1 = "w\<lparr>sent := sent w @ [?c]\<rparr>"
  let ?before = "getTotalCount (si_id sellItem) (playerItems (shop state))"
  from bw st op f c0 have ok: "ack_success (reply w (clock w) ?c)"
    and wt: "waitForCondition (sellCond (si_id sellItem) startTick ?before) 3000 ?w1 = (Inr finalState, w2)"
    by (auto simp: batchWait_def send_def split: if_splits)
  from waitForCondition_Inr [OF wt] have s2: "sent w2 = sent ?w1" by simp
  from rj obtain r where v: "firstVerdict (sellAllVerdict sellItem sold) startTick (gameMessages finalState) = Some r"
    using firstVerdict_total [of sellItem sold startTick "gameMessages finalState" 0]
    by (auto simp: noRejection_def)
  have run: "sellAllLoop sellItem startTick sold w = Some (r, w2)"
    using st op f c0 ok wt v by (subst sellAllLoop.simps) (simp add: send_def Let_def)
  from find_le_total [OF f] c0 st have pos: "0 < offered sellItem w" by (simp add: offered_def)
  from c0 s2 have "\<exists>c. sent w2 = sent w @ [c] \<and> capped c" by (simp add: capped_def)
  with run firstVerdict_fields [OF v] pos show ?thesis by blast
qed

lemma stalledNext_ends:
  assumes "stalledNext sellItem startTick w"
  shows "\<exists>w'. sellAllLoop sellItem startTick sold w = Some (sellAllDone sellItem sold, w')
           \<and> clock w' = clock w + 3000 \<and> 0 < offered sellItem w
           \<and> (\<exists>c. sent w' = sent w @ [c] \<and> capped c)"
proof -
  from assms obtain e w2
    where bw: "batchWait sellItem startTick w = Some (Inl e, w2)"
    by (auto simp: stalledNext_def split: option.splits sum.splits)
  from bw obtain state where st: "getState w = Some state" and op: "shop_isOpen (shop state)"
    by (auto simp: batchWait_def split: option.splits if_splits)
  from bw st op obtain cur
    where f: "find (\<lambda>i. si_id i = si_id sellItem) (playerItems (shop state)) = Some cur"
      and c0: "si_count cur \<noteq> 0"
    by (auto simp: batchWait_def split: option.splits if_splits)
  let ?c = "ShopSell (si_slot cur) (min 10 (int (si_count cur)))"
  let ?w1 = "w\<lparr>sent := sent w @ [?c]\<rparr>"
  let ?before = "getTotalCount (si_id sellItem) (playerItems (shop state))"
  from bw st op f c0 have ok: "ack_success (reply w (clock w) ?c)"
    and wt: "waitForCondition (sellCond (si_id sellItem) startTick ?before) 3000 ?w1 = (Inl e, w2)"
    by (auto simp: batchWait_def send_def split: if_splits)
  from waitForCondition_Inl [OF wt] have w2: "w2 = ?w1\<lparr>clock := clock ?w1 + 3000\<rparr>" .
  have run: "sellAllLoop sellItem startTick sold w = Some (sellAllDone sellItem sold, w2)"
    using st op f c0 ok wt by (subst sellAllLoop.simps) (simp add: send_def Let_def)
  from find_le_total [OF f] c0 st have pos: "0 < offered sellItem w" by (simp add: offered_def)
  from c0 w2 have "\<exists>c. sent w2 = sent w @ [c] \<and> capped c" by (simp add: capped_def)
  moreover from w2 have "clock w2 = clock w + 3000" by simp
  ultimately show ?thesis using run pos by blast
qed

lemma sellAllLoop_capped:
  assumes "sellAllLoop sellItem0 startTick0 sold0 w0 = Some y0"
  shows "\<exists>cmds. sent (snd y0) = sent w0 @ cmds \<and> list_all capped cmds"
proof (rule sellAllLoop.raw_induct
    [where P = "\<lambda>a b c d y. \<exists>cmds. sent (snd y) = sent d @ cmds \<and> list_all capped cmds",
      OF _ assms], goal_cases)
  case (1 loop sellItem startTick sold w y)
  note ih = "1"(1)
  note body = "1"(2)
  have none: "\<exists>cmds. sent w = sent w @ cmds \<and> list_all capped cmds"
    by (rule exI [of _ "[]"]) simp
  show ?case
  proof (cases "getState w")
    case None
    with body none show ?thesis by auto
  next
    case (Some state)
    show ?thesis
    proof (cases "find (\<lambda>i. si_id i = si_id sellItem) (playerItems (shop state))")
      case None
      with body Some none show ?thesis by (auto split: if_splits)
    next
      case (Some cur)
      note st = \<open>getState w = Some state\<close>
      show ?thesis
      proof (cases "\<not> shop_isOpen (shop state) \<or> si_count cur = 0")
        case True
        with body st Some none show ?thesis by (auto split: if_splits)
      next
        case False
        let ?c = "ShopSell (si_slot cur) (min 10 (int (si_count cur)))"
        let ?w1 = "w\<lparr>sent := sent w @ [?c]\<rparr>"
        let ?before = "getTotalCount (si_id sellItem) (playerItems (shop state))"
        from False have cap: "capped ?c" by (simp add: capped_def)
        have one: "\<exists>cmds. sent ?w1 = sent w @ cmds \<and> list_all capped cmds"
          using cap by (intro exI [of _ "[?c]"]) simp
        obtain rs w2 where wt: "waitForCondition (sellCond (si_id sellItem) startTick ?before) 3000 ?w1 = (rs, w2)"
          by (cases "waitForCondition (sellCond (si_id sellItem) startTick ?before) 3000 ?w1")
        from waitForCondition_sent [OF wt] have s2: "sent w2 = sent w @ [?c]" by simp
        then have two: "\<exists>cmds. sent w2 = sent w @ cmds \<and> list_all capped cmds"
          using cap by (intro exI [of _ "[?c]"]) simp
        show ?thesis
        proof (cases "ack_success (reply w (clock w) ?c)")
          case nack: False
          with body st Some False one show ?thesis by (simp add: send_def Let_def) auto
        next
          case ack: True
          show ?thesis
          proof (cases rs)
            case (Inl e)
            with body st Some False ack wt two show ?thesis
              by (simp add: send_def Let_def) auto
          next
            case (Inr finalState)
            show ?thesis
            proof (cases "firstVerdict (sellAllVerdict sellItem sold) startTick (gameMessages finalState)")
              case (Some r)
              with body st \<open>find _ _ = Some cur\<close> False ack wt Inr two show ?thesis
                by (simp add: send_def Let_def) auto
            next
              case None
              let ?d = "int ?before - int (getTotalCount (si_id sellItem) (playerItems (shop finalState)))"
              show ?thesis
              proof (cases "?d = 0")
                case True
                with body st \<open>find _ _ = Some cur\<close> False ack wt Inr None two show ?thesis
                  by (simp add: send_def Let_def) auto
              next
                case nz: False
                with body st \<open>find _ _ = Some cur\<close> False ack wt Inr None
                have "loop sellItem startTick (sold + ?d) w2 = Some y"
                  by (simp add: send_def Let_def)
                from ih [OF this] obtain cmds
                  where "sent (snd y) = sent w2 @ cmds" "list_all capped cmds" by blast
                with s2 cap show ?thesis
                  by (intro exI [of _ "?c # cmds"]) simp
              qed
            qed
          qed
        qed
      qed
    qed
  qed
qed

lemma sellToShop_all:
  assumes "getState w = Some st" and "shop_isOpen (shop st)"
    and "resolveShopItem target (playerItems (shop st)) = Some sellItem"
  shows "sellToShop target All w = sellAllLoop sellItem (tickOf (getState w)) 0 w"
  using assms by (simp add: sellToShop_def sellAllToShop_def Let_def)

lemma sellAllDone_sold:
  "0 < a \<Longrightarrow> success (sellAllDone sellItem a) \<and> amountSold (sellAllDone sellItem a) = Some a
     \<and> rejected (sellAllDone sellItem a) = None"
  by (simp add: sellAllDone_def)

text \<open>
  C5. Let the shop be open and the target resolve to an item of which the snapshot lists \<open>N\<close>
  units over all stacks. Every command a returning \<^verbatim>\<open>sellToShop(item, 'all')\<close> has sent is a sell
  of between 1 and 10 units (the loop asks for \<open>min 10 count\<close> of the first stack). If \<open>n\<close>
  batches in a row each end with the listed total lower and no rejection message, and no
  unit is left after them, then for \<open>N > 0\<close> the call succeeds after exactly \<open>n\<close> commands and
  reports \<open>amountSold = N\<close>, the sum of the measured drops. If instead the batch after them
  ends on a rejection message, the call returns a result with \<open>rejected\<close> set and
  \<open>amountSold\<close> the sum so far, at least \<open>n\<close> and less than \<open>N\<close>; and if the batch after them
  changes nothing before its 3000 ms wait expires, the loop ends and the call returns what
  was sold so far, again less than \<open>N\<close>.
\<close>

theorem sellToShop_all_in_batches:
  assumes st: "getState w = Some st" and isopen: "shop_isOpen (shop st)"
    and resolved: "resolveShopItem target (playerItems (shop st)) = Some sellItem"
  shows
    "(sellToShop target All w = Some (r, w') \<longrightarrow>
        (\<exists>cmds. sent w' = sent w @ cmds \<and> list_all capped cmds))
     \<and> (goodBatches n (soldOut sellItem) sellItem (tickOf (getState w)) w
          \<and> 0 < offered sellItem w \<longrightarrow>
          (\<exists>r w' cmds. sellToShop target All w = Some (r, w') \<and> success r
              \<and> amountSold r = Some (int (offered sellItem w)) \<and> rejected r = None
              \<and> sent w' = sent w @ cmds \<and> length cmds = n))
     \<and> (goodBatches n (rejectedNext sellItem (tickOf (getState w))) sellItem (tickOf (getState w)) w \<longrightarrow>
          (\<exists>r w' a. sellToShop target All w = Some (r, w') \<and> rejected r = Some True
              \<and> amountSold r = Some a \<and> int n \<le> a \<and> a < int (offered sellItem w)))
     \<and> (goodBatches n (stalledNext sellItem (tickOf (getState w))) sellItem (tickOf (getState w)) w \<longrightarrow>
          (\<exists>w' a. sellToShop target All w = Some (sellAllDone sellItem a, w')
              \<and> int n \<le> a \<and> a < int (offered sellItem w)))"
proof (intro conjI impI)
  let ?tick = "tickOf (getState w)"
  note loop = sellToShop_all [OF st isopen resolved]
  {
    assume "sellToShop target All w = Some (r, w')"
    with loop have "sellAllLoop sellItem ?tick 0 w = Some (r, w')" by simp
    from sellAllLoop_capped [OF this]
    show "\<exists>cmds. sent w' = sent w @ cmds \<and> list_all capped cmds" by simp
  }
  {
    assume a: "goodBatches n (soldOut sellItem) sellItem ?tick w \<and> 0 < offered sellItem w"
    then have g: "goodBatches n (soldOut sellItem) sellItem ?tick w" and pos: "0 < offered sellItem w"
      by simp_all
    from batches_run [OF g] obtain w2 cmds
      where e: "soldOut sellItem w2" and s: "sent w2 = sent w @ cmds" and l: "length cmds = n"
        and run: "sellAllLoop sellItem ?tick 0 w =
                  sellAllLoop sellItem ?tick (0 + (int (offered sellItem w) - int (offered sellItem w2))) w2"
      by blast
    from e have z: "offered sellItem w2 = 0" by (simp add: soldOut_def)
    from run z soldOut_ends [OF e, of ?tick "int (offered sellItem w)"]
    have "sellAllLoop sellItem ?tick 0 w = Some (sellAllDone sellItem (int (offered sellItem w)), w2)"
      by simp
    with loop sellAllDone_sold [of "int (offered sellItem w)" sellItem] pos s l
    show "\<exists>r w' cmds. sellToShop target All w = Some (r, w') \<and> success r
              \<and> amountSold r = Some (int (offered sellItem w)) \<and> rejected r = None
              \<and> sent w' = sent w @ cmds \<and> length cmds = n"
      by simp
  }
  {
    assume g: "goodBatches n (rejectedNext sellItem ?tick) sellItem ?tick w"
    from batches_run [OF g] obtain w2
      where e: "rejectedNext sellItem ?tick w2" and le: "offered sellItem w2 + n \<le> offered sellItem w"
        and run: "sellAllLoop sellItem ?tick 0 w =
                  sellAllLoop sellItem ?tick (0 + (int (offered sellItem w) - int (offered sellItem w2))) w2"
      by blast
    let ?a = "int (offered sellItem w) - int (offered sellItem w2)"
    from rejectedNext_ends [OF e, of ?a] obtain r w3
      where "sellAllLoop sellItem ?tick ?a w2 = Some (r, w3)" and "rejected r = Some True"
        and "amountSold r = Some ?a" and "0 < offered sellItem w2"
      by blast
    with run loop le
    show "\<exists>r w' a. sellToShop target All w = Some (r, w') \<and> rejected r = Some True
              \<and> amountSold r = Some a \<and> int n \<le> a \<and> a < int (offered sellItem w)"
      by (intro exI [of _ r] exI [of _ w3] exI [of _ ?a]) simp
  }
  {
    assume g: "goodBatches n (stalledNext sellItem ?tick) sellItem ?tick w"
    from batches_run [OF g] obtain w2
      where e: "stalledNext sellItem ?tick w2" and le: "offered sellItem w2 + n \<le> offered sellItem w"
        and run: "sellAllLoop sellItem ?tick 0 w =
                  sellAllLoop sellItem ?tick (0 + (int (offered sellItem w) - int (offered sellItem w2))) w2"
      by blast
    let ?a = "int (offered sellItem w) - int (offered sellItem w2)"
    from stalledNext_ends [OF e, of ?a] obtain w3
      where "sellAllLoop sellItem ?tick ?a w2 = Some (sellAllDone sellItem ?a, w3)"
        and "0 < offered sellItem w2"
      by blast
    with run loop le
    show "\<exists>w' a. sellToShop target All w = Some (sellAllDone sellItem a, w')
              \<and> int n \<le> a \<and> a < int (offered sellItem w)"
      by (intro exI [of _ w3] exI [of _ ?a]) simp
  }
qed

lemma batchWait_next:
  assumes "getState w = Some state" and "shop_isOpen (shop state)"
    and "find (\<lambda>i. si_id i = si_id sellItem) (playerItems (shop state)) = Some cur"
    and "si_count cur \<noteq> 0"
    and "ack_success (reply w (clock w) (ShopSell (si_slot cur) (min 10 (int (si_count cur)))))"
    and "\<not> sellCond (si_id sellItem) startTick
            (getTotalCount (si_id sellItem) (playerItems (shop state))) state"
    and "feed w (clock w + 1) = Some s"
    and "sellCond (si_id sellItem) startTick
            (getTotalCount (si_id sellItem) (playerItems (shop state))) s"
  shows "batchWait sellItem startTick w =
         Some (Inr s, w\<lparr>sent := sent w @ [ShopSell (si_slot cur) (min 10 (int (si_count cur)))],
                        clock := clock w + 1\<rparr>)"
proof -
  let ?w1 = "w\<lparr>sent := sent w @ [ShopSell (si_slot cur) (min 10 (int (si_count cur)))]\<rparr>"
  let ?p = "sellCond (si_id sellItem) startTick (getTotalCount (si_id sellItem) (playerItems (shop state)))"
  from assms(1,6) have q: "quiet ?p ?w1 1"
    by (simp add: quiet_def holdsAt_def getState_def)
  from assms(7) have f: "feed ?w1 (clock ?w1 + 1) = Some s" by simp
  from waitForCondition_first [OF q _ f assms(8), of 3000]
  have "waitForCondition ?p 3000 ?w1 = (Inr s, ?w1\<lparr>clock := clock ?w1 + 1\<rparr>)" by simp
  with assms(1-5) show ?thesis
    by (simp add: batchWait_def send_def)
qed

lemma batchWait_stall:
  assumes "getState w = Some state" and "shop_isOpen (shop state)"
    and "find (\<lambda>i. si_id i = si_id sellItem) (playerItems (shop state)) = Some cur"
    and "si_count cur \<noteq> 0"
    and "ack_success (reply w (clock w) (ShopSell (si_slot cur) (min 10 (int (si_count cur)))))"
    and "quiet (sellCond (si_id sellItem) startTick
            (getTotalCount (si_id sellItem) (playerItems (shop state)))) w 3000"
  shows "batchWait sellItem startTick w =
         Some (Inl ConditionTimeout,
               w\<lparr>sent := sent w @ [ShopSell (si_slot cur) (min 10 (int (si_count cur)))],
                 clock := clock w + 3000\<rparr>)"
proof -
  let ?w1 = "w\<lparr>sent := sent w @ [ShopSell (si_slot cur) (min 10 (int (si_count cur)))]\<rparr>"
  let ?p = "sellCond (si_id sellItem) startTick (getTotalCount (si_id sellItem) (playerItems (shop state)))"
  from assms(6) have "quiet ?p ?w1 3000" by simp
  from waitForCondition_timeout [OF this] assms(1-5) show ?thesis
    by (simp add: batchWait_def send_def)
qed

lemmas shop_defs = script_def getState_def shopWith_def offer_def hides_def blank_def
  getTotalCount_def sellCond_def anyMessage_def offered_def tickOf_def

text \<open>Stacks of 12 and 5 cowhides: three batches of 10, 2 and 5 sell all 17; a refusal
  after the first batch, and a shop that stops reacting after it, both report a sale of
  fewer than 17.\<close>

theorem sellToShop_all_in_batches_witness:
  "(\<exists>r w'. sellToShop (Pattern (re_has ''cowhide'')) All clearance = Some (r, w') \<and> success r
       \<and> amountSold r = Some 17 \<and> rejected r = None \<and> length (sent w') = 3)
   \<and> (\<exists>r w' a. sellToShop (Pattern (re_has ''cowhide'')) All refusal = Some (r, w')
         \<and> rejected r = Some True \<and> amountSold r = Some a \<and> 1 \<le> a \<and> a < 17)
   \<and> (\<exists>w' a. sellToShop (Pattern (re_has ''cowhide'')) All standstill =
                 Some (sellAllDone (offer 0 1739 ''Cowhide'' 12) a, w') \<and> 1 \<le> a \<and> a < 17)"
proof (intro conjI)
  let ?item = "offer 0 1739 ''Cowhide'' 12"
  let ?T = "Pattern (re_has ''cowhide'') :: shop_item target"
  have nr: "noRejection ?item 0 (shopWith items blank)" for items
    by (simp add: noRejection_def shopWith_def blank_def)
  have res: "resolveShopItem ?T (playerItems (shop (shopWith (hides 12 5) blank))) = Some ?item"
    by (simp add: resolveShopItem_def shopWith_def hides_def offer_def re_has_def toLowerCase_def
        lowerChar_def)
  have isopen: "shop_isOpen (shop (shopWith (hides 12 5) blank))" by (simp add: shopWith_def)
  {
    let ?w1 = "clearance\<lparr>sent := [ShopSell 0 10], clock := 1\<rparr>"
    let ?w2 = "clearance\<lparr>sent := [ShopSell 0 10, ShopSell 0 2], clock := 2\<rparr>"
    let ?w3 = "clearance\<lparr>sent := [ShopSell 0 10, ShopSell 0 2, ShopSell 1 5], clock := 3\<rparr>"
    have c1: "batchWait ?item 0 clearance = Some (Inr (shopWith (hides 2 5) blank), ?w1)"
      using batchWait_next [of clearance "shopWith (hides 12 5) blank" ?item ?item 0
          "shopWith (hides 2 5) blank"]
      by (simp add: clearance_def shop_defs)
    have c2: "batchWait ?item 0 ?w1 = Some (Inr (shopWith (hides 0 5) blank), ?w2)"
      using batchWait_next [of ?w1 "shopWith (hides 2 5) blank" ?item "offer 0 1739 ''Cowhide'' 2" 0
          "shopWith (hides 0 5) blank"]
      by (simp add: clearance_def shop_defs)
    have c3: "batchWait ?item 0 ?w2 = Some (Inr (shopWith (hides 0 0) blank), ?w3)"
      using batchWait_next [of ?w2 "shopWith (hides 0 5) blank" ?item "offer 1 1739 ''Cowhide'' 5" 0
          "shopWith (hides 0 0) blank"]
      by (simp add: clearance_def shop_defs)
    have c4: "soldOut ?item ?w3"
      by (simp add: soldOut_def clearance_def shop_defs)
    have g: "goodBatches 3 (soldOut ?item) ?item 0 clearance"
      unfolding numeral_3_eq_3
      by (simp only: goodBatches.simps c1 c2 c3 c4 nr option.case sum.case prod.case simp_thms)
    have st: "getState clearance = Some (shopWith (hides 12 5) blank)"
      by (simp add: clearance_def script_def getState_def)
    have t: "tickOf (getState clearance) = 0" by (simp add: st tickOf_def shopWith_def blank_def)
    have n: "offered ?item clearance = 17" by (simp add: clearance_def shop_defs)
    have s0: "sent clearance = []" by (simp add: clearance_def script_def)
    from sellToShop_all_in_batches [OF st isopen res, where n = 3, THEN conjunct2, THEN conjunct1,
        unfolded t n] g s0
    show "\<exists>r w'. sellToShop ?T All clearance = Some (r, w') \<and> success r
       \<and> amountSold r = Some 17 \<and> rejected r = None \<and> length (sent w') = 3"
      by simp
  }
  {
    let ?w1 = "refusal\<lparr>sent := [ShopSell 0 10], clock := 1\<rparr>"
    let ?w2 = "refusal\<lparr>sent := [ShopSell 0 10, ShopSell 0 2], clock := 2\<rparr>"
    let ?no = "blank\<lparr>gameMessages := [chat ''You can't sell this item to this shop.'' 9]\<rparr>"
    have c1: "batchWait ?item 0 refusal = Some (Inr (shopWith (hides 2 5) blank), ?w1)"
      using batchWait_next [of refusal "shopWith (hides 12 5) blank" ?item ?item 0
          "shopWith (hides 2 5) blank"]
      by (simp add: refusal_def shop_defs)
    have said: "cantSellText (toLowerCase ''You can't sell this item to this shop.'')"
      by (simp add: cantSellText_def toLowerCase_def lowerChar_def)
    have c2: "batchWait ?item 0 ?w1 = Some (Inr (shopWith (hides 2 5) ?no), ?w2)"
      using batchWait_next [of ?w1 "shopWith (hides 2 5) blank" ?item "offer 0 1739 ''Cowhide'' 2" 0
          "shopWith (hides 2 5) ?no"] said
      by (simp add: refusal_def shop_defs chat_def)
    have "anyMessage cantSellText 0 (gameMessages (shopWith (hides 2 5) ?no))"
      using said by (simp add: anyMessage_def shopWith_def chat_def)
    with noRejection_quiet [of ?item 0 0 "gameMessages (shopWith (hides 2 5) ?no)"]
    have "\<not> noRejection ?item 0 (shopWith (hides 2 5) ?no)"
      unfolding noRejection_def by blast
    with c2 have c3: "rejectedNext ?item 0 ?w1"
      by (simp only: rejectedNext_def option.case sum.case prod.case simp_thms)
    have g: "goodBatches 1 (rejectedNext ?item 0) ?item 0 refusal"
      unfolding One_nat_def
      by (simp only: goodBatches.simps c1 c3 nr option.case sum.case prod.case simp_thms)
    have st: "getState refusal = Some (shopWith (hides 12 5) blank)"
      by (simp add: refusal_def script_def getState_def)
    have t: "tickOf (getState refusal) = 0" by (simp add: st tickOf_def shopWith_def blank_def)
    have n: "offered ?item refusal = 17" by (simp add: refusal_def shop_defs)
    from sellToShop_all_in_batches [OF st isopen res, where n = 1, THEN conjunct2, THEN conjunct2, THEN conjunct1,
        unfolded t n] g
    show "\<exists>r w' a. sellToShop ?T All refusal = Some (r, w')
         \<and> rejected r = Some True \<and> amountSold r = Some a \<and> 1 \<le> a \<and> a < 17"
      by simp
  }
  {
    let ?w1 = "standstill\<lparr>sent := [ShopSell 0 10], clock := 1\<rparr>"
    have c1: "batchWait ?item 0 standstill = Some (Inr (shopWith (hides 2 5) blank), ?w1)"
      using batchWait_next [of standstill "shopWith (hides 12 5) blank" ?item ?item 0
          "shopWith (hides 2 5) blank"]
      by (simp add: standstill_def shop_defs)
    have q: "quiet (sellCond 1739 0 7) ?w1 3000"
      by (simp add: quiet_def holdsAt_def standstill_def shop_defs)
    have c2: "batchWait ?item 0 ?w1 =
              Some (Inl ConditionTimeout,
                    standstill\<lparr>sent := [ShopSell 0 10, ShopSell 0 2], clock := 3001\<rparr>)"
      using batchWait_stall [of ?w1 "shopWith (hides 2 5) blank" ?item "offer 0 1739 ''Cowhide'' 2" 0] q
      by (simp add: standstill_def shop_defs)
    then have c3: "stalledNext ?item 0 ?w1"
      by (simp only: stalledNext_def option.case sum.case prod.case simp_thms)
    have g: "goodBatches 1 (stalledNext ?item 0) ?item 0 standstill"
      unfolding One_nat_def
      by (simp only: goodBatches.simps c1 c3 nr option.case sum.case prod.case simp_thms)
    have st: "getState standstill = Some (shopWith (hides 12 5) blank)"
      by (simp add: standstill_def script_def getState_def)
    have t: "tickOf (getState standstill) = 0" by (simp add: st tickOf_def shopWith_def blank_def)
    have n: "offered ?item standstill = 17" by (simp add: standstill_def shop_defs)
    from sellToShop_all_in_batches [OF st isopen res, where n = 1, THEN conjunct2, THEN conjunct2, THEN conjunct2,
        unfolded t n] g
    show "\<exists>w' a. sellToShop ?T All standstill =
                 Some (sellAllDone ?item a, w') \<and> 1 \<le> a \<and> a < 17"
      by simp
  }
qed

section \<open>What a timed-out wait returns, action by action\<close>

lemma openDoor_far_times_out:
  assumes "resolveLocation target doorPattern w = Some d"
    and "findOption (re_is ''open'') (loc_optionsWithIndex d) = Some openOpt"
    and "2 < loc_distance d"
    and "walkTo (loc_x d) (loc_z d) 3 w = (walkResult, w1)" and "success walkResult"
    and "doorAt (loc_x d) (loc_z d) (getNearbyLocs w1) = Some refreshedDoor"
    and "findOption (re_is ''open'') (loc_optionsWithIndex refreshedDoor) = Some refreshedOpenOpt"
    and "quiet (doorCond (loc_x d) (loc_z d) (tickOf (getState w1))) w1 5000"
  shows "fst (openDoor target w) =
           \<lparr>success = False, message = [Lit ''Timeout waiting for '', Str (loc_name d), Lit '' to open''],
            reason = Some ''timeout'', door = Some d\<rparr>"
  using assms by (simp add: openDoor_def send_def Let_def doorOutcome_times_out)

lemma closeBank_times_out:
  assumes "interfaceOpen (getState w)" and "quiet (\<lambda>s. \<not> interfaceOpen (Some s)) w timeout"
  shows "snd (closeBank timeout w) =
           w\<lparr>sent := sent w @ [CloseModal, CloseModal],
             clock := clock w + timeout + 500 + late w (clock w + timeout)\<rparr>"
    and "reason (fst (closeBank timeout w)) = None"
    and "success (fst (closeBank timeout w)) = (\<not> interfaceOpen (getState (snd (closeBank timeout w))))"
  using assms
  by (simp_all add: closeBank_def send_def sleep_def Let_def waitForCondition_timeout)

lemma closeShop_times_out:
  assumes "shopOpen (getState w) \<or> interfaceOpen (getState w)"
    and "quiet (\<lambda>s. \<not> shop_isOpen (shop s) \<and> \<not> interfaceOpen (Some s)) w timeout"
  shows "snd (closeShop timeout w) =
           w\<lparr>sent := sent w @ [CloseShop, CloseShop],
             clock := clock w + timeout + 500 + late w (clock w + timeout)\<rparr>"
    and "reason (fst (closeShop timeout w)) = None"
    and "success (fst (closeShop timeout w)) =
           (\<not> shopOpen (getState (snd (closeShop timeout w)))
            \<and> \<not> interfaceOpen (getState (snd (closeShop timeout w))))"
  using assms
  by (auto simp: closeShop_def send_def sleep_def Let_def waitForCondition_timeout)

lemma openBankLoop_times_out:
  assumes "startTime \<le> clock w" and "clock w \<le> startTime + timeout"
    and "\<forall>t. clock w \<le> t \<and> t \<le> startTime + timeout \<longrightarrow>
           \<not> holdsAt (\<lambda>s. interfaceOpen (Some s) \<or> dialogOpen (Some s)) (feed w) t"
  shows "fst (openBankLoop startTime timeout w) =
           \<lparr>success = False, message = [Lit ''Timeout waiting for bank interface to open''],
            reason = Some ''timeout''\<rparr>"
  using assms
proof (induction "startTime + timeout - clock w" arbitrary: w rule: less_induct)
  case less
  let ?P = "\<lambda>s. interfaceOpen (Some s) \<or> dialogOpen (Some s)"
  show ?case
  proof (cases "clock w - startTime < timeout")
    case True
    let ?m = "min 2000 (timeout - (clock w - startTime))"
    let ?w1 = "w\<lparr>clock := clock w + ?m\<rparr>"
    from True have m: "0 < ?m" "clock w + ?m \<le> startTime + timeout" using less.prems(1) by auto
    have q: "quiet ?P w ?m"
      unfolding quiet_def
    proof (intro allI impI)
      fix u assume "u < ?m"
      with m have "clock w \<le> clock w + u \<and> clock w + u \<le> startTime + timeout" by arith
      with less.prems(3) show "\<not> holdsAt ?P (feed w) (clock w + u)" by blast
    qed
    have step: "openBankLoop startTime timeout w = openBankLoop startTime timeout ?w1"
      using True waitForCondition_timeout [OF q]
      by (subst openBankLoop.simps) simp
    have "fst (openBankLoop startTime timeout ?w1) =
           \<lparr>success = False, message = [Lit ''Timeout waiting for bank interface to open''],
            reason = Some ''timeout''\<rparr>"
    proof (rule less.hyps)
      show "startTime + timeout - clock ?w1 < startTime + timeout - clock w"
        using m less.prems(2) True by simp
      show "startTime \<le> clock ?w1" using less.prems(1) by simp
      show "clock ?w1 \<le> startTime + timeout" using m by simp
      show "\<forall>t. clock ?w1 \<le> t \<and> t \<le> startTime + timeout \<longrightarrow>
              \<not> holdsAt ?P (feed ?w1) t"
        using less.prems(3) by simp
    qed
    with step show ?thesis by simp
  next
    case False
    from less.prems(2,3) have "\<not> holdsAt ?P (feed w) (clock w)" by simp
    then have "\<not> interfaceOpen (getState w)"
      by (auto simp: holdsAt_def getState_def interfaceOpen_def split: option.splits)
    with False show ?thesis by (subst openBankLoop.simps) (simp add: Let_def)
  qed
qed

lemma openBankLoop_quiet:
  assumes "quiet (\<lambda>s. interfaceOpen (Some s) \<or> dialogOpen (Some s)) w (timeout + 1)"
  shows "fst (openBankLoop (clock w) timeout (w\<lparr>sent := cs\<rparr>)) =
           \<lparr>success = False, message = [Lit ''Timeout waiting for bank interface to open''],
            reason = Some ''timeout''\<rparr>"
proof (rule openBankLoop_times_out)
  show "clock w \<le> clock (w\<lparr>sent := cs\<rparr>)" by simp
  show "clock (w\<lparr>sent := cs\<rparr>) \<le> clock w + timeout" by simp
  show "\<forall>t. clock (w\<lparr>sent := cs\<rparr>) \<le> t \<and> t \<le> clock w + timeout \<longrightarrow>
          \<not> holdsAt (\<lambda>s. interfaceOpen (Some s) \<or> dialogOpen (Some s)) (feed (w\<lparr>sent := cs\<rparr>)) t"
  proof (intro allI impI)
    fix t assume t: "clock (w\<lparr>sent := cs\<rparr>) \<le> t \<and> t \<le> clock w + timeout"
    then have "t - clock w < timeout + 1" by (simp del: One_nat_def) arith
    with assms have "\<not> holdsAt (\<lambda>s. interfaceOpen (Some s) \<or> dialogOpen (Some s)) (feed w)
                        (clock w + (t - clock w))"
      unfolding quiet_def by blast
    with t show "\<not> holdsAt (\<lambda>s. interfaceOpen (Some s) \<or> dialogOpen (Some s)) (feed (w\<lparr>sent := cs\<rparr>)) t"
      by simp
  qed
qed

lemma openBank_banker_times_out:
  assumes "\<not> interfaceOpen (getState w0)"
    and "findNearbyNpc (re_has ''banker'') (dismissBlockingUI w0) = Some banker"
    and "findOption (re_is ''bank'') (npc_optionsWithIndex banker) = Some bankOpt"
    and "quiet (\<lambda>s. interfaceOpen (Some s) \<or> dialogOpen (Some s)) (dismissBlockingUI w0) (timeout + 1)"
  shows "fst (openBank timeout w0) =
           \<lparr>success = False, message = [Lit ''Timeout waiting for bank interface to open''],
            reason = Some ''timeout''\<rparr>"
  using assms(1-3) openBankLoop_quiet [OF assms(4)]
  by (simp add: openBank_def Let_def send_def)

lemma openBank_booth_times_out:
  assumes "\<not> interfaceOpen (getState w0)"
    and "(case findNearbyNpc (re_has ''banker'') (dismissBlockingUI w0) of
            None \<Rightarrow> None
          | Some b \<Rightarrow> findOption (re_is ''bank'') (npc_optionsWithIndex b)) = None"
    and "findNearbyLoc (\<lambda>n. re_has ''bank booth'' n \<or> re_has ''bank chest'' n) (dismissBlockingUI w0)
           = Some booth"
    and "(case findOption (re_is ''bank'') (loc_optionsWithIndex booth) of
            Some o' \<Rightarrow> Some o'
          | None \<Rightarrow> findOption (re_has ''use'') (loc_optionsWithIndex booth)) = Some bankOpt"
    and "quiet (\<lambda>s. interfaceOpen (Some s) \<or> dialogOpen (Some s)) (dismissBlockingUI w0) (timeout + 1)"
  shows "fst (openBank timeout w0) =
           \<lparr>success = False, message = [Lit ''Timeout waiting for bank interface to open''],
            reason = Some ''timeout''\<rparr>"
  using assms(1-4) openBankLoop_quiet [OF assms(5)]
  by (auto simp: openBank_def Let_def send_def split: option.splits)

lemma sellToShop_all_times_out:
  assumes st: "getState w = Some st" and isopen: "shop_isOpen (shop st)"
    and resolved: "resolveShopItem target (playerItems (shop st)) = Some sellItem"
    and run: "goodBatches n (stalledNext sellItem (tickOf (getState w))) sellItem (tickOf (getState w)) w"
  shows "\<exists>r w'. sellToShop target All w = Some (r, w') \<and> reason r = None \<and> success r = (0 < n)"
proof -
  let ?tick = "tickOf (getState w)"
  note loop = sellToShop_all [OF st isopen resolved]
  from batches_run [OF run] obtain w2
    where e: "stalledNext sellItem ?tick w2" and le: "offered sellItem w2 + n \<le> offered sellItem w"
      and eq: "sellAllLoop sellItem ?tick 0 w =
                sellAllLoop sellItem ?tick (0 + (int (offered sellItem w) - int (offered sellItem w2))) w2"
    by blast
  let ?a = "int (offered sellItem w) - int (offered sellItem w2)"
  from stalledNext_ends [OF e, of ?a] obtain w3
    where r: "sellAllLoop sellItem ?tick ?a w2 = Some (sellAllDone sellItem ?a, w3)" by blast
  show ?thesis
  proof (cases n)
    case 0
    with run have "stalledNext sellItem ?tick w" by simp
    from stalledNext_ends [OF this, of 0] obtain w4
      where "sellAllLoop sellItem ?tick 0 w = Some (sellAllDone sellItem 0, w4)" by blast
    with loop 0 show ?thesis by (simp add: sellAllDone_def)
  next
    case (Suc k)
    with le have "0 < ?a" by simp
    with r eq loop Suc show ?thesis by (simp add: sellAllDone_def)
  qed
qed

text \<open>
  C1, as the code has it. No verified action throws when its wait times out: every wait
  stands in a try block, and each action returns a result value. What the result says
  differs by action. Given that the action reaches its wait (target resolved, option
  present, command accepted) and no snapshot within the wait satisfies its condition:
  \<^verbatim>\<open>attackNpc\<close>, \<^verbatim>\<open>pickupItem\<close>, \<^verbatim>\<open>openDoor\<close> (door within reach, or reached by a walk
  first), \<^verbatim>\<open>depositItem\<close> and \<^verbatim>\<open>withdrawItem\<close> fail with reason \<open>timeout\<close>, and so does
  \<^verbatim>\<open>openBank\<close> (through the banker or through a booth) when neither the bank interface nor
  a dialog shows up until its overall timeout has run out; \<^verbatim>\<open>chopTree\<close>, \<^verbatim>\<open>burnLogs\<close>,
  \<^verbatim>\<open>talkTo\<close>, \<^verbatim>\<open>equipItem\<close>, \<^verbatim>\<open>unequipItem\<close>, \<^verbatim>\<open>eatFood\<close>, \<^verbatim>\<open>openShop\<close>, \<^verbatim>\<open>buyFromShop\<close>
  and \<^verbatim>\<open>sellToShop\<close> (numeric amount) fail with no reason; \<^verbatim>\<open>castSpellOnNpc\<close> reports
  success (a splash). \<^verbatim>\<open>closeBank\<close> and \<^verbatim>\<open>closeShop\<close> send their close command a second
  time, let 500 ms pass and report success exactly when the snapshot then shows the
  interface (and the shop) closed, without a reason either way. \<^verbatim>\<open>sellToShop\<close> with
  \<open>'all'\<close> leaves its loop on the batch whose wait times out and reports success exactly
  when a batch before it had sold something, without a reason either way.
\<close>

theorem timeout_results:
  "(resolveNpc target w = Some npc
      \<and> findOption (re_has ''attack'') (npc_optionsWithIndex npc) = Some attackOpt
      \<and> ack_success (reply w (clock w) (InteractNpc (npc_index npc) (opIndex attackOpt)))
      \<and> quiet (attackCond npc (tickOf (getState w))) w timeout
    \<longrightarrow> \<not> success (fst (attackNpc target timeout w))
        \<and> reason (fst (attackNpc target timeout w)) = Some ''timeout'')
   \<and> (resolveGroundItem gtarget w = Some g
      \<and> ack_success (reply w (clock w) (Pickup (gi_x g) (gi_z g) (gi_id g)))
      \<and> quiet (pickupCond (tickOf (getState w)) (length (getInventory w))) w 10000
    \<longrightarrow> \<not> success (fst (pickupItem gtarget w))
        \<and> reason (fst (pickupItem gtarget w)) = Some ''timeout'')
   \<and> (resolveLocation ltarget doorPattern w = Some d
      \<and> findOption (re_is ''open'') (loc_optionsWithIndex d) = Some openOpt
      \<and> loc_distance d \<le> 2
      \<and> quiet (doorCond (loc_x d) (loc_z d) (tickOf (getState w))) w 5000
    \<longrightarrow> \<not> success (fst (openDoor ltarget w))
        \<and> reason (fst (openDoor ltarget w)) = Some ''timeout'')
   \<and> (getState w = Some s0 \<and> interfaceOpen (Some s0)
      \<and> resolveInventoryItem (Some itarget) re_any w = Some it
      \<and> quiet (depositCond it (countOf (inv_id it) (inventory s0))) w 5000
    \<longrightarrow> \<not> success (fst (depositItem itarget amount w))
        \<and> reason (fst (depositItem itarget amount w)) = Some ''timeout'')
   \<and> (getState w = Some s0 \<and> interfaceOpen (Some s0) \<and> quiet (withdrawCond s0) w 5000
    \<longrightarrow> \<not> success (fst (withdrawItem bankSlot amount w))
        \<and> reason (fst (withdrawItem bankSlot amount w)) = Some ''timeout'')
   \<and> (resolveLocation ltarget (re_is ''tree'') (dismissBlockingUI w) = Some tree
      \<and> ack_success (reply (dismissBlockingUI w) (clock (dismissBlockingUI w))
           (InteractLoc (loc_x tree) (loc_z tree) (loc_id tree) 1))
      \<and> quiet (chopCond tree (length (getInventory (dismissBlockingUI w)))) (dismissBlockingUI w) 30000
    \<longrightarrow> \<not> success (fst (chopTree ltarget w)) \<and> reason (fst (chopTree ltarget w)) = None)
   \<and> (findInventoryItem (re_has ''tinderbox'') (dismissBlockingUI w) = Some tinderbox
      \<and> resolveInventoryItem logsTarget (re_has ''logs'') (dismissBlockingUI w) = Some lg
      \<and> ack_success (reply (dismissBlockingUI w) (clock (dismissBlockingUI w))
           (UseItemOnItem (inv_slot tinderbox) (inv_slot lg)))
      \<and> quiet (burnDone (case getSkill ''Firemaking'' (dismissBlockingUI w) of
                            None \<Rightarrow> 0 | Some k \<Rightarrow> sk_experience k)
                  (tickOf (getState (dismissBlockingUI w)))) (dismissBlockingUI w) 30000
    \<longrightarrow> \<not> success (fst (burnLogs logsTarget w)) \<and> reason (fst (burnLogs logsTarget w)) = None)
   \<and> (resolveNpc target w = Some npc
      \<and> ack_success (reply w (clock w) (TalkToNpc (npc_index npc)))
      \<and> quiet (\<lambda>s. dlg_isOpen (dialog s)) w 10000
    \<longrightarrow> \<not> success (fst (talkTo target w)) \<and> reason (fst (talkTo target w)) = None)
   \<and> (resolveInventoryItem (Some itarget) re_any w = Some it
      \<and> findOption (\<lambda>t. re_has ''wield'' t \<or> re_has ''wear'' t \<or> re_has ''equip'' t)
           (inv_optionsWithIndex it) = Some equipOpt
      \<and> ack_success (reply w (clock w) (UseItem (inv_slot it) (opIndex equipOpt)))
      \<and> quiet (equipCond it) w 5000
    \<longrightarrow> \<not> success (fst (equipItem itarget w)) \<and> reason (fst (equipItem itarget w)) = None)
   \<and> ((case itarget of Handle h \<Rightarrow> Some h | Pattern p \<Rightarrow> findEquipmentItem p w) = Some it
      \<and> ack_success (reply w (clock w) (UseEquipmentItem (inv_slot it) 1))
      \<and> quiet (unequipCond it (length (getInventory w))) w 5000
    \<longrightarrow> \<not> success (fst (unequipItem compile itarget w)) \<and> reason (fst (unequipItem compile itarget w)) = None)
   \<and> (resolveInventoryItem (Some itarget) re_any w = Some it
      \<and> findOption (re_has ''eat'') (inv_optionsWithIndex it) = Some eatOpt
      \<and> ack_success (reply w (clock w) (UseItem (inv_slot it) (opIndex eatOpt)))
      \<and> quiet (eatCond it (skillLevel (getSkill ''Hitpoints'' w))
                  (length (filter (\<lambda>i. inv_id i = inv_id it) (getInventory w)))) w 5000
    \<longrightarrow> \<not> success (fst (eatFood itarget w)) \<and> reason (fst (eatFood itarget w)) = None)
   \<and> (resolveNpc target w = Some npc
      \<and> findOption (re_has ''trade'') (npc_optionsWithIndex npc) = Some tradeOpt
      \<and> ack_success (reply w (clock w) (InteractNpc (npc_index npc) (opIndex tradeOpt)))
      \<and> quiet (\<lambda>s. shop_isOpen (shop s)) w 10000
    \<longrightarrow> \<not> success (fst (openShop target w)) \<and> reason (fst (openShop target w)) = None)
   \<and> (getState w = Some s0 \<and> shop_isOpen (shop s0)
      \<and> resolveShopItem starget (shopItems (shop s0)) = Some shopItem
      \<and> ack_success (reply w (clock w) (ShopBuy (si_slot shopItem) amount))
      \<and> quiet (buyCond shopItem (case find (\<lambda>i. inv_id i = si_id shopItem) (getInventory w) of
                                     None \<Rightarrow> 0 | Some had \<Rightarrow> inv_count had)) w 5000
    \<longrightarrow> \<not> success (fst (buyFromShop starget amount w))
        \<and> reason (fst (buyFromShop starget amount w)) = None)
   \<and> (getState w = Some s0 \<and> shop_isOpen (shop s0)
      \<and> resolveShopItem starget (playerItems (shop s0)) = Some sellItem
      \<and> ack_success (reply w (clock w) (ShopSell (si_slot sellItem) (if n \<in> {1, 5, 10} then n else 1)))
      \<and> quiet (sellCond (si_id sellItem) (tick s0)
                  (getTotalCount (si_id sellItem) (playerItems (shop s0)))) w 5000
    \<longrightarrow> (\<exists>r w'. sellToShop starget (Amount n) w = Some (r, w') \<and> \<not> success r \<and> reason r = None))
   \<and> (resolveNpc target w = Some npc \<and> getState w = Some s0
      \<and> ack_success (reply w (clock w) (SpellOnNpc (npc_index npc) spellComponent))
      \<and> quiet (castCond (tick s0) (magicXp s0)) w timeout
    \<longrightarrow> success (fst (castSpellOnNpc target spellComponent timeout w))
        \<and> reason (fst (castSpellOnNpc target spellComponent timeout w)) = None)
   \<and> (resolveLocation ltarget doorPattern w = Some d
      \<and> findOption (re_is ''open'') (loc_optionsWithIndex d) = Some openOpt
      \<and> 2 < loc_distance d
      \<and> walkTo (loc_x d) (loc_z d) 3 w = (walkResult, w1) \<and> success walkResult
      \<and> doorAt (loc_x d) (loc_z d) (getNearbyLocs w1) = Some refreshedDoor
      \<and> findOption (re_is ''open'') (loc_optionsWithIndex refreshedDoor) = Some refreshedOpenOpt
      \<and> quiet (doorCond (loc_x d) (loc_z d) (tickOf (getState w1))) w1 5000
    \<longrightarrow> \<not> success (fst (openDoor ltarget w))
        \<and> reason (fst (openDoor ltarget w)) = Some ''timeout'')
   \<and> (\<not> interfaceOpen (getState w)
      \<and> findNearbyNpc (re_has ''banker'') (dismissBlockingUI w) = Some banker
      \<and> findOption (re_is ''bank'') (npc_optionsWithIndex banker) = Some bankOpt
      \<and> quiet (\<lambda>s. interfaceOpen (Some s) \<or> dialogOpen (Some s)) (dismissBlockingUI w) (timeout + 1)
    \<longrightarrow> \<not> success (fst (openBank timeout w))
        \<and> reason (fst (openBank timeout w)) = Some ''timeout'')
   \<and> (\<not> interfaceOpen (getState w)
      \<and> (case findNearbyNpc (re_has ''banker'') (dismissBlockingUI w) of
            None \<Rightarrow> None
          | Some b \<Rightarrow> findOption (re_is ''bank'') (npc_optionsWithIndex b)) = None
      \<and> findNearbyLoc (\<lambda>n. re_has ''bank booth'' n \<or> re_has ''bank chest'' n) (dismissBlockingUI w)
            = Some booth
      \<and> (case findOption (re_is ''bank'') (loc_optionsWithIndex booth) of
            Some o' \<Rightarrow> Some o'
          | None \<Rightarrow> findOption (re_has ''use'') (loc_optionsWithIndex booth)) = Some bankOpt
      \<and> quiet (\<lambda>s. interfaceOpen (Some s) \<or> dialogOpen (Some s)) (dismissBlockingUI w) (timeout + 1)
    \<longrightarrow> \<not> success (fst (openBank timeout w))
        \<and> reason (fst (openBank timeout w)) = Some ''timeout'')
   \<and> (interfaceOpen (getState w) \<and> quiet (\<lambda>s. \<not> interfaceOpen (Some s)) w timeout
    \<longrightarrow> snd (closeBank timeout w) =
          w\<lparr>sent := sent w @ [CloseModal, CloseModal],
            clock := clock w + timeout + 500 + late w (clock w + timeout)\<rparr>
        \<and> reason (fst (closeBank timeout w)) = None
        \<and> success (fst (closeBank timeout w)) =
            (\<not> interfaceOpen (getState (snd (closeBank timeout w)))))
   \<and> ((shopOpen (getState w) \<or> interfaceOpen (getState w))
      \<and> quiet (\<lambda>s. \<not> shop_isOpen (shop s) \<and> \<not> interfaceOpen (Some s)) w timeout
    \<longrightarrow> snd (closeShop timeout w) =
          w\<lparr>sent := sent w @ [CloseShop, CloseShop],
            clock := clock w + timeout + 500 + late w (clock w + timeout)\<rparr>
        \<and> reason (fst (closeShop timeout w)) = None
        \<and> success (fst (closeShop timeout w)) =
            (\<not> shopOpen (getState (snd (closeShop timeout w)))
             \<and> \<not> interfaceOpen (getState (snd (closeShop timeout w)))))
   \<and> (getState w = Some s0 \<and> shop_isOpen (shop s0)
      \<and> resolveShopItem starget (playerItems (shop s0)) = Some sellItem
      \<and> goodBatches k (stalledNext sellItem (tickOf (getState w))) sellItem (tickOf (getState w)) w
    \<longrightarrow> (\<exists>r w'. sellToShop starget All w = Some (r, w') \<and> reason r = None
           \<and> success r = (0 < k)))"
proof (intro conjI impI; (elim conjE)?)
  assume "resolveNpc target w = Some npc"
    "findOption (re_has ''attack'') (npc_optionsWithIndex npc) = Some attackOpt"
    "ack_success (reply w (clock w) (InteractNpc (npc_index npc) (opIndex attackOpt)))"
    "quiet (attackCond npc (tickOf (getState w))) w timeout"
  from attackNpc_times_out [OF this]
  show "\<not> success (fst (attackNpc target timeout w))"
    and "reason (fst (attackNpc target timeout w)) = Some ''timeout''" by simp_all
next
  assume "resolveGroundItem gtarget w = Some g"
    "ack_success (reply w (clock w) (Pickup (gi_x g) (gi_z g) (gi_id g)))"
    "quiet (pickupCond (tickOf (getState w)) (length (getInventory w))) w 10000"
  from pickupItem_times_out [OF this]
  show "\<not> success (fst (pickupItem gtarget w))"
    and "reason (fst (pickupItem gtarget w)) = Some ''timeout''" by simp_all
next
  assume "resolveLocation ltarget doorPattern w = Some d"
    "findOption (re_is ''open'') (loc_optionsWithIndex d) = Some openOpt"
    "loc_distance d \<le> 2"
    "quiet (doorCond (loc_x d) (loc_z d) (tickOf (getState w))) w 5000"
  from openDoor_times_out [OF this]
  show "\<not> success (fst (openDoor ltarget w))"
    and "reason (fst (openDoor ltarget w)) = Some ''timeout''" by simp_all
next
  assume "getState w = Some s0" "interfaceOpen (Some s0)"
    "resolveInventoryItem (Some itarget) re_any w = Some it"
    "quiet (depositCond it (countOf (inv_id it) (inventory s0))) w 5000"
  from depositItem_times_out [OF this]
  show "\<not> success (fst (depositItem itarget amount w))"
    and "reason (fst (depositItem itarget amount w)) = Some ''timeout''" by simp_all
next
  assume "getState w = Some s0" "interfaceOpen (Some s0)" "quiet (withdrawCond s0) w 5000"
  from withdrawItem_times_out [OF this]
  show "\<not> success (fst (withdrawItem bankSlot amount w))"
    and "reason (fst (withdrawItem bankSlot amount w)) = Some ''timeout''" by simp_all
next
  assume "resolveLocation ltarget (re_is ''tree'') (dismissBlockingUI w) = Some tree"
    "ack_success (reply (dismissBlockingUI w) (clock (dismissBlockingUI w))
           (InteractLoc (loc_x tree) (loc_z tree) (loc_id tree) 1))"
    "quiet (chopCond tree (length (getInventory (dismissBlockingUI w)))) (dismissBlockingUI w) 30000"
  from chopTree_times_out [OF this]
  show "\<not> success (fst (chopTree ltarget w))" and "reason (fst (chopTree ltarget w)) = None"
    by simp_all
next
  assume "findInventoryItem (re_has ''tinderbox'') (dismissBlockingUI w) = Some tinderbox"
    "resolveInventoryItem logsTarget (re_has ''logs'') (dismissBlockingUI w) = Some lg"
    "ack_success (reply (dismissBlockingUI w) (clock (dismissBlockingUI w))
           (UseItemOnItem (inv_slot tinderbox) (inv_slot lg)))"
    "quiet (burnDone (case getSkill ''Firemaking'' (dismissBlockingUI w) of
                            None \<Rightarrow> 0 | Some k \<Rightarrow> sk_experience k)
                  (tickOf (getState (dismissBlockingUI w)))) (dismissBlockingUI w) 30000"
  from burnLogs_times_out [OF this]
  show "\<not> success (fst (burnLogs logsTarget w))" and "reason (fst (burnLogs logsTarget w)) = None"
    by simp_all
next
  assume "resolveNpc target w = Some npc"
    "ack_success (reply w (clock w) (TalkToNpc (npc_index npc)))"
    "quiet (\<lambda>s. dlg_isOpen (dialog s)) w 10000"
  from talkTo_times_out [OF this]
  show "\<not> success (fst (talkTo target w))" and "reason (fst (talkTo target w)) = None"
    by simp_all
next
  assume "resolveInventoryItem (Some itarget) re_any w = Some it"
    "findOption (\<lambda>t. re_has ''wield'' t \<or> re_has ''wear'' t \<or> re_has ''equip'' t)
           (inv_optionsWithIndex it) = Some equipOpt"
    "ack_success (reply w (clock w) (UseItem (inv_slot it) (opIndex equipOpt)))"
    "quiet (equipCond it) w 5000"
  from equipItem_times_out [OF this]
  show "\<not> success (fst (equipItem itarget w))" and "reason (fst (equipItem itarget w)) = None"
    by simp_all
next
  assume "(case itarget of Handle h \<Rightarrow> Some h | Pattern p \<Rightarrow> findEquipmentItem p w) = Some it"
    "ack_success (reply w (clock w) (UseEquipmentItem (inv_slot it) 1))"
    "quiet (unequipCond it (length (getInventory w))) w 5000"
  from unequipItem_times_out [OF this]
  show "\<not> success (fst (unequipItem compile itarget w))" and "reason (fst (unequipItem compile itarget w)) = None"
    by simp_all
next
  assume "resolveInventoryItem (Some itarget) re_any w = Some it"
    "findOption (re_has ''eat'') (inv_optionsWithIndex it) = Some eatOpt"
    "ack_success (reply w (clock w) (UseItem (inv_slot it) (opIndex eatOpt)))"
    "quiet (eatCond it (skillLevel (getSkill ''Hitpoints'' w))
                  (length (filter (\<lambda>i. inv_id i = inv_id it) (getInventory w)))) w 5000"
  from eatFood_times_out [OF this]
  show "\<not> success (fst (eatFood itarget w))" and "reason (fst (eatFood itarget w)) = None"
    by simp_all
next
  assume "resolveNpc target w = Some npc"
    "findOption (re_has ''trade'') (npc_optionsWithIndex npc) = Some tradeOpt"
    "ack_success (reply w (clock w) (InteractNpc (npc_index npc) (opIndex tradeOpt)))"
    "quiet (\<lambda>s. shop_isOpen (shop s)) w 10000"
  from openShop_times_out [OF this]
  show "\<not> success (fst (openShop target w))" and "reason (fst (openShop target w)) = None"
    by simp_all
next
  assume "getState w = Some s0" "shop_isOpen (shop s0)"
    "resolveShopItem starget (shopItems (shop s0)) = Some shopItem"
    "ack_success (reply w (clock w) (ShopBuy (si_slot shopItem) amount))"
    "quiet (buyCond shopItem (case find (\<lambda>i. inv_id i = si_id shopItem) (getInventory w) of
                                     None \<Rightarrow> 0 | Some had \<Rightarrow> inv_count had)) w 5000"
  from buyFromShop_times_out [OF this]
  show "\<not> success (fst (buyFromShop starget amount w))"
    and "reason (fst (buyFromShop starget amount w)) = None" by simp_all
next
  assume "getState w = Some s0" "shop_isOpen (shop s0)"
    "resolveShopItem starget (playerItems (shop s0)) = Some sellItem"
    "ack_success (reply w (clock w) (ShopSell (si_slot sellItem) (if n \<in> {1, 5, 10} then n else 1)))"
    "quiet (sellCond (si_id sellItem) (tick s0)
                  (getTotalCount (si_id sellItem) (playerItems (shop s0)))) w 5000"
  from sellToShop_times_out [OF this]
  show "\<exists>r w'. sellToShop starget (Amount n) w = Some (r, w') \<and> \<not> success r \<and> reason r = None"
    by (cases "sellToShop starget (Amount n) w") auto
next
  assume "resolveNpc target w = Some npc" "getState w = Some s0"
    "ack_success (reply w (clock w) (SpellOnNpc (npc_index npc) spellComponent))"
    "quiet (castCond (tick s0) (magicXp s0)) w timeout"
  from castSpellOnNpc_times_out [OF this]
  show "success (fst (castSpellOnNpc target spellComponent timeout w))"
    and "reason (fst (castSpellOnNpc target spellComponent timeout w)) = None" by simp_all
next
  assume "resolveLocation ltarget doorPattern w = Some d"
    "findOption (re_is ''open'') (loc_optionsWithIndex d) = Some openOpt"
    "2 < loc_distance d"
    "walkTo (loc_x d) (loc_z d) 3 w = (walkResult, w1)" "success walkResult"
    "doorAt (loc_x d) (loc_z d) (getNearbyLocs w1) = Some refreshedDoor"
    "findOption (re_is ''open'') (loc_optionsWithIndex refreshedDoor) = Some refreshedOpenOpt"
    "quiet (doorCond (loc_x d) (loc_z d) (tickOf (getState w1))) w1 5000"
  from openDoor_far_times_out [OF this]
  show "\<not> success (fst (openDoor ltarget w))"
    and "reason (fst (openDoor ltarget w)) = Some ''timeout''" by simp_all
next
  assume "\<not> interfaceOpen (getState w)"
    "findNearbyNpc (re_has ''banker'') (dismissBlockingUI w) = Some banker"
    "findOption (re_is ''bank'') (npc_optionsWithIndex banker) = Some bankOpt"
    "quiet (\<lambda>s. interfaceOpen (Some s) \<or> dialogOpen (Some s)) (dismissBlockingUI w) (timeout + 1)"
  from openBank_banker_times_out [OF this]
  show "\<not> success (fst (openBank timeout w))"
    and "reason (fst (openBank timeout w)) = Some ''timeout''" by simp_all
next
  assume "\<not> interfaceOpen (getState w)"
    "(case findNearbyNpc (re_has ''banker'') (dismissBlockingUI w) of
            None \<Rightarrow> None
          | Some b \<Rightarrow> findOption (re_is ''bank'') (npc_optionsWithIndex b)) = None"
    "findNearbyLoc (\<lambda>n. re_has ''bank booth'' n \<or> re_has ''bank chest'' n) (dismissBlockingUI w)
            = Some booth"
    "(case findOption (re_is ''bank'') (loc_optionsWithIndex booth) of
            Some o' \<Rightarrow> Some o'
          | None \<Rightarrow> findOption (re_has ''use'') (loc_optionsWithIndex booth)) = Some bankOpt"
    "quiet (\<lambda>s. interfaceOpen (Some s) \<or> dialogOpen (Some s)) (dismissBlockingUI w) (timeout + 1)"
  from openBank_booth_times_out [OF this]
  show "\<not> success (fst (openBank timeout w))"
    and "reason (fst (openBank timeout w)) = Some ''timeout''" by simp_all
next
  assume a: "interfaceOpen (getState w)" "quiet (\<lambda>s. \<not> interfaceOpen (Some s)) w timeout"
  show "snd (closeBank timeout w) =
          w\<lparr>sent := sent w @ [CloseModal, CloseModal],
            clock := clock w + timeout + 500 + late w (clock w + timeout)\<rparr>"
    by (rule closeBank_times_out(1) [OF a])
  show "reason (fst (closeBank timeout w)) = None"
    by (rule closeBank_times_out(2) [OF a])
  show "success (fst (closeBank timeout w)) =
            (\<not> interfaceOpen (getState (snd (closeBank timeout w))))"
    by (rule closeBank_times_out(3) [OF a])
next
  assume a: "shopOpen (getState w) \<or> interfaceOpen (getState w)"
    "quiet (\<lambda>s. \<not> shop_isOpen (shop s) \<and> \<not> interfaceOpen (Some s)) w timeout"
  show "snd (closeShop timeout w) =
          w\<lparr>sent := sent w @ [CloseShop, CloseShop],
            clock := clock w + timeout + 500 + late w (clock w + timeout)\<rparr>"
    by (rule closeShop_times_out(1) [OF a])
  show "reason (fst (closeShop timeout w)) = None"
    by (rule closeShop_times_out(2) [OF a])
  show "success (fst (closeShop timeout w)) =
            (\<not> shopOpen (getState (snd (closeShop timeout w)))
             \<and> \<not> interfaceOpen (getState (snd (closeShop timeout w))))"
    by (rule closeShop_times_out(3) [OF a])
next
  assume "getState w = Some s0" "shop_isOpen (shop s0)"
    "resolveShopItem starget (playerItems (shop s0)) = Some sellItem"
    "goodBatches k (stalledNext sellItem (tickOf (getState w))) sellItem (tickOf (getState w)) w"
  from sellToShop_all_times_out [OF this]
  show "\<exists>r w'. sellToShop starget All w = Some (r, w') \<and> reason r = None \<and> success r = (0 < k)" .
qed

text \<open>The sentence of the specification fails for the spell: on a session where nothing ever changes
  the wait of \<^verbatim>\<open>castSpellOnNpc\<close> times out and the result is a success without a reason.\<close>

theorem castSpellOnNpc_timeout_counterexample:
  "quiet (castCond (tickOf (getState camping)) (magicXp camp)) camping 3000
   \<and> success (fst (castSpellOnNpc goblinP 1152 3000 camping))
   \<and> reason (fst (castSpellOnNpc goblinP 1152 3000 camping)) \<noteq> Some ''timeout''"
proof -
  have q: "quiet (castCond (tick camp) (magicXp camp)) camping 3000"
    unfolding camping_def
    by (rule quiet_script) (simp add: castCond_def anyMessage_def camp_defs magicXp_def)
  have "fst (castSpellOnNpc goblinP 1152 3000 camping) =
           \<lparr>success = True, message = [Lit ''Splashed on '', Str (npc_name goblin), Lit '' (timeout)''],
            reason = None, hit = Some False, cast_xpGained = Some 0\<rparr>"
    by (rule castSpellOnNpc_times_out [where startState = camp])
       (simp_all add: q, simp_all add: camping_def static_session goblinP_def resolveNpc_def
          findNearbyNpc_def camp_defs text_defs)
  with q show ?thesis by (simp add: camping_def static_session tickOf_def)
qed

text \<open>The actions on sessions where nothing ever changes: a camp with a goblin, a shop
  keeper, a door, a tree, bones on the ground and a small inventory; the same with the
  bank open; the same with a shop open; a yard with a gate three tiles away; a banker; a
  bank booth. On \<open>sticky\<close> the bank closes 5300 ms after the call, on \<open>standstill\<close> the shop
  stops reacting after the first batch: there the timed-out wait ends in a success.\<close>

theorem timeout_results_witness:
  "(\<not> success (fst (attackNpc goblinP 5000 camping))
      \<and> reason (fst (attackNpc goblinP 5000 camping)) = Some ''timeout'')
   \<and> (\<not> success (fst (pickupItem (Pattern (re_has ''bones'')) camping))
      \<and> reason (fst (pickupItem (Pattern (re_has ''bones'')) camping)) = Some ''timeout'')
   \<and> (\<not> success (fst (openDoor None camping))
      \<and> reason (fst (openDoor None camping)) = Some ''timeout'')
   \<and> (\<not> success (fst (depositItem (Pattern (re_has ''logs'')) (-1) banking))
      \<and> reason (fst (depositItem (Pattern (re_has ''logs'')) (-1) banking)) = Some ''timeout'')
   \<and> (\<not> success (fst (withdrawItem 0 1 banking))
      \<and> reason (fst (withdrawItem 0 1 banking)) = Some ''timeout'')
   \<and> (\<not> success (fst (chopTree None camping)) \<and> reason (fst (chopTree None camping)) = None)
   \<and> (\<not> success (fst (burnLogs None camping)) \<and> reason (fst (burnLogs None camping)) = None)
   \<and> (\<not> success (fst (talkTo goblinP camping)) \<and> reason (fst (talkTo goblinP camping)) = None)
   \<and> (\<not> success (fst (equipItem (Pattern (re_has ''sword'')) camping))
      \<and> reason (fst (equipItem (Pattern (re_has ''sword'')) camping)) = None)
   \<and> (\<not> success (fst (unequipItem plainWord (Pattern (re_has ''shield'')) camping))
      \<and> reason (fst (unequipItem plainWord (Pattern (re_has ''shield'')) camping)) = None)
   \<and> (\<not> success (fst (eatFood (Pattern (re_has ''shrimp'')) camping))
      \<and> reason (fst (eatFood (Pattern (re_has ''shrimp'')) camping)) = None)
   \<and> (\<not> success (fst (openShop (Pattern (re_has ''shop keeper'')) camping))
      \<and> reason (fst (openShop (Pattern (re_has ''shop keeper'')) camping)) = None)
   \<and> (\<not> success (fst (buyFromShop (Pattern (re_has ''axe'')) 1 trading))
      \<and> reason (fst (buyFromShop (Pattern (re_has ''axe'')) 1 trading)) = None)
   \<and> (\<exists>r w'. sellToShop (Pattern (re_has ''shrimp'')) (Amount 1) trading = Some (r, w')
         \<and> \<not> success r \<and> reason r = None)
   \<and> (success (fst (castSpellOnNpc goblinP 1152 3000 camping))
      \<and> reason (fst (castSpellOnNpc goblinP 1152 3000 camping)) = None)
   \<and> (\<not> success (fst (openDoor None strolling))
      \<and> reason (fst (openDoor None strolling)) = Some ''timeout'')
   \<and> (\<not> success (fst (openBank 10000 queueing))
      \<and> reason (fst (openBank 10000 queueing)) = Some ''timeout'')
   \<and> (\<not> success (fst (openBank 10000 lobby))
      \<and> reason (fst (openBank 10000 lobby)) = Some ''timeout'')
   \<and> (\<not> success (fst (closeBank 5000 banking)) \<and> reason (fst (closeBank 5000 banking)) = None)
   \<and> (success (fst (closeBank 5000 sticky)) \<and> reason (fst (closeBank 5000 sticky)) = None)
   \<and> (\<not> success (fst (closeShop 5000 trading)) \<and> reason (fst (closeShop 5000 trading)) = None)
   \<and> (\<exists>r w'. sellToShop (Pattern (re_has ''shrimp'')) All trading = Some (r, w')
         \<and> reason r = None \<and> \<not> success r)
   \<and> (\<exists>r w'. sellToShop (Pattern (re_has ''cowhide'')) All standstill = Some (r, w')
         \<and> reason r = None \<and> success r)"
proof -
  note ss = camping_def banking_def trading_def static_session [OF] camp_closed
  note rs = goblinP_def resolveNpc_def findNearbyNpc_def resolveGroundItem_def findGroundItem_def
    resolveLocation_def findNearbyLoc_def getNearbyLocs_def resolveInventoryItem_def
    findInventoryItem_def findEquipmentItem_def resolveShopItem_def findOption_def hasOption_def
    doorPattern_def getSkill_def skillLevel_def tickOf_def interfaceOpen_def
  have dis: "dismissBlockingUI camping = camping"
    unfolding camping_def by (rule static_session) (rule camp_closed)
  have a1: "\<not> success (fst (attackNpc goblinP 5000 camping))
      \<and> reason (fst (attackNpc goblinP 5000 camping)) = Some ''timeout''"
    by (rule timeout_results [where npc = goblin and attackOpt = "\<lparr>op_text = ''Attack'', opIndex = 2\<rparr>",
          THEN conjunct1, THEN mp])
       (simp add: ss rs camp_defs text_defs quiet_script attackCond_def anyMessage_def)
  have a2: "\<not> success (fst (pickupItem (Pattern (re_has ''bones'')) camping))
      \<and> reason (fst (pickupItem (Pattern (re_has ''bones'')) camping)) = Some ''timeout''"
    by (rule timeout_results [where g = bones, THEN conjunct2, THEN conjunct1, THEN mp])
       (simp add: ss rs camp_defs text_defs quiet_script pickupCond_def anyMessage_def)
  have a3: "\<not> success (fst (openDoor None camping))
      \<and> reason (fst (openDoor None camping)) = Some ''timeout''"
    by (rule timeout_results [where d = gate and openOpt = "\<lparr>op_text = ''Open'', opIndex = 1\<rparr>",
          THEN conjunct2, THEN conjunct2, THEN conjunct1, THEN mp])
       (simp add: ss rs camp_defs text_defs quiet_script doorCond_def doorAt_def anyMessage_def)
  have a4: "\<not> success (fst (depositItem (Pattern (re_has ''logs'')) (-1) banking))
      \<and> reason (fst (depositItem (Pattern (re_has ''logs'')) (-1) banking)) = Some ''timeout''"
    by (rule timeout_results [where ?s0.0 = "bankOpen camp" and it = "stack 1 1511 ''Logs'' 1",
          THEN conjunct2, THEN conjunct2, THEN conjunct2, THEN conjunct1, THEN mp])
       (simp add: ss rs camp_defs text_defs quiet_script depositCond_def countOf_def)
  have a5: "\<not> success (fst (withdrawItem 0 1 banking))
      \<and> reason (fst (withdrawItem 0 1 banking)) = Some ''timeout''"
    by (rule timeout_results [where ?s0.0 = "bankOpen camp", THEN conjunct2, THEN conjunct2, THEN conjunct2, THEN conjunct2, THEN conjunct1, THEN mp])
       (simp add: ss rs camp_defs text_defs quiet_script withdrawCond_def)
  have a6: "\<not> success (fst (chopTree None camping)) \<and> reason (fst (chopTree None camping)) = None"
    by (rule timeout_results [where tree = oak, THEN conjunct2, THEN conjunct2, THEN conjunct2, THEN conjunct2, THEN conjunct2, THEN conjunct1, THEN mp])
       (simp add: dis, simp add: ss rs camp_defs text_defs quiet_script chopCond_def)
  have a7: "\<not> success (fst (burnLogs None camping)) \<and> reason (fst (burnLogs None camping)) = None"
    by (rule timeout_results [where tinderbox = "stack 0 590 ''Tinderbox'' 1"
          and lg = "stack 1 1511 ''Logs'' 1", THEN conjunct2, THEN conjunct2, THEN conjunct2, THEN conjunct2, THEN conjunct2, THEN conjunct2, THEN conjunct1, THEN mp])
       (simp add: dis, simp add: ss rs camp_defs text_defs quiet_script burnDone_def
          skillExperience_def anyMessage_def)
  have a8: "\<not> success (fst (talkTo goblinP camping)) \<and> reason (fst (talkTo goblinP camping)) = None"
    by (rule timeout_results [where npc = goblin, THEN conjunct2, THEN conjunct2, THEN conjunct2, THEN conjunct2, THEN conjunct2, THEN conjunct2, THEN conjunct2, THEN conjunct1, THEN mp])
       (simp add: ss rs camp_defs text_defs quiet_script)
  have a9: "\<not> success (fst (equipItem (Pattern (re_has ''sword'')) camping))
      \<and> reason (fst (equipItem (Pattern (re_has ''sword'')) camping)) = None"
    by (rule timeout_results [where it = sword and equipOpt = "\<lparr>op_text = ''Wield'', opIndex = 2\<rparr>",
          THEN conjunct2, THEN conjunct2, THEN conjunct2, THEN conjunct2, THEN conjunct2, THEN conjunct2, THEN conjunct2, THEN conjunct2, THEN conjunct1, THEN mp])
       (simp add: ss rs camp_defs text_defs quiet_script equipCond_def)
  have a10: "\<not> success (fst (unequipItem plainWord (Pattern (re_has ''shield'')) camping))
      \<and> reason (fst (unequipItem plainWord (Pattern (re_has ''shield'')) camping)) = None"
    by (rule timeout_results [where it = "stack 5 1171 ''Wooden shield'' 1", THEN conjunct2, THEN conjunct2, THEN conjunct2, THEN conjunct2, THEN conjunct2, THEN conjunct2, THEN conjunct2, THEN conjunct2, THEN conjunct2, THEN conjunct1, THEN mp])
       (simp add: ss rs camp_defs text_defs quiet_script unequipCond_def)
  have a11: "\<not> success (fst (eatFood (Pattern (re_has ''shrimp'')) camping))
      \<and> reason (fst (eatFood (Pattern (re_has ''shrimp'')) camping)) = None"
    by (rule timeout_results [where it = shrimps and eatOpt = "\<lparr>op_text = ''Eat'', opIndex = 1\<rparr>",
          THEN conjunct2, THEN conjunct2, THEN conjunct2, THEN conjunct2, THEN conjunct2, THEN conjunct2, THEN conjunct2, THEN conjunct2, THEN conjunct2, THEN conjunct2, THEN conjunct1, THEN mp])
       (simp add: ss rs camp_defs text_defs quiet_script eatCond_def)
  have a12: "\<not> success (fst (openShop (Pattern (re_has ''shop keeper'')) camping))
      \<and> reason (fst (openShop (Pattern (re_has ''shop keeper'')) camping)) = None"
    by (rule timeout_results [where npc = keeper and tradeOpt = "\<lparr>op_text = ''Trade'', opIndex = 3\<rparr>",
          THEN conjunct2, THEN conjunct2, THEN conjunct2, THEN conjunct2, THEN conjunct2, THEN conjunct2, THEN conjunct2, THEN conjunct2, THEN conjunct2, THEN conjunct2, THEN conjunct2, THEN conjunct1, THEN mp])
       (simp add: ss rs camp_defs text_defs quiet_script)
  have a13: "\<not> success (fst (buyFromShop (Pattern (re_has ''axe'')) 1 trading))
      \<and> reason (fst (buyFromShop (Pattern (re_has ''axe'')) 1 trading)) = None"
    by (rule timeout_results [where ?s0.0 = store and shopItem = "offer 0 1351 ''Bronze axe'' 5",
          THEN conjunct2, THEN conjunct2, THEN conjunct2, THEN conjunct2, THEN conjunct2, THEN conjunct2, THEN conjunct2, THEN conjunct2, THEN conjunct2, THEN conjunct2, THEN conjunct2, THEN conjunct2, THEN conjunct1, THEN mp])
       (simp add: ss rs camp_defs text_defs quiet_script buyCond_def)
  have a14: "\<exists>r w'. sellToShop (Pattern (re_has ''shrimp'')) (Amount 1) trading = Some (r, w')
         \<and> \<not> success r \<and> reason r = None"
    by (rule timeout_results [where ?s0.0 = store and sellItem = "offer 2 315 ''Shrimps'' 1",
          THEN conjunct2, THEN conjunct2, THEN conjunct2, THEN conjunct2, THEN conjunct2, THEN conjunct2, THEN conjunct2, THEN conjunct2, THEN conjunct2, THEN conjunct2, THEN conjunct2, THEN conjunct2, THEN conjunct2, THEN conjunct1, THEN mp])
       (simp add: ss rs camp_defs text_defs quiet_script sellCond_def anyMessage_def getTotalCount_def)
  have a15: "success (fst (castSpellOnNpc goblinP 1152 3000 camping))
      \<and> reason (fst (castSpellOnNpc goblinP 1152 3000 camping)) = None"
    by (rule timeout_results [where npc = goblin and ?s0.0 = camp, THEN conjunct2, THEN conjunct2, THEN conjunct2, THEN conjunct2, THEN conjunct2, THEN conjunct2, THEN conjunct2, THEN conjunct2, THEN conjunct2, THEN conjunct2, THEN conjunct2, THEN conjunct2, THEN conjunct2, THEN conjunct2, THEN conjunct1, THEN mp])
       (simp add: ss rs camp_defs text_defs quiet_script castCond_def anyMessage_def magicXp_def)
  have yard: "getState strolling = Some (blank\<lparr>tick := 10, nearbyLocs := [farGate]\<rparr>)"
    "clock strolling = 0"
    by (simp_all add: strolling_def script_def getState_def)
  have stroll: "walkTo (loc_x farGate) (loc_z farGate) 3 strolling =
      (\<lparr>success = True, message = at_text ''Already at ('' 3 0, reason = None\<rparr>, strolling)"
    by (simp add: walkTo_def Let_def yard playerOf_def blank_def dist2d_le_iff farGate_def)
  have a16: "\<not> success (fst (openDoor None strolling))
      \<and> reason (fst (openDoor None strolling)) = Some ''timeout''"
    by (rule timeout_results [where d = farGate and openOpt = "\<lparr>op_text = ''Open'', opIndex = 1\<rparr>"
          and ?w1.0 = strolling and refreshedDoor = farGate
          and refreshedOpenOpt = "\<lparr>op_text = ''Open'', opIndex = 1\<rparr>"
          and walkResult = "\<lparr>success = True, message = at_text ''Already at ('' 3 0, reason = None\<rparr>",
          THEN conjunct2, THEN conjunct2, THEN conjunct2, THEN conjunct2, THEN conjunct2, THEN conjunct2, THEN conjunct2, THEN conjunct2, THEN conjunct2, THEN conjunct2, THEN conjunct2, THEN conjunct2, THEN conjunct2, THEN conjunct2, THEN conjunct2, THEN conjunct1, THEN mp])
       (simp add: stroll, simp add: strolling_def static_session rs farGate_def blank_def text_defs
          quiet_script doorCond_def doorAt_def anyMessage_def)
  have dq: "dismissBlockingUI queueing = queueing" "dismissBlockingUI lobby = lobby"
    unfolding queueing_def lobby_def by (rule static_session, simp add: blank_def)+
  have a17: "\<not> success (fst (openBank 10000 queueing))
      \<and> reason (fst (openBank 10000 queueing)) = Some ''timeout''"
    by (rule timeout_results [where banker = teller and bankOpt = "\<lparr>op_text = ''Bank'', opIndex = 2\<rparr>",
          THEN conjunct2, THEN conjunct2, THEN conjunct2, THEN conjunct2, THEN conjunct2, THEN conjunct2, THEN conjunct2, THEN conjunct2, THEN conjunct2, THEN conjunct2, THEN conjunct2, THEN conjunct2, THEN conjunct2, THEN conjunct2, THEN conjunct2, THEN conjunct2, THEN conjunct1, THEN mp])
       (simp add: dq, simp add: queueing_def static_session rs teller_def blank_def text_defs
          quiet_script dialogOpen_def)
  have a18: "\<not> success (fst (openBank 10000 lobby))
      \<and> reason (fst (openBank 10000 lobby)) = Some ''timeout''"
    by (rule timeout_results [where booth = bankBooth
          and bankOpt = "\<lparr>op_text = ''Use-quickly'', opIndex = 2\<rparr>",
          THEN conjunct2, THEN conjunct2, THEN conjunct2, THEN conjunct2, THEN conjunct2, THEN conjunct2, THEN conjunct2, THEN conjunct2, THEN conjunct2, THEN conjunct2, THEN conjunct2, THEN conjunct2, THEN conjunct2, THEN conjunct2, THEN conjunct2, THEN conjunct2, THEN conjunct2, THEN conjunct1, THEN mp])
       (simp add: dq, simp add: lobby_def static_session rs bankBooth_def blank_def text_defs
          quiet_script dialogOpen_def)
  have a19: "\<not> success (fst (closeBank 5000 banking)) \<and> reason (fst (closeBank 5000 banking)) = None"
  proof -
    have o: "interfaceOpen (getState banking)"
      by (simp add: banking_def static_session interfaceOpen_def bankOpen_def)
    have q: "quiet (\<lambda>s. \<not> interfaceOpen (Some s)) banking 5000"
      unfolding banking_def by (rule quiet_script) (simp add: interfaceOpen_def bankOpen_def)
    note r = timeout_results [where w = banking and timeout = 5000, THEN conjunct2, THEN conjunct2, THEN conjunct2, THEN conjunct2, THEN conjunct2, THEN conjunct2, THEN conjunct2, THEN conjunct2, THEN conjunct2, THEN conjunct2, THEN conjunct2, THEN conjunct2, THEN conjunct2, THEN conjunct2, THEN conjunct2, THEN conjunct2, THEN conjunct2, THEN conjunct2, THEN conjunct1,
        THEN mp, OF conjI [OF o q]]
    have "interfaceOpen (getState (snd (closeBank 5000 banking)))"
      unfolding r [THEN conjunct1]
      by (simp add: banking_def script_def getState_def interfaceOpen_def bankOpen_def)
    with r show ?thesis by simp
  qed
  have a20: "success (fst (closeBank 5000 sticky)) \<and> reason (fst (closeBank 5000 sticky)) = None"
  proof -
    have o: "interfaceOpen (getState sticky)"
      by (simp add: sticky_def script_def getState_def interfaceOpen_def bankOpen_def)
    have q: "quiet (\<lambda>s. \<not> interfaceOpen (Some s)) sticky 5000"
      by (simp add: quiet_def holdsAt_def sticky_def script_def interfaceOpen_def bankOpen_def)
    note r = timeout_results [where w = sticky and timeout = 5000, THEN conjunct2, THEN conjunct2, THEN conjunct2, THEN conjunct2, THEN conjunct2, THEN conjunct2, THEN conjunct2, THEN conjunct2, THEN conjunct2, THEN conjunct2, THEN conjunct2, THEN conjunct2, THEN conjunct2, THEN conjunct2, THEN conjunct2, THEN conjunct2, THEN conjunct2, THEN conjunct2, THEN conjunct1,
        THEN mp, OF conjI [OF o q]]
    have "\<not> interfaceOpen (getState (snd (closeBank 5000 sticky)))"
      unfolding r [THEN conjunct1]
      by (simp add: sticky_def script_def getState_def interfaceOpen_def blank_def)
    with r show ?thesis by simp
  qed
  have a21: "\<not> success (fst (closeShop 5000 trading)) \<and> reason (fst (closeShop 5000 trading)) = None"
  proof -
    have o: "shopOpen (getState trading) \<or> interfaceOpen (getState trading)"
      by (simp add: trading_def static_session shopOpen_def store_def)
    have q: "quiet (\<lambda>s. \<not> shop_isOpen (shop s) \<and> \<not> interfaceOpen (Some s)) trading 5000"
      unfolding trading_def by (rule quiet_script) (simp add: store_def)
    note r = timeout_results [where w = trading and timeout = 5000, THEN conjunct2, THEN conjunct2, THEN conjunct2, THEN conjunct2, THEN conjunct2, THEN conjunct2, THEN conjunct2, THEN conjunct2, THEN conjunct2, THEN conjunct2, THEN conjunct2, THEN conjunct2, THEN conjunct2, THEN conjunct2, THEN conjunct2, THEN conjunct2, THEN conjunct2, THEN conjunct2, THEN conjunct2, THEN conjunct1,
        THEN mp, OF conjI [OF o q]]
    have "shopOpen (getState (snd (closeShop 5000 trading)))"
      unfolding r [THEN conjunct1]
      by (simp add: trading_def script_def getState_def shopOpen_def store_def)
    with r show ?thesis by simp
  qed
  have stall: "stalledNext (offer 2 315 ''Shrimps'' 1) 10 trading"
  proof -
    have "batchWait (offer 2 315 ''Shrimps'' 1) 10 trading =
            Some (Inl ConditionTimeout, trading\<lparr>sent := sent trading @ [ShopSell 2 1],
                                              clock := clock trading + 3000\<rparr>)"
      using batchWait_stall [of trading store "offer 2 315 ''Shrimps'' 1" "offer 2 315 ''Shrimps'' 1" 10]
      by (simp add: trading_def static_session quiet_script store_def offer_def sellCond_def
          anyMessage_def getTotalCount_def camp_def blank_def)
    then show ?thesis
      by (simp only: stalledNext_def option.case sum.case prod.case simp_thms)
  qed
  have a22: "\<exists>r w'. sellToShop (Pattern (re_has ''shrimp'')) All trading = Some (r, w')
         \<and> reason r = None \<and> \<not> success r"
    using timeout_results [where w = trading and ?s0.0 = store and starget = "Pattern (re_has ''shrimp'')"
        and sellItem = "offer 2 315 ''Shrimps'' 1" and k = 0, THEN conjunct2, THEN conjunct2, THEN conjunct2, THEN conjunct2, THEN conjunct2, THEN conjunct2, THEN conjunct2, THEN conjunct2, THEN conjunct2, THEN conjunct2, THEN conjunct2, THEN conjunct2, THEN conjunct2, THEN conjunct2, THEN conjunct2, THEN conjunct2, THEN conjunct2, THEN conjunct2, THEN conjunct2, THEN conjunct2] stall
    by (simp add: trading_def static_session rs store_def offer_def camp_def blank_def text_defs)
  have a23: "\<exists>r w'. sellToShop (Pattern (re_has ''cowhide'')) All standstill = Some (r, w')
         \<and> reason r = None \<and> success r"
  proof -
    let ?item = "offer 0 1739 ''Cowhide'' 12"
    let ?w1 = "standstill\<lparr>sent := [ShopSell 0 10], clock := 1\<rparr>"
    have c1: "batchWait ?item 0 standstill = Some (Inr (shopWith (hides 2 5) blank), ?w1)"
      using batchWait_next [of standstill "shopWith (hides 12 5) blank" ?item ?item 0
          "shopWith (hides 2 5) blank"]
      by (simp add: standstill_def shop_defs)
    have q: "quiet (sellCond 1739 0 7) ?w1 3000"
      by (simp add: quiet_def holdsAt_def standstill_def shop_defs)
    have c2: "batchWait ?item 0 ?w1 =
              Some (Inl ConditionTimeout,
                    standstill\<lparr>sent := [ShopSell 0 10, ShopSell 0 2], clock := 3001\<rparr>)"
      using batchWait_stall [of ?w1 "shopWith (hides 2 5) blank" ?item "offer 0 1739 ''Cowhide'' 2" 0] q
      by (simp add: standstill_def shop_defs)
    then have c3: "stalledNext ?item 0 ?w1"
      by (simp only: stalledNext_def option.case sum.case prod.case simp_thms)
    have nr: "noRejection ?item 0 (shopWith (hides 2 5) blank)"
      by (simp add: noRejection_def shopWith_def blank_def)
    have g: "goodBatches 1 (stalledNext ?item 0) ?item 0 standstill"
      unfolding One_nat_def
      by (simp only: goodBatches.simps c1 c3 nr option.case sum.case prod.case simp_thms)
    have st: "getState standstill = Some (shopWith (hides 12 5) blank)"
      by (simp add: standstill_def script_def getState_def)
    have t: "tickOf (getState standstill) = 0" by (simp add: st tickOf_def shopWith_def blank_def)
    have res: "resolveShopItem (Pattern (re_has ''cowhide'')) (playerItems (shop (shopWith (hides 12 5) blank)))
                 = Some ?item"
      by (simp add: resolveShopItem_def shopWith_def hides_def offer_def text_defs)
    have isopen: "shop_isOpen (shop (shopWith (hides 12 5) blank))" by (simp add: shopWith_def)
    from timeout_results [where w = standstill and ?s0.0 = "shopWith (hides 12 5) blank"
        and starget = "Pattern (re_has ''cowhide'')" and sellItem = ?item and k = 1, THEN conjunct2, THEN conjunct2, THEN conjunct2, THEN conjunct2, THEN conjunct2, THEN conjunct2, THEN conjunct2, THEN conjunct2, THEN conjunct2, THEN conjunct2, THEN conjunct2, THEN conjunct2, THEN conjunct2, THEN conjunct2, THEN conjunct2, THEN conjunct2, THEN conjunct2, THEN conjunct2, THEN conjunct2, THEN conjunct2, unfolded t]
      st isopen res g
    show ?thesis by simp
  qed
  from a1 a2 a3 a4 a5 a6 a7 a8 a9 a10 a11 a12 a13 a14 a15 a16 a17 a18 a19 a20 a21 a22 a23
  show ?thesis by blast
qed

end
